theory Spec2Isabelle
  imports Main "HOL-Library.AList"
begin

section \<open>Data model (types/product.ts)\<close>

text \<open>
  The enum \<^verbatim>\<open>ProductState\<close> and the interfaces \<^verbatim>\<open>ProductListing\<close>,
  \<^verbatim>\<open>ProductDetail\<close>, \<^verbatim>\<open>OdooExportStatus\<close>, \<^verbatim>\<open>Product\<close> and \<^verbatim>\<open>ProfileData\<close>.
  A JavaScript object used as a dictionary (\<^verbatim>\<open>Record<string, T>\<close>) is the
  association list of its own keys, in insertion order; an own key is read with
  \<open>map_of\<close> and written with \<open>AList.update\<close>, which replaces the value of a key in
  place and appends a new key at the end. The object that the reconciler builds is read
  by ids that it may not hold, and is modelled with its prototype (\<open>MergedObject\<close>).
\<close>

datatype ProductState = ACTIVE | SOLD | REMOVED

text \<open>
  A JavaScript \<^verbatim>\<open>number\<close> as far as this program looks at it: it is only ever compared
  with \<^verbatim>\<open>!==\<close> and copied. \<open>NaN\<close> is the one value that differs from itself (the
  scraper produces it for a price text without digits); every other value is taken as an
  integer, which is what the scraper's digits-only parse yields.
\<close>

datatype number = NaN | Num int

fun strict_neq :: "number \<Rightarrow> number \<Rightarrow> bool" where
  "strict_neq NaN _ = True"
| "strict_neq _ NaN = True"
| "strict_neq (Num a) (Num b) = (a \<noteq> b)"

text \<open>
  An optional property \<^verbatim>\<open>thumbnail?: string\<close> has three shapes at run time: the key is
  not there, the key is there with the value \<^verbatim>\<open>undefined\<close>, or it holds a string.
  Reading the property gives \<^verbatim>\<open>undefined\<close> in the first two; an object spread copies
  the key only in the last two.
\<close>

datatype 'a optional = Missing | Undefined | Defined 'a

fun read_optional :: "'a optional \<Rightarrow> 'a option" where
  "read_optional Missing = None"
| "read_optional Undefined = None"
| "read_optional (Defined v) = Some v"

record ProductListing =
  ident :: string
  title :: string
  price :: number
  url :: string
  datePosted :: string
  date :: string
  state :: ProductState
  thumbnail :: "string optional"

text \<open>
  A listing object as the store holds it. Besides the keys of \<^verbatim>\<open>ProductListing\<close> it
  may carry index keys: the spread of a string \<^verbatim>\<open>s\<close> into an object literal copies
  the keys \<^verbatim>\<open>"0"\<close>, \<^verbatim>\<open>"1"\<close>, ... of its characters, and the reconciler can be
  brought to spread one (see \<open>spreadValue\<close>). \<open>index_keys\<close> is that string, empty for
  an object without index keys. No function of the program reads these keys.
\<close>

record StoredListing = ProductListing +
  index_keys :: string

text \<open>The listing taken as a stored object: the same keys, no index key.\<close>

definition stored :: "ProductListing \<Rightarrow> StoredListing" where
  "stored listing =
     \<lparr>ident = ident listing, title = title listing, price = price listing, url = url listing,
      datePosted = datePosted listing, date = date listing, state = state listing,
      thumbnail = thumbnail listing, index_keys = []\<rparr>"

record ProductDetail =
  detail_id :: string
  detail_description :: string
  detail_photos :: "string list"
  scrapedAt :: string

record OdooExportStatus =
  exported :: bool
  odooProductId :: "int option"
  lastExportedAt :: "string option"
  exportError :: "string option"

record Product = ProductListing +
  description :: "string option"
  photos :: "string list option"
  detailsScrapedAt :: "string option"
  odooExport :: "OdooExportStatus option"

record ProfileData =
  username :: string
  profileName :: "string option"
  listings :: "(string \<times> StoredListing) list"
  details :: "(string \<times> ProductDetail) list"
  odooExports :: "(string \<times> OdooExportStatus) list option"
  lastScraped :: string

section \<open>Exceptions\<close>

text \<open>
  A thrown value is an \<^verbatim>\<open>Error\<close> object of one of the built-in classes, with its
  message. \<open>String_of_exn\<close> is \<^verbatim>\<open>String(error)\<close>, that is
  \<^verbatim>\<open>Error.prototype.toString\<close>: the class name, then the message when there is one.
\<close>

datatype exn = Error string | TypeError string | RangeError string | SyntaxError string

fun exn_name :: "exn \<Rightarrow> string" where
  "exn_name (Error m) = ''Error''"
| "exn_name (TypeError m) = ''TypeError''"
| "exn_name (RangeError m) = ''RangeError''"
| "exn_name (SyntaxError m) = ''SyntaxError''"

fun exn_message :: "exn \<Rightarrow> string" where
  "exn_message (Error m) = m"
| "exn_message (TypeError m) = m"
| "exn_message (RangeError m) = m"
| "exn_message (SyntaxError m) = m"

definition String_of_exn :: "exn \<Rightarrow> string" where
  "String_of_exn e =
     (if exn_message e = [] then exn_name e else exn_name e @ '': '' @ exn_message e)"

section \<open>Listing store reconciler (entrypoints/background.ts)\<close>

subsection \<open>mergeListingsWithStats\<close>

text \<open>
  \<^verbatim>\<open>const merged = { ...existing }\<close> is a fresh plain object: its own keys are the
  keys of \<open>existing\<close>, its prototype is \<^verbatim>\<open>Object.prototype\<close>. The callback reads it with
  \<^verbatim>\<open>merged[listing.id]\<close>, which looks at the own keys first and then walks the
  prototype chain, and writes it with \<^verbatim>\<open>merged[listing.id] = ...\<close>, which for the key
  \<^verbatim>\<open>__proto__\<close> (unless it is an own key) runs the setter inherited from
  \<^verbatim>\<open>Object.prototype\<close>: the object given becomes the prototype of \<open>merged\<close> and no
  own key is made. So the object is its own keys, \<open>own\<close>, and its prototype, \<open>proto\<close>:
  \<open>None\<close> is \<^verbatim>\<open>Object.prototype\<close>, \<open>Some L\<close> is a listing object \<open>L\<close> (whose own
  prototype is \<^verbatim>\<open>Object.prototype\<close>).
\<close>

record MergedObject =
  own :: "(string \<times> StoredListing) list"
  proto :: "StoredListing option"

text \<open>
  What a read of \<^verbatim>\<open>merged[listing.id]\<close> can give: a listing object; one of the
  built-in objects reached through \<^verbatim>\<open>Object.prototype\<close> (a method such as
  \<^verbatim>\<open>constructor\<close> or \<^verbatim>\<open>toString\<close>, or \<^verbatim>\<open>Object.prototype\<close> itself), which have
  none of the keys of a listing and no enumerable key; a string or a number (a field of a
  listing that is the prototype); or \<^verbatim>\<open>undefined\<close>.
\<close>

datatype jsvalue =
    ListingObject StoredListing
  | BuiltinObject
  | StringValue string
  | NumberValue number
  | UndefinedValue

text \<open>The names of the methods of \<^verbatim>\<open>Object.prototype\<close>, and all the names it defines.\<close>

definition objectPrototypeMethods :: "string list" where
  "objectPrototypeMethods =
     [''constructor'', ''__defineGetter__'', ''__defineSetter__'', ''hasOwnProperty'',
      ''__lookupGetter__'', ''__lookupSetter__'', ''isPrototypeOf'', ''propertyIsEnumerable'',
      ''toString'', ''valueOf'', ''toLocaleString'']"

definition inheritedNames :: "string list" where
  "inheritedNames = ''__proto__'' # objectPrototypeMethods"

text \<open>
  A read that reaches \<^verbatim>\<open>Object.prototype\<close>: the getter \<^verbatim>\<open>__proto__\<close> answers the
  prototype of the object that is read, \<open>prototypeOf\<close>.
\<close>

definition fromObjectPrototype :: "jsvalue \<Rightarrow> string \<Rightarrow> jsvalue" where
  "fromObjectPrototype prototypeOf k =
     (if k = ''__proto__'' then prototypeOf
      else if k \<in> set objectPrototypeMethods then BuiltinObject
      else UndefinedValue)"

fun ProductState_string :: "ProductState \<Rightarrow> string" where
  "ProductState_string ACTIVE = ''ACTIVE''"
| "ProductState_string SOLD = ''SOLD''"
| "ProductState_string REMOVED = ''REMOVED''"

text \<open>
  The own key \<open>k\<close> of a listing object that is a prototype (it has no index key);
  \<open>None\<close> when it has no such key.
\<close>

definition listingKey :: "StoredListing \<Rightarrow> string \<Rightarrow> jsvalue option" where
  "listingKey L k =
     (if k = ''id'' then Some (StringValue (ident L))
      else if k = ''title'' then Some (StringValue (title L))
      else if k = ''price'' then Some (NumberValue (price L))
      else if k = ''url'' then Some (StringValue (url L))
      else if k = ''datePosted'' then Some (StringValue (datePosted L))
      else if k = ''date'' then Some (StringValue (date L))
      else if k = ''state'' then Some (StringValue (ProductState_string (state L)))
      else if k = ''thumbnail'' then
        (case thumbnail L of
           Missing \<Rightarrow> None
         | Undefined \<Rightarrow> Some UndefinedValue
         | Defined t \<Rightarrow> Some (StringValue t))
      else None)"

text \<open>\<^verbatim>\<open>merged[k]\<close>\<close>

definition getProperty :: "MergedObject \<Rightarrow> string \<Rightarrow> jsvalue" where
  "getProperty merged k =
     (case map_of (own merged) k of
        Some v \<Rightarrow> ListingObject v
      | None \<Rightarrow>
          (case proto merged of
             None \<Rightarrow> fromObjectPrototype BuiltinObject k
           | Some L \<Rightarrow>
               (case listingKey L k of
                  Some v \<Rightarrow> v
                | None \<Rightarrow> fromObjectPrototype (ListingObject L) k)))"

text \<open>\<^verbatim>\<open>merged[k] = v\<close>\<close>

definition setProperty :: "MergedObject \<Rightarrow> string \<Rightarrow> StoredListing \<Rightarrow> MergedObject" where
  "setProperty merged k v =
     (if k = ''__proto__'' \<and> map_of (own merged) k = None
      then merged\<lparr>proto := Some v\<rparr>
      else merged\<lparr>own := AList.update k v (own merged)\<rparr>)"

text \<open>\<^verbatim>\<open>if (existingListing)\<close>\<close>

fun truthy :: "jsvalue \<Rightarrow> bool" where
  "truthy (ListingObject v) = True"
| "truthy BuiltinObject = True"
| "truthy (StringValue s) = (s \<noteq> [])"
| "truthy (NumberValue n) = (n \<noteq> NaN \<and> n \<noteq> Num 0)"
| "truthy UndefinedValue = False"

text \<open>The test \<^verbatim>\<open>hasChanged\<close> on a stored listing object.\<close>

definition hasChanged :: "StoredListing \<Rightarrow> ProductListing \<Rightarrow> bool" where
  "hasChanged existingListing listing \<longleftrightarrow>
     title existingListing \<noteq> title listing \<or>
     strict_neq (price existingListing) (price listing) \<or>
     state existingListing \<noteq> state listing \<or>
     datePosted existingListing \<noteq> datePosted listing \<or>
     url existingListing \<noteq> url listing \<or>
     read_optional (thumbnail existingListing) \<noteq> read_optional (thumbnail listing)"

text \<open>
  The same test on whatever the read gave. A value that is not a listing object has no
  \<^verbatim>\<open>title\<close>: the read gives \<^verbatim>\<open>undefined\<close>, which differs from the title of the
  incoming listing, a string.
\<close>

fun hasChangedValue :: "jsvalue \<Rightarrow> ProductListing \<Rightarrow> bool" where
  "hasChangedValue (ListingObject existingListing) listing = hasChanged existingListing listing"
| "hasChangedValue BuiltinObject listing = True"
| "hasChangedValue (StringValue s) listing = True"
| "hasChangedValue (NumberValue n) listing = True"
| "hasChangedValue UndefinedValue listing = True"

text \<open>
  \<^verbatim>\<open>{ ...existingListing, ...listing }\<close>: every key of the incoming listing wins. The
  seven required keys are always there; \<^verbatim>\<open>thumbnail\<close> is copied from the incoming
  listing when it has the key and kept from the stored one otherwise; index keys of the
  stored object stay.
\<close>

definition spreadListing :: "StoredListing \<Rightarrow> ProductListing \<Rightarrow> StoredListing" where
  "spreadListing existingListing listing =
     (stored listing)\<lparr>thumbnail :=
         (case thumbnail listing of
            Missing \<Rightarrow> thumbnail existingListing
          | Undefined \<Rightarrow> Undefined
          | Defined t \<Rightarrow> Defined t),
       index_keys := index_keys existingListing\<rparr>"

text \<open>
  The same spread on whatever the read gave: a string brings the index keys of its
  characters, a number or a built-in object brings no key.
\<close>

fun spreadValue :: "jsvalue \<Rightarrow> ProductListing \<Rightarrow> StoredListing" where
  "spreadValue (ListingObject existingListing) listing = spreadListing existingListing listing"
| "spreadValue (StringValue s) listing = (stored listing)\<lparr>index_keys := s\<rparr>"
| "spreadValue BuiltinObject listing = stored listing"
| "spreadValue (NumberValue n) listing = stored listing"
| "spreadValue UndefinedValue listing = stored listing"

type_synonym mergeAcc = "MergedObject \<times> nat \<times> nat"

text \<open>The body of the \<^verbatim>\<open>forEach\<close> callback, on the triple (merged, added, updated).\<close>

fun mergeStep :: "mergeAcc \<Rightarrow> ProductListing \<Rightarrow> mergeAcc" where
  "mergeStep (merged, added, updated) listing =
     (let existingListing = getProperty merged (ident listing) in
      if truthy existingListing
      then if hasChangedValue existingListing listing
           then (setProperty merged (ident listing) (spreadValue existingListing listing),
                 added, updated + 1)
           else (merged, added, updated)
      else (setProperty merged (ident listing) (stored listing), added + 1, updated))"

definition mergeListingsWithStats ::
  "(string \<times> StoredListing) list \<Rightarrow> ProductListing list \<Rightarrow> mergeAcc" where
  "mergeListingsWithStats existing newListings =
     foldl mergeStep (\<lparr>own = existing, proto = None\<rparr>, 0, 0) newListings"

subsection \<open>The persisted store\<close>

text \<open>
  The item \<^verbatim>\<open>local:profiles\<close> of the extension storage (\<open>None\<close> is \<^verbatim>\<open>null\<close>: never
  written), and the number of storage operations performed so far. A storage operation
  may reject: \<open>storage_fault n\<close> is the exception of the \<open>n\<close>-th operation, if any.
\<close>

record Storage =
  local_profiles :: "(string \<times> ProfileData) list option"
  storage_ops :: nat

type_synonym storage_fault = "nat \<Rightarrow> exn option"

definition getItem ::
  "storage_fault \<Rightarrow> Storage \<Rightarrow> (exn + (string \<times> ProfileData) list option) \<times> Storage" where
  "getItem fault st =
     (case fault (storage_ops st) of
        Some e \<Rightarrow> (Inl e, st\<lparr>storage_ops := storage_ops st + 1\<rparr>)
      | None \<Rightarrow> (Inr (local_profiles st), st\<lparr>storage_ops := storage_ops st + 1\<rparr>))"

definition setItem ::
  "storage_fault \<Rightarrow> (string \<times> ProfileData) list \<Rightarrow> Storage \<Rightarrow> (exn + unit) \<times> Storage" where
  "setItem fault v st =
     (case fault (storage_ops st) of
        Some e \<Rightarrow> (Inl e, st\<lparr>storage_ops := storage_ops st + 1\<rparr>)
      | None \<Rightarrow> (Inr (), st\<lparr>local_profiles := Some v, storage_ops := storage_ops st + 1\<rparr>))"

text \<open>\<^verbatim>\<open>(await storage.getItem(...)) || {}\<close>\<close>

definition or_empty :: "('k \<times> 'v) list option \<Rightarrow> ('k \<times> 'v) list" where
  "or_empty item = (case item of None \<Rightarrow> [] | Some ps \<Rightarrow> ps)"

subsection \<open>handleSaveProducts\<close>

text \<open>
  \<^verbatim>\<open>profileName || existingProfile?.profileName\<close>: the empty string is falsy.
\<close>

definition newProfileName ::
  "string option \<Rightarrow> ProfileData option \<Rightarrow> string option" where
  "newProfileName profileName' existingProfile =
     (case profileName' of
        Some n \<Rightarrow> if n \<noteq> [] then Some n
                  else (case existingProfile of None \<Rightarrow> None | Some p \<Rightarrow> profileName p)
      | None \<Rightarrow> (case existingProfile of None \<Rightarrow> None | Some p \<Rightarrow> profileName p))"

text \<open>
  The result is the pair (added, updated). \<open>now\<close> is the reading of the clock,
  \<^verbatim>\<open>new Date().toISOString()\<close>. Any exception ends in the \<^verbatim>\<open>catch\<close>, which
  answers \<open>(0, 0)\<close>. The object literal written back has no \<^verbatim>\<open>odooExports\<close> key.
  The storage keeps the own keys of the object \<open>merged\<close>.
\<close>

definition handleSaveProducts ::
  "storage_fault \<Rightarrow> string \<Rightarrow> string \<Rightarrow> ProductListing list \<Rightarrow> string option \<Rightarrow>
   Storage \<Rightarrow> (nat \<times> nat) \<times> Storage" where
  "handleSaveProducts fault now username' newProducts profileName' st =
     (case getItem fault st of
        (Inl e, st1) \<Rightarrow> ((0, 0), st1)
      | (Inr item, st1) \<Rightarrow>
          let profiles = or_empty item;
              existingProfile = map_of profiles username';
              existingListings =
                (case existingProfile of None \<Rightarrow> [] | Some p \<Rightarrow> listings p);
              existingDetails =
                (case existingProfile of None \<Rightarrow> [] | Some p \<Rightarrow> details p);
              (merged, added, updated) = mergeListingsWithStats existingListings newProducts;
              profiles' = AList.update username'
                \<lparr>username = username',
                 profileName = newProfileName profileName' existingProfile,
                 listings = own merged,
                 details = existingDetails,
                 odooExports = None,
                 lastScraped = now\<rparr> profiles
          in (case setItem fault profiles' st1 of
                (Inl e, st2) \<Rightarrow> ((0, 0), st2)
              | (Inr u, st2) \<Rightarrow>
                  (case getItem fault st2 of
                     (Inl e, st3) \<Rightarrow> ((0, 0), st3)
                   | (Inr verify, st3) \<Rightarrow> ((added, updated), st3))))"

subsection \<open>markMissingAsRemoved\<close>

text \<open>
  The \<^verbatim>\<open>for\<close> loop over \<^verbatim>\<open>Object.entries(profile.listings)\<close>: the entries are taken
  once, the object is updated by key while they are walked. The accumulator is the object
  and \<^verbatim>\<open>removedCount\<close>.
\<close>

fun markLoop ::
  "string list \<Rightarrow> (string \<times> StoredListing) list \<Rightarrow>
   (string \<times> StoredListing) list \<times> nat \<Rightarrow> (string \<times> StoredListing) list \<times> nat" where
  "markLoop currentIds [] acc = acc"
| "markLoop currentIds ((k, listing) # entries) (obj, removedCount) =
     (if k \<notin> set currentIds \<and> state listing \<noteq> REMOVED
      then markLoop currentIds entries
             (AList.update k (listing\<lparr>state := REMOVED\<rparr>) obj, removedCount + 1)
      else markLoop currentIds entries (obj, removedCount))"

definition markMissingAsRemoved ::
  "storage_fault \<Rightarrow> string \<Rightarrow> string list \<Rightarrow> Storage \<Rightarrow> Storage" where
  "markMissingAsRemoved fault username' currentIds st =
     (case getItem fault st of
        (Inl e, st1) \<Rightarrow> st1
      | (Inr item, st1) \<Rightarrow>
          let profiles = or_empty item in
          (case map_of profiles username' of
             None \<Rightarrow> st1
           | Some profile \<Rightarrow>
               let (obj, removedCount) =
                     markLoop currentIds (listings profile) (listings profile, 0)
               in if removedCount > 0
                  then snd (setItem fault
                              (AList.update username' (profile\<lparr>listings := obj\<rparr>) profiles) st1)
                  else st1))"

text \<open>The listings stored for a seller, as \<^verbatim>\<open>profiles[username]?.listings || {}\<close>.\<close>

definition storedListings :: "Storage \<Rightarrow> string \<Rightarrow> (string \<times> StoredListing) list" where
  "storedListings st username' =
     (case map_of (or_empty (local_profiles st)) username' of
        None \<Rightarrow> []
      | Some p \<Rightarrow> listings p)"

section \<open>Strings\<close>

text \<open>
  A JavaScript string is a list of code units; the type \<open>char\<close> covers the code units
  0 to 255 (Latin-1), which is enough for every character of the keyword tables. The
  functions below are the library methods the program calls, on that range.
\<close>

definition upperChars :: string where
  "upperChars = ''ABCDEFGHIJKLMNOPQRSTUVWXYZ'' @
     [CHR 0xC0, CHR 0xC1, CHR 0xC2, CHR 0xC3, CHR 0xC4, CHR 0xC5, CHR 0xC6, CHR 0xC7,
      CHR 0xC8, CHR 0xC9, CHR 0xCA, CHR 0xCB, CHR 0xCC, CHR 0xCD, CHR 0xCE, CHR 0xCF,
      CHR 0xD0, CHR 0xD1, CHR 0xD2, CHR 0xD3, CHR 0xD4, CHR 0xD5, CHR 0xD6,
      CHR 0xD8, CHR 0xD9, CHR 0xDA, CHR 0xDB, CHR 0xDC, CHR 0xDD, CHR 0xDE]"

definition lowerChars :: string where
  "lowerChars = ''abcdefghijklmnopqrstuvwxyz'' @
     [CHR 0xE0, CHR 0xE1, CHR 0xE2, CHR 0xE3, CHR 0xE4, CHR 0xE5, CHR 0xE6, CHR 0xE7,
      CHR 0xE8, CHR 0xE9, CHR 0xEA, CHR 0xEB, CHR 0xEC, CHR 0xED, CHR 0xEE, CHR 0xEF,
      CHR 0xF0, CHR 0xF1, CHR 0xF2, CHR 0xF3, CHR 0xF4, CHR 0xF5, CHR 0xF6,
      CHR 0xF8, CHR 0xF9, CHR 0xFA, CHR 0xFB, CHR 0xFC, CHR 0xFD, CHR 0xFE]"

definition toLowerChar :: "char \<Rightarrow> char" where
  "toLowerChar c = (case map_of (zip upperChars lowerChars) c of Some d \<Rightarrow> d | None \<Rightarrow> c)"

text \<open>\<^verbatim>\<open>s.toLowerCase()\<close>\<close>

definition toLowerCase :: "string \<Rightarrow> string" where
  "toLowerCase s = map toLowerChar s"

text \<open>
  The class \<^verbatim>\<open>\s\<close> of a regular expression, and the white space that \<^verbatim>\<open>trim\<close>
  removes: tab, line feed, vertical tab, form feed, carriage return, space, no-break space.
\<close>

definition isSpace :: "char \<Rightarrow> bool" where
  "isSpace c \<longleftrightarrow> c \<in> set [CHR 0x09, CHR 0x0A, CHR 0x0B, CHR 0x0C, CHR 0x0D, CHR 0x20, CHR 0xA0]"

text \<open>
  \<^verbatim>\<open>s.split(/\s+/)\<close>: the pieces between the maximal runs of white space. A run at the
  start or at the end leaves an empty piece there, and the empty string gives one empty
  piece. \<open>inRun\<close> says that the previous character was white space, \<open>cur\<close> is the
  piece being read.
\<close>

fun splitSpaces :: "bool \<Rightarrow> string \<Rightarrow> string \<Rightarrow> string list" where
  "splitSpaces inRun cur [] = [cur]"
| "splitSpaces inRun cur (c # cs) =
     (if isSpace c
      then (if inRun then splitSpaces True cur cs else cur # splitSpaces True [] cs)
      else splitSpaces False (cur @ [c]) cs)"

definition split_whitespace :: "string \<Rightarrow> string list" where
  "split_whitespace s = splitSpaces False [] s"

primrec startsWith :: "string \<Rightarrow> string \<Rightarrow> bool" where
  "startsWith s [] = True"
| "startsWith s (k # ks) = (case s of [] \<Rightarrow> False | c # cs \<Rightarrow> c = k \<and> startsWith cs ks)"

text \<open>\<^verbatim>\<open>word.includes(keyword)\<close>\<close>

fun string_includes :: "string \<Rightarrow> string \<Rightarrow> bool" where
  "string_includes [] keyword = (keyword = [])"
| "string_includes (c # cs) keyword = (startsWith (c # cs) keyword \<or> string_includes cs keyword)"

text \<open>\<^verbatim>\<open>s.trim()\<close>\<close>

definition trim :: "string \<Rightarrow> string" where
  "trim s = rev (dropWhile isSpace (rev (dropWhile isSpace s)))"

text \<open>
  \<^verbatim>\<open>s.replace(/Train wagon/gi, "")\<close>: from left to right, every occurrence of the
  phrase is dropped, letters compared without regard to case. The phrase is made of ASCII
  letters and one space, so two characters match when their lower-case forms agree. After
  a match at \<open>c\<close> the scan goes on behind the occurrence, whose other characters are
  the first \<open>length phrase - 1\<close> of \<open>cs\<close>.
\<close>

definition phrase :: string where
  "phrase = ''Train wagon''"

primrec matchesIgnoreCase :: "string \<Rightarrow> string \<Rightarrow> bool" where
  "matchesIgnoreCase s [] = True"
| "matchesIgnoreCase s (k # ks) =
     (case s of [] \<Rightarrow> False
      | c # cs \<Rightarrow> toLowerChar c = toLowerChar k \<and> matchesIgnoreCase cs ks)"

fun removePhrase :: "string \<Rightarrow> string" where
  "removePhrase [] = []"
| "removePhrase (c # cs) =
     (if matchesIgnoreCase (c # cs) phrase
      then removePhrase (drop (length phrase - 1) cs)
      else c # removePhrase cs)"

text \<open>\<^verbatim>\<open>product.title.replace(/Train wagon/gi, "").trim()\<close>\<close>

definition cleanTitle :: "string \<Rightarrow> string" where
  "cleanTitle t = trim (removePhrase t)"

section \<open>Reference data resolver and catalog client (services/odoo.ts)\<close>

subsection \<open>Keyword tables\<close>

definition TAGS_MAP :: "(string \<times> string list) list" where
  "TAGS_MAP =
     [(''Jouef'', [''jouef'']),
      (''Lima'', [''lima'']),
      (''Hornby'', [''hornby'']),
      (''Roco'', [''roco'']),
      (''Piko'', [''piko'']),
      (''M'' @ [CHR 0xE4] @ ''rklin'', [''marklin'', ''m'' @ [CHR 0xE4] @ ''rklin'']),
      (''Fleischmann'', [''fleischmann'']),
      (''H0'', [''ho'']),
      (''SNCF'', [''sncf''])]"

definition CATEGORY_MAP :: "(string \<times> string list) list" where
  "CATEGORY_MAP =
     [(''Wagons'', [''wagon'', ''wagons'', ''voiture'', ''voitures'', ''fourgon'',
                    ''all'' @ [CHR 0xE8] @ ''ge'', ''remorque'']),
      (''Locomotives'', [''locomotive'', ''locomotives'', ''locotracteur'', ''locotender'',
                         ''autorail'']),
      (''Rails'', [''trails'', ''rail'', ''aiguillage'', ''voie'', ''rails'', ''aiguillages'',
                   ''voies'', ''croisement'', ''jonction'', ''tjd'', ''heurtoir'', ''heurtoirs'']),
      (''D'' @ [CHR 0xE9] @ ''cor'', [''personnages'', ''personnage'', ''tunnel'', ''conteneurs'',
                                     ''bureau'']),
      (''Coffrets'', [''coffret'', ''coffrets''])]"

subsection \<open>getTags, getCategory\<close>

text \<open>
  \<^verbatim>\<open>keywords.some((keyword) => titleWords.some((word) => word.includes(keyword)))\<close>
\<close>

definition keywordsMatch :: "string list \<Rightarrow> string list \<Rightarrow> bool" where
  "keywordsMatch titleWords keywords =
     list_ex (\<lambda>keyword. list_ex (\<lambda>word. string_includes word keyword) titleWords) keywords"

definition getTags :: "string \<Rightarrow> string list" where
  "getTags title' =
     (let titleWords = split_whitespace (toLowerCase title')
      in map fst (filter (\<lambda>(brand, keywords). keywordsMatch titleWords keywords) TAGS_MAP))"

definition getCategory :: "string \<Rightarrow> string option" where
  "getCategory title' =
     (let titleWords = split_whitespace (toLowerCase title')
      in map_option fst
           (find (\<lambda>(category, keywords). keywordsMatch titleWords keywords) CATEGORY_MAP))"

subsection \<open>The remote catalog\<close>

text \<open>
  The value sent as \<^verbatim>\<open>vals\<close> to the catalog: the object \<^verbatim>\<open>productData\<close>. A
  replace-all command \<^verbatim>\<open>[[6, 0, ids]]\<close> is given by its list of ids; an optional key
  is \<open>None\<close> when the object does not have it.
\<close>

record payload =
  name :: string
  list_price :: number
  website_published :: bool
  qty_available :: int
  description_ecommerce :: string
  product_tag_ids :: "int list"
  taxes_id :: "int list"
  create_date :: string
  publish_date :: string
  write_date :: string
  image_1920 :: "string option"
  product_template_image_ids :: "int list option"
  categ_id :: "int option"
  public_categ_ids :: "int list option"

text \<open>
  The requests of the service, one constructor for each endpoint, with the part of the
  body that varies. The base URL, the API path and the bearer token of the configuration
  are the same in every request of a service and are left out; \<open>fetch\<close> below stands
  for the catalog at that address.
\<close>

datatype request =
    ProductSearchRead string
  | ProductCreate payload
  | ProductWrite int payload
  | ProductArchive "int list"
  | CategorySearchRead string
  | PublicCategorySearch string
  | TagSearchRead string
  | TaxSearchRead string
  | ImageGet string

text \<open>
  A JSON body as far as the service reads it: \<^verbatim>\<open>null\<close>, a number, or an array, of
  records that each have a numeric \<^verbatim>\<open>id\<close> (a search) or of ids (a creation), given
  by these ids.
\<close>

datatype json = JNull | JNum int | JArray "int list"

text \<open>
  What the service reads of a \<^verbatim>\<open>Response\<close>: \<^verbatim>\<open>ok\<close>, the status and the URL (as
  text, for messages), the content type header, the body text as it is shown in messages
  (\<^verbatim>\<open>JSON.stringify\<close> of the body, or its first 200 characters), the body parsed as JSON
  (\<open>None\<close> when it does not parse), and, for an image, the base64 text that the
  \<^verbatim>\<open>FileReader\<close> data URL carries behind its comma (\<open>None\<close> when there is none or
  the reader fails).
\<close>

record response =
  ok :: bool
  status_text :: string
  response_url :: string
  content_type :: "string option"
  body_preview :: string
  body_json :: "json option"
  body_base64 :: "string option"

text \<open>
  The catalog answers a request, knowing the requests it has received before; \<open>Inl\<close> is
  a rejected \<^verbatim>\<open>fetch\<close> (the network failed).
\<close>

type_synonym remote = "request list \<Rightarrow> request \<Rightarrow> exn + response"

text \<open>
  The state of the module: the four process-wide caches, and the requests sent so far,
  oldest first.
\<close>

record Service =
  TAGS_ID_CACHE :: "(string \<times> int) list"
  CATEGORY_ID_CACHE :: "(string \<times> int) list"
  PUBLIC_CATEGORY_ID_CACHE :: "(string \<times> int) list"
  TAX_ID_CACHE :: "(string \<times> int) list"
  sent :: "request list"

definition fetch :: "remote \<Rightarrow> request \<Rightarrow> Service \<Rightarrow> (exn + response) \<times> Service" where
  "fetch rem req s = (rem (sent s) req, s\<lparr>sent := sent s @ [req]\<rparr>)"

definition isJsonContent :: "response \<Rightarrow> bool" where
  "isJsonContent r =
     (case content_type r of None \<Rightarrow> False | Some ct \<Rightarrow> string_includes ct ''application/json'')"

text \<open>
  \<^verbatim>\<open>raiseForStatus\<close>. With a JSON content type and a body that does not parse, the
  \<^verbatim>\<open>catch\<close> reads the body a second time, which the host refuses with a
  \<^verbatim>\<open>TypeError\<close>.
\<close>

definition raiseForStatus :: "response \<Rightarrow> exn + unit" where
  "raiseForStatus r =
     (if \<not> ok r
      then (if isJsonContent r \<and> body_json r = None
            then Inl (TypeError ''Body has already been consumed.'')
            else Inl (Error (''HTTP error '' @ status_text r @ '' for URL '' @ response_url r
                             @ '': '' @ body_preview r)))
      else Inr ())"

definition parseJsonResponse :: "response \<Rightarrow> exn + json" where
  "parseJsonResponse r =
     (if \<not> isJsonContent r
      then Inl (Error (''Expected JSON response but got ''
                       @ (case content_type r of
                            None \<Rightarrow> ''unknown content type''
                          | Some ct \<Rightarrow> if ct = [] then ''unknown content type'' else ct)
                       @ ''. Response preview: '' @ body_preview r))
      else (case body_json r of
              None \<Rightarrow> Inl (Error ''Failed to parse JSON response: SyntaxError'')
            | Some j \<Rightarrow> Inr j))"

text \<open>
  \<^verbatim>\<open>if (!records || records.length === 0) ... ; records[0].id\<close>: \<open>Inr None\<close> is the
  miss, \<open>Inr (Some i)\<close> the id of the first record. A number other than 0 has no
  \<^verbatim>\<open>length\<close> and no element 0, and reading \<^verbatim>\<open>id\<close> of \<^verbatim>\<open>undefined\<close> throws.
\<close>

fun firstRecordId :: "json \<Rightarrow> exn + int option" where
  "firstRecordId JNull = Inr None"
| "firstRecordId (JNum n) =
     (if n = 0 then Inr None else Inl (TypeError ''Cannot read properties of undefined''))"
| "firstRecordId (JArray []) = Inr None"
| "firstRecordId (JArray (i # rest)) = Inr (Some i)"

text \<open>
  The four lines that every lookup shares: \<^verbatim>\<open>fetch\<close>, \<^verbatim>\<open>raiseForStatus\<close>,
  \<^verbatim>\<open>parseJsonResponse\<close>, first record.
\<close>

definition searchFirstId :: "remote \<Rightarrow> request \<Rightarrow> Service \<Rightarrow> (exn + int option) \<times> Service" where
  "searchFirstId rem req s =
     (case fetch rem req s of
        (Inl e, s1) \<Rightarrow> (Inl e, s1)
      | (Inr resp, s1) \<Rightarrow>
          (case raiseForStatus resp of
             Inl e \<Rightarrow> (Inl e, s1)
           | Inr u \<Rightarrow>
               (case parseJsonResponse resp of
                  Inl e \<Rightarrow> (Inl e, s1)
                | Inr records \<Rightarrow> (firstRecordId records, s1))))"

definition quoted :: "string \<Rightarrow> string" where
  "quoted s = [CHR 0x27] @ s @ [CHR 0x27]"

subsection \<open>searchProduct, archiveProduct\<close>

definition searchProduct :: "remote \<Rightarrow> Product \<Rightarrow> Service \<Rightarrow> (exn + int option) \<times> Service" where
  "searchProduct rem product s = searchFirstId rem (ProductSearchRead (title product)) s"

definition archiveProduct :: "remote \<Rightarrow> int list \<Rightarrow> Service \<Rightarrow> (exn + unit) \<times> Service" where
  "archiveProduct rem productIds s =
     (case fetch rem (ProductArchive productIds) s of
        (Inl e, s1) \<Rightarrow> (Inl e, s1)
      | (Inr resp, s1) \<Rightarrow> (raiseForStatus resp, s1))"

subsection \<open>getCategoryId, getPublicCategoryId, getTagId, getTaxId\<close>

definition getCategoryId :: "remote \<Rightarrow> string \<Rightarrow> Service \<Rightarrow> (exn + int) \<times> Service" where
  "getCategoryId rem categoryName s =
     (case map_of (CATEGORY_ID_CACHE s) categoryName of
        Some cached \<Rightarrow> (Inr cached, s)
      | None \<Rightarrow>
          (case searchFirstId rem (CategorySearchRead categoryName) s of
             (Inl e, s1) \<Rightarrow> (Inl e, s1)
           | (Inr None, s1) \<Rightarrow>
               (Inl (Error (''Category '' @ quoted categoryName @ '' not found in Odoo.'')), s1)
           | (Inr (Some i), s1) \<Rightarrow>
               (Inr i, s1\<lparr>CATEGORY_ID_CACHE :=
                            AList.update categoryName i (CATEGORY_ID_CACHE s1)\<rparr>)))"

definition getPublicCategoryId ::
  "remote \<Rightarrow> string \<Rightarrow> Service \<Rightarrow> (exn + int option) \<times> Service" where
  "getPublicCategoryId rem categoryName s =
     (case map_of (PUBLIC_CATEGORY_ID_CACHE s) categoryName of
        Some cached \<Rightarrow> (Inr (Some cached), s)
      | None \<Rightarrow>
          (case searchFirstId rem (PublicCategorySearch categoryName) s of
             (Inl e, s1) \<Rightarrow> (Inl e, s1)
           | (Inr None, s1) \<Rightarrow> (Inr None, s1)
           | (Inr (Some i), s1) \<Rightarrow>
               (Inr (Some i), s1\<lparr>PUBLIC_CATEGORY_ID_CACHE :=
                                   AList.update categoryName i (PUBLIC_CATEGORY_ID_CACHE s1)\<rparr>)))"

definition getTagId :: "remote \<Rightarrow> string \<Rightarrow> Service \<Rightarrow> (exn + int) \<times> Service" where
  "getTagId rem tagName s =
     (case map_of (TAGS_ID_CACHE s) tagName of
        Some cached \<Rightarrow> (Inr cached, s)
      | None \<Rightarrow>
          (case searchFirstId rem (TagSearchRead tagName) s of
             (Inl e, s1) \<Rightarrow> (Inl e, s1)
           | (Inr None, s1) \<Rightarrow>
               (Inl (Error (''Tag '' @ quoted tagName @ '' not found in Odoo.'')), s1)
           | (Inr (Some i), s1) \<Rightarrow>
               (Inr i, s1\<lparr>TAGS_ID_CACHE := AList.update tagName i (TAGS_ID_CACHE s1)\<rparr>)))"

definition taxName :: string where
  "taxName = ''0% EXEMPT G''"

definition getTaxId :: "remote \<Rightarrow> Service \<Rightarrow> (exn + int) \<times> Service" where
  "getTaxId rem s =
     (case map_of (TAX_ID_CACHE s) taxName of
        Some cached \<Rightarrow> (Inr cached, s)
      | None \<Rightarrow>
          (case searchFirstId rem (TaxSearchRead taxName) s of
             (Inl e, s1) \<Rightarrow> (Inl e, s1)
           | (Inr None, s1) \<Rightarrow>
               (Inl (Error (''Tax '' @ quoted taxName @ '' not found in Odoo.'')), s1)
           | (Inr (Some i), s1) \<Rightarrow>
               (Inr i, s1\<lparr>TAX_ID_CACHE := AList.update taxName i (TAX_ID_CACHE s1)\<rparr>)))"

subsection \<open>stringToHtml, downloadImageAsBase64, loadImages\<close>

definition stringToHtml :: "string \<Rightarrow> string" where
  "stringToHtml s = concat (map (\<lambda>c. if c = CHR 0x0A then ''<br/>'' else [c]) s)"

definition downloadImageAsBase64 ::
  "remote \<Rightarrow> string \<Rightarrow> Service \<Rightarrow> (exn + string option) \<times> Service" where
  "downloadImageAsBase64 rem url' s =
     (case fetch rem (ImageGet url') s of
        (Inl e, s1) \<Rightarrow> (Inl e, s1)
      | (Inr resp, s1) \<Rightarrow>
          if \<not> ok resp then (Inl (Error (''Failed to download image from '' @ url')), s1)
          else (Inr (body_base64 resp), s1))"

text \<open>
  The result is the pair \<^verbatim>\<open>{ firstImage, imageIds }\<close>; a failed download is caught
  and leaves \<^verbatim>\<open>firstImage\<close> at \<^verbatim>\<open>null\<close>.
\<close>

definition loadImages ::
  "remote \<Rightarrow> Product \<Rightarrow> Service \<Rightarrow> (string option \<times> int list) \<times> Service" where
  "loadImages rem product s =
     (case photos product of
        None \<Rightarrow> ((None, []), s)
      | Some [] \<Rightarrow> ((None, []), s)
      | Some (photo # others) \<Rightarrow>
          (case downloadImageAsBase64 rem photo s of
             (Inl e, s1) \<Rightarrow> ((None, []), s1)
           | (Inr firstImage, s1) \<Rightarrow> ((firstImage, []), s1)))"

subsection \<open>productToOdooDict\<close>

text \<open>
  \<^verbatim>\<open>await Promise.all(tags.map((tag) => this.getTagId(tag)))\<close>. Every call runs up to
  its \<^verbatim>\<open>fetch\<close> before any answer is read, so the requests leave in the order of the
  tags, and none is held back by the failure of another. The tags of a title are pairwise
  distinct, so no call reads a cache entry that another one writes. When several calls
  fail, the exception of the first tag in order stands for the one that arrives first.
\<close>

fun getTagIds :: "remote \<Rightarrow> string list \<Rightarrow> Service \<Rightarrow> (exn + int list) \<times> Service" where
  "getTagIds rem [] s = (Inr [], s)"
| "getTagIds rem (tag # tags) s =
     (case getTagId rem tag s of
        (r, s1) \<Rightarrow>
          (case getTagIds rem tags s1 of
             (rs, s2) \<Rightarrow>
               (case r of
                  Inl e \<Rightarrow> (Inl e, s2)
                | Inr i \<Rightarrow> (case rs of Inl e \<Rightarrow> (Inl e, s2) | Inr ids \<Rightarrow> (Inr (i # ids), s2)))))"

definition trailer :: "string \<Rightarrow> string" where
  "trailer url' = ''<br/>Disponible '' @ [CHR 0xE9] @ ''galement sur <a href='' @ quoted url'
                  @ ''>leboncoin.fr</a>''"

text \<open>
  The \<^verbatim>\<open>try\<close> block that sets the category: an exception of either lookup is caught
  and logged, and leaves \<^verbatim>\<open>productData\<close> as it is at that point.
\<close>

definition setCategory ::
  "remote \<Rightarrow> string \<Rightarrow> payload \<Rightarrow> Service \<Rightarrow> payload \<times> Service" where
  "setCategory rem category productData s =
     (case getCategoryId rem category s of
        (Inl e, s1) \<Rightarrow> (productData, s1)
      | (Inr categoryId, s1) \<Rightarrow>
          (case getPublicCategoryId rem category s1 of
             (Inl e, s2) \<Rightarrow> (productData\<lparr>categ_id := Some categoryId\<rparr>, s2)
           | (Inr publicCategoryId, s2) \<Rightarrow>
               (case publicCategoryId of
                  None \<Rightarrow> (productData\<lparr>categ_id := Some categoryId\<rparr>, s2)
                | Some p \<Rightarrow>
                    if p \<noteq> 0
                    then (productData\<lparr>categ_id := Some categoryId,
                                       public_categ_ids := Some [p]\<rparr>, s2)
                    else (productData\<lparr>categ_id := Some categoryId\<rparr>, s2))))"

text \<open>
  The object \<^verbatim>\<open>productData\<close> as it is before the category is set: the literal, then
  \<^verbatim>\<open>image_1920\<close> when \<^verbatim>\<open>firstImage\<close> is a non-empty string, then
  \<^verbatim>\<open>product_template_image_ids\<close> when there are image ids.
\<close>

definition basePayload ::
  "Product \<Rightarrow> int list \<Rightarrow> int \<Rightarrow> string option \<Rightarrow> int list \<Rightarrow> string \<Rightarrow> payload" where
  "basePayload product tagsIds taxId firstImage imageIds createdDate =
     \<lparr>name = title product,
      list_price = price product,
      website_published = True,
      qty_available = 1,
      description_ecommerce =
        stringToHtml (case description product of None \<Rightarrow> [] | Some d \<Rightarrow> d)
        @ trailer (url product),
      product_tag_ids = tagsIds,
      taxes_id = [taxId],
      create_date = createdDate,
      publish_date = createdDate,
      write_date = createdDate,
      image_1920 =
        (case firstImage of None \<Rightarrow> None | Some b \<Rightarrow> if b \<noteq> [] then Some b else None),
      product_template_image_ids = (if length imageIds > 0 then Some imageIds else None),
      categ_id = None,
      public_categ_ids = None\<rparr>"

text \<open>
  \<open>formatDate\<close> is
  \<^verbatim>\<open>new Date(product.date).toISOString().replace("T", " ").split(".")[0]\<close>, the host's
  date arithmetic: \<open>None\<close> when the date does not parse, where \<^verbatim>\<open>toISOString\<close>
  throws a \<^verbatim>\<open>RangeError\<close>.
\<close>

definition productToOdooDict ::
  "remote \<Rightarrow> (string \<Rightarrow> string option) \<Rightarrow> Product \<Rightarrow> Service \<Rightarrow> (exn + payload) \<times> Service" where
  "productToOdooDict rem formatDate product s =
     (let tags = getTags (title product) in
      case getTagIds rem tags s of
        (Inl e, s1) \<Rightarrow> (Inl e, s1)
      | (Inr tagsIds, s1) \<Rightarrow>
          let category = getCategory (title product) in
          (case getTaxId rem s1 of
             (Inl e, s2) \<Rightarrow> (Inl e, s2)
           | (Inr taxId, s2) \<Rightarrow>
               (case loadImages rem product s2 of
                  ((firstImage, imageIds), s3) \<Rightarrow>
                    (case formatDate (date product) of
                       None \<Rightarrow> (Inl (RangeError ''Invalid time value''), s3)
                     | Some createdDate \<Rightarrow>
                         let productData =
                               basePayload product tagsIds taxId firstImage imageIds createdDate
                         in (case category of
                               None \<Rightarrow> (Inr productData, s3)
                             | Some c \<Rightarrow>
                                 if c \<noteq> []
                                 then (case setCategory rem c productData s3 of
                                         (productData', s4) \<Rightarrow> (Inr productData', s4))
                                 else (Inr productData, s3))))))"

subsection \<open>createProduct, updateProduct\<close>

text \<open>
  \<^verbatim>\<open>Array.isArray(productIds) ? productIds[0] : productIds\<close>; \<open>None\<close> is
  \<^verbatim>\<open>undefined\<close> or \<^verbatim>\<open>null\<close>.
\<close>

fun createdId :: "json \<Rightarrow> int option" where
  "createdId JNull = None"
| "createdId (JNum n) = Some n"
| "createdId (JArray []) = None"
| "createdId (JArray (i # rest)) = Some i"

definition createProduct ::
  "remote \<Rightarrow> (string \<Rightarrow> string option) \<Rightarrow> Product \<Rightarrow> Service \<Rightarrow>
   (exn + int option) \<times> Service" where
  "createProduct rem formatDate product s =
     (case productToOdooDict rem formatDate product s of
        (Inl e, s1) \<Rightarrow> (Inl e, s1)
      | (Inr productData, s1) \<Rightarrow>
          (case fetch rem (ProductCreate productData) s1 of
             (Inl e, s2) \<Rightarrow> (Inl e, s2)
           | (Inr resp, s2) \<Rightarrow>
               (case raiseForStatus resp of
                  Inl e \<Rightarrow> (Inl e, s2)
                | Inr u \<Rightarrow>
                    (case parseJsonResponse resp of
                       Inl e \<Rightarrow> (Inl e, s2)
                     | Inr productIds \<Rightarrow> (Inr (createdId productIds), s2)))))"

definition updateProduct ::
  "remote \<Rightarrow> (string \<Rightarrow> string option) \<Rightarrow> int \<Rightarrow> Product \<Rightarrow> Service \<Rightarrow>
   (exn + unit) \<times> Service" where
  "updateProduct rem formatDate productId product s =
     (case productToOdooDict rem formatDate product s of
        (Inl e, s1) \<Rightarrow> (Inl e, s1)
      | (Inr productData, s1) \<Rightarrow>
          (case fetch rem (ProductWrite productId productData) s1 of
             (Inl e, s2) \<Rightarrow> (Inl e, s2)
           | (Inr resp, s2) \<Rightarrow> (raiseForStatus resp, s2)))"

subsection \<open>exportProduct, exportProducts\<close>

text \<open>
  \<^verbatim>\<open>OdooExportResult\<close> and \<^verbatim>\<open>OdooBulkExportResult\<close>. The optional flags
  \<^verbatim>\<open>created\<close>, \<^verbatim>\<open>updated\<close>, \<^verbatim>\<open>archived\<close> are only ever \<^verbatim>\<open>true\<close> or absent and
  only tested for truth: \<open>False\<close> is the absent flag.
\<close>

record OdooExportResult =
  res_success :: bool
  res_productId :: "int option"
  res_created :: bool
  res_updated :: bool
  res_archived :: bool
  res_error :: "string option"

record OdooBulkExportResult =
  bulk_success :: bool
  bulk_created :: nat
  bulk_updated :: nat
  bulk_archived :: nat
  bulk_errors :: "(string \<times> string) list"

definition succeeded :: "int option \<Rightarrow> OdooExportResult" where
  "succeeded pid = \<lparr>res_success = True, res_productId = pid, res_created = False,
                    res_updated = False, res_archived = False, res_error = None\<rparr>"

text \<open>The object that the \<^verbatim>\<open>catch\<close> of \<^verbatim>\<open>exportProduct\<close> returns.\<close>

definition failed :: "exn \<Rightarrow> OdooExportResult" where
  "failed e = \<lparr>res_success = False, res_productId = None, res_created = False,
               res_updated = False, res_archived = False,
               res_error = Some (String_of_exn e)\<rparr>"

definition exportProduct ::
  "remote \<Rightarrow> (string \<Rightarrow> string option) \<Rightarrow> Product \<Rightarrow> bool \<Rightarrow> Service \<Rightarrow>
   OdooExportResult \<times> Service" where
  "exportProduct rem formatDate product overwriteExisting s =
     (case searchProduct rem product s of
        (Inl e, s1) \<Rightarrow> (failed e, s1)
      | (Inr None, s1) \<Rightarrow>
          (case createProduct rem formatDate product s1 of
             (Inl e, s2) \<Rightarrow> (failed e, s2)
           | (Inr productId, s2) \<Rightarrow> ((succeeded productId)\<lparr>res_created := True\<rparr>, s2))
      | (Inr (Some existingProductId), s1) \<Rightarrow>
          if state product = SOLD \<or> state product = REMOVED
          then (case archiveProduct rem [existingProductId] s1 of
                  (Inl e, s2) \<Rightarrow> (failed e, s2)
                | (Inr u, s2) \<Rightarrow>
                    ((succeeded (Some existingProductId))\<lparr>res_archived := True\<rparr>, s2))
          else if overwriteExisting
          then (case updateProduct rem formatDate existingProductId product s1 of
                  (Inl e, s2) \<Rightarrow> (failed e, s2)
                | (Inr u, s2) \<Rightarrow>
                    ((succeeded (Some existingProductId))\<lparr>res_updated := True\<rparr>, s2))
          else (succeeded (Some existingProductId), s1))"

type_synonym bulkAcc = "nat \<times> nat \<times> nat \<times> (string \<times> string) list"

text \<open>
  The \<^verbatim>\<open>for\<close> loop of \<^verbatim>\<open>exportProducts\<close>, on the counters \<^verbatim>\<open>created\<close>,
  \<^verbatim>\<open>updated\<close>, \<^verbatim>\<open>archived\<close> and the array \<^verbatim>\<open>errors\<close>. A failed result is
  recorded when its \<^verbatim>\<open>error\<close> is a non-empty string.
\<close>

fun exportLoop ::
  "remote \<Rightarrow> (string \<Rightarrow> string option) \<Rightarrow> bool \<Rightarrow> Product list \<Rightarrow> bulkAcc \<Rightarrow> Service \<Rightarrow>
   bulkAcc \<times> Service" where
  "exportLoop rem formatDate overwriteExisting [] acc s = (acc, s)"
| "exportLoop rem formatDate overwriteExisting (product # rest) (c, u, a, errors) s =
     (case exportProduct rem formatDate product overwriteExisting s of
        (result, s1) \<Rightarrow>
          if res_success result
          then exportLoop rem formatDate overwriteExisting rest
                 (if res_created result then c + 1 else c,
                  if res_updated result then u + 1 else u,
                  if res_archived result then a + 1 else a,
                  errors) s1
          else (case res_error result of
                  Some m \<Rightarrow>
                    if m \<noteq> []
                    then exportLoop rem formatDate overwriteExisting rest
                           (c, u, a, errors @ [(ident product, m)]) s1
                    else exportLoop rem formatDate overwriteExisting rest (c, u, a, errors) s1
                | None \<Rightarrow> exportLoop rem formatDate overwriteExisting rest (c, u, a, errors) s1))"

definition exportProducts ::
  "remote \<Rightarrow> (string \<Rightarrow> string option) \<Rightarrow> Product list \<Rightarrow> bool \<Rightarrow> Service \<Rightarrow>
   OdooBulkExportResult \<times> Service" where
  "exportProducts rem formatDate products overwriteExisting s =
     (case exportLoop rem formatDate overwriteExisting products (0, 0, 0, []) s of
        ((c, u, a, errors), s1) \<Rightarrow>
          (\<lparr>bulk_success = (errors = []), bulk_created = c, bulk_updated = u,
            bulk_archived = a, bulk_errors = errors\<rparr>, s1))"

section \<open>Export handlers (entrypoints/background.ts)\<close>

text \<open>
  The handlers work on the extension storage and on the state of the service module.
  \<^verbatim>\<open>createOdooService(config)\<close> only normalises the address of the catalog, which the
  requests of this model do not carry.
\<close>





section \<open>Vocabulary of the statements\<close>

text \<open>
  The catalog answers a lookup with no record, or with records of which the first has the
  id \<open>i\<close>: a successful JSON response whose body reads so.
\<close>

definition emptyAnswer :: "response \<Rightarrow> bool" where
  "emptyAnswer r \<longleftrightarrow>
     ok r \<and> isJsonContent r \<and>
     (case body_json r of None \<Rightarrow> False | Some j \<Rightarrow> firstRecordId j = Inr None)"

definition idAnswer :: "int \<Rightarrow> response \<Rightarrow> bool" where
  "idAnswer i r \<longleftrightarrow>
     ok r \<and> isJsonContent r \<and>
     (case body_json r of None \<Rightarrow> False | Some j \<Rightarrow> firstRecordId j = Inr (Some i))"

text \<open>The requests that change the catalog: create, update, archive.\<close>

fun terminal :: "request \<Rightarrow> bool" where
  "terminal (ProductCreate pd) = True"
| "terminal (ProductWrite i pd) = True"
| "terminal (ProductArchive ids) = True"
| "terminal other = False"

fun isProductSearch :: "request \<Rightarrow> bool" where
  "isProductSearch (ProductSearchRead t) = True"
| "isProductSearch other = False"

text \<open>The requests sent between two states of the service.\<close>

definition sentSince :: "Service \<Rightarrow> Service \<Rightarrow> request list" where
  "sentSince s s' = drop (length (sent s)) (sent s')"

text \<open>
  \<open>extends P s s'\<close>: the state \<open>s'\<close> has the requests of \<open>s\<close> followed by new ones that
  all satisfy \<open>P\<close>.
\<close>

definition extends :: "(request \<Rightarrow> bool) \<Rightarrow> Service \<Rightarrow> Service \<Rightarrow> bool" where
  "extends P s s' \<longleftrightarrow> (\<exists>new. sent s' = sent s @ new \<and> list_all P new)"


text \<open>
  The batch as the specification tells it: the products are exported one after the other,
  in the order of the input; each outcome is kept with its product.
\<close>

fun outcomesInOrder ::
  "remote \<Rightarrow> (string \<Rightarrow> string option) \<Rightarrow> bool \<Rightarrow> Product list \<Rightarrow> Service \<Rightarrow>
   (Product \<times> OdooExportResult) list" where
  "outcomesInOrder rem formatDate overwriteExisting [] s = []"
| "outcomesInOrder rem formatDate overwriteExisting (product # rest) s =
     (case exportProduct rem formatDate product overwriteExisting s of
        (result, s1) \<Rightarrow> (product, result) # outcomesInOrder rem formatDate overwriteExisting rest s1)"

text \<open>
  \<open>lookupsAllowed P t\<close>: every lookup that the mapping of a product with the title \<open>t\<close>
  may send satisfies \<open>P\<close>.
\<close>

definition lookupsAllowed :: "(request \<Rightarrow> bool) \<Rightarrow> string \<Rightarrow> bool" where
  "lookupsAllowed P t \<longleftrightarrow>
     list_all (\<lambda>x. P (TagSearchRead x)) (getTags t) \<and>
     P (TaxSearchRead taxName) \<and>
     (\<forall>u. P (ImageGet u)) \<and>
     (\<forall>c. getCategory t = Some c \<longrightarrow> P (CategorySearchRead c) \<and> P (PublicCategorySearch c))"

text \<open>A lookup: a request that is neither a product search nor a change of the catalog.\<close>

definition lookup :: "request \<Rightarrow> bool" where
  "lookup r \<longleftrightarrow> \<not> terminal r \<and> \<not> isProductSearch r"

text \<open>The state of the service when the product search of \<open>p\<close> has been sent.\<close>

definition afterSearch :: "Service \<Rightarrow> Product \<Rightarrow> Service" where
  "afterSearch s p = s\<lparr>sent := sent s @ [ProductSearchRead (title p)]\<rparr>"

section \<open>Sample data\<close>

definition wagonA :: ProductListing where
  "wagonA = \<lparr>ident = ''1'', title = ''Wagon Jouef'', price = Num 10, url = ''https://x/ad/1'',
             datePosted = ''01/02/2024'', date = ''2024-02-01T00:00:00.000Z'',
             state = ACTIVE, thumbnail = Defined ''https://x/1.jpg''\<rparr>"

definition wagonA_repriced :: ProductListing where
  "wagonA_repriced = wagonA\<lparr>price := Num 20\<rparr>"

definition wagonA_no_thumbnail :: ProductListing where
  "wagonA_no_thumbnail = wagonA\<lparr>thumbnail := Missing\<rparr>"

definition locoB :: ProductListing where
  "locoB = \<lparr>ident = ''2'', title = ''Locomotive Roco'', price = Num 55, url = ''https://x/ad/2'',
            datePosted = ''03/02/2024'', date = ''2024-02-03T00:00:00.000Z'',
            state = SOLD, thumbnail = Undefined\<rparr>"

definition railC :: ProductListing where
  "railC = \<lparr>ident = ''3'', title = ''Rails Jouef'', price = NaN, url = ''https://x/ad/3'',
            datePosted = ''N/A'', date = ''2024-02-04T00:00:00.000Z'',
            state = ACTIVE, thumbnail = Undefined\<rparr>"

definition goneD :: ProductListing where
  "goneD = \<lparr>ident = ''4'', title = ''Coffret Lima'', price = Num 30, url = ''https://x/ad/4'',
            datePosted = ''05/02/2024'', date = ''2024-02-05T00:00:00.000Z'',
            state = REMOVED, thumbnail = Missing\<rparr>"

text \<open>Listings whose id is the name of a property that every object inherits.\<close>

definition constructorK :: ProductListing where
  "constructorK = wagonA\<lparr>ident := ''constructor''\<rparr>"

definition protoK :: ProductListing where
  "protoK = wagonA\<lparr>ident := ''__proto__''\<rparr>"

definition sellerP :: ProfileData where
  "sellerP = \<lparr>username = ''alice'', profileName = Some ''Alice'',
              listings = [(''1'', stored wagonA), (''2'', stored locoB), (''4'', stored goneD)],
              details = [],
              odooExports = Some [(''1'', \<lparr>exported = True, odooProductId = Some 7,
                                          lastExportedAt = Some ''2024-02-02'',
                                          exportError = None\<rparr>)],
              lastScraped = ''2024-02-02T10:00:00.000Z''\<rparr>"

definition storeS :: Storage where
  "storeS = \<lparr>local_profiles = Some [(''alice'', sellerP)], storage_ops = 0\<rparr>"

definition no_fault :: storage_fault where
  "no_fault n = None"

subsection \<open>A sample catalog\<close>

definition jsonResponse :: "json \<Rightarrow> response" where
  "jsonResponse j = \<lparr>ok = True, status_text = ''200'', response_url = ''https://shop/json/2'',
                     content_type = Some ''application/json; charset=utf-8'',
                     body_preview = [], body_json = Some j, body_base64 = None\<rparr>"

text \<open>
  A catalog that knows the tags Jouef (1), SNCF (2) and Roco (3) but not Lima, the tax
  (9), the category Wagons (5) and no public category, that holds one product, named
  \<open>Locomotive Roco\<close> (41), and that serves no image.
\<close>

fun shopRemote :: remote where
  "shopRemote h (ProductSearchRead t) =
     Inr (jsonResponse (JArray (if t = ''Locomotive Roco'' then [41] else [])))"
| "shopRemote h (ProductCreate pd) = Inr (jsonResponse (JArray [100 + int (length h)]))"
| "shopRemote h (ProductWrite i pd) = Inr (jsonResponse JNull)"
| "shopRemote h (ProductArchive ids) = Inr (jsonResponse JNull)"
| "shopRemote h (CategorySearchRead c) =
     Inr (jsonResponse (JArray (if c = ''Wagons'' then [5] else [])))"
| "shopRemote h (PublicCategorySearch c) = Inr (jsonResponse (JArray []))"
| "shopRemote h (TagSearchRead t) =
     Inr (jsonResponse (JArray (if t = ''Jouef'' then [1] else if t = ''SNCF'' then [2]
                                else if t = ''Roco'' then [3] else [])))"
| "shopRemote h (TaxSearchRead t) = Inr (jsonResponse (JArray [9]))"
| "shopRemote h (ImageGet u) = Inl (TypeError ''Failed to fetch'')"

definition freshService :: Service where
  "freshService = \<lparr>TAGS_ID_CACHE = [], CATEGORY_ID_CACHE = [], PUBLIC_CATEGORY_ID_CACHE = [],
                   TAX_ID_CACHE = [], sent = []\<rparr>"

definition plainDate :: "string \<Rightarrow> string option" where
  "plainDate d = (if d = ''N/A'' then None else Some d)"

definition productOf :: "string \<Rightarrow> string \<Rightarrow> ProductState \<Rightarrow> Product" where
  "productOf i t st =
     \<lparr>ident = i, title = t, price = Num 25, url = ''https://x/ad/'' @ i,
      datePosted = ''01/02/2024'', date = ''2024-02-01 00:00:00'', state = st,
      thumbnail = Missing, description = Some ''Bon etat'', photos = None,
      detailsScrapedAt = None, odooExport = None\<rparr>"

definition errorResponse :: response where
  "errorResponse = \<lparr>ok = False, status_text = ''500'', response_url = ''https://shop/json/2'',
                     content_type = Some ''text/html'', body_preview = ''Internal Server Error'',
                     body_json = None, body_base64 = None\<rparr>"

text \<open>A catalog that cannot be reached, and one that refuses every update and archiving.\<close>

definition deadRemote :: remote where
  "deadRemote h req = Inl (TypeError ''Failed to fetch'')"

fun readOnlyRemote :: remote where
  "readOnlyRemote h (ProductWrite i pd) = Inr errorResponse"
| "readOnlyRemote h (ProductArchive ids) = Inr errorResponse"
| "readOnlyRemote h req = shopRemote h req"

text \<open>A catalog like the sample one, without the tax.\<close>

fun noTaxRemote :: remote where
  "noTaxRemote h (TaxSearchRead t) = Inr (jsonResponse (JArray []))"
| "noTaxRemote h req = shopRemote h req"

section \<open>Properties of the reconciler\<close>

lemma setProperty_other:
  "k \<noteq> k' \<Longrightarrow> map_of (own (setProperty m k' v)) k = map_of (own m) k"
  by (simp add: setProperty_def update_conv')

lemma setProperty_dom:
  "map_of (own m) k \<noteq> None \<Longrightarrow> map_of (own (setProperty m k' v)) k \<noteq> None"
  by (simp add: setProperty_def update_conv')

lemma mergeStep_other:
  "k \<noteq> ident l \<Longrightarrow> map_of (own (fst (mergeStep acc l))) k = map_of (own (fst acc)) k"
  by (cases acc) (simp add: Let_def setProperty_other)

lemma mergeStep_dom:
  "map_of (own (fst acc)) k \<noteq> None \<Longrightarrow> map_of (own (fst (mergeStep acc l))) k \<noteq> None"
proof (cases acc)
  case (fields m a u)
  assume "map_of (own (fst acc)) k \<noteq> None"
  with fields have "map_of (own m) k \<noteq> None" by simp
  then have "map_of (own (setProperty m k' v)) k \<noteq> None" for k' v
    by (rule setProperty_dom)
  then have "map_of (own (fst (mergeStep (m, a, u) l))) k \<noteq> None"
    using \<open>map_of (own m) k \<noteq> None\<close> by (simp add: Let_def)
  with fields show ?thesis by simp
qed

lemma foldl_mergeStep_frame:
  "k \<notin> ident ` set xs \<Longrightarrow>
   map_of (own (fst (foldl mergeStep acc xs))) k = map_of (own (fst acc)) k"
  by (induction xs arbitrary: acc) (simp_all add: mergeStep_other)

lemma foldl_mergeStep_dom:
  "map_of (own (fst acc)) k \<noteq> None \<Longrightarrow> map_of (own (fst (foldl mergeStep acc xs))) k \<noteq> None"
proof (induction xs arbitrary: acc)
  case Nil
  then show ?case by simp
next
  case (Cons x xs)
  from Cons.prems have "map_of (own (fst (mergeStep acc x))) k \<noteq> None"
    by (rule mergeStep_dom)
  then have "map_of (own (fst (foldl mergeStep (mergeStep acc x) xs))) k \<noteq> None"
    by (rule Cons.IH)
  then show ?case by simp
qed

text \<open>
  As long as no listing has the id \<^verbatim>\<open>__proto__\<close>, the prototype stays
  \<^verbatim>\<open>Object.prototype\<close>, and every listing met is stored under its id.
\<close>

lemma getProperty_plain:
  "proto m = None \<Longrightarrow> k \<noteq> ''__proto__'' \<Longrightarrow>
   getProperty m k =
     (case map_of (own m) k of
        Some v \<Rightarrow> ListingObject v
      | None \<Rightarrow> if k \<in> set objectPrototypeMethods then BuiltinObject else UndefinedValue)"
  by (simp add: getProperty_def fromObjectPrototype_def split: option.splits)

lemma mergeStep_proto:
  "proto (fst acc) = None \<Longrightarrow> ident l \<noteq> ''__proto__'' \<Longrightarrow> proto (fst (mergeStep acc l)) = None"
  by (cases acc) (simp add: Let_def setProperty_def)


lemma mergeStep_same:
  "proto (fst acc) = None \<Longrightarrow> ident l \<noteq> ''__proto__'' \<Longrightarrow>
   map_of (own (fst (mergeStep acc l))) (ident l) =
     Some (case map_of (own (fst acc)) (ident l) of
             None \<Rightarrow> stored l
           | Some e \<Rightarrow> if hasChanged e l then spreadListing e l else e)"
  by (cases acc)
     (simp add: Let_def getProperty_plain setProperty_def update_conv' split: option.splits)

lemma foldl_mergeStep_lookup:
  "distinct (map ident xs) \<Longrightarrow> l \<in> set xs \<Longrightarrow>
   proto (fst acc) = None \<Longrightarrow> \<forall>l\<in>set xs. ident l \<noteq> ''__proto__'' \<Longrightarrow>
   map_of (own (fst (foldl mergeStep acc xs))) (ident l) =
     Some (case map_of (own (fst acc)) (ident l) of
             None \<Rightarrow> stored l
           | Some e \<Rightarrow> if hasChanged e l then spreadListing e l else e)"
proof (induction xs arbitrary: acc)
  case Nil
  then show ?case by simp
next
  case (Cons x xs)
  from Cons.prems have px: "ident x \<noteq> ''__proto__''"
    and pxs: "\<forall>l\<in>set xs. ident l \<noteq> ''__proto__''"
    by simp_all
  show ?case
  proof (cases "l = x")
    case True
    with Cons.prems have "ident l \<notin> ident ` set xs" by auto
    then have "map_of (own (fst (foldl mergeStep (mergeStep acc x) xs))) (ident l) =
               map_of (own (fst (mergeStep acc x))) (ident l)"
      by (rule foldl_mergeStep_frame)
    with True Cons.prems(3) px show ?thesis
      by (simp add: mergeStep_same split: option.splits)
  next
    case False
    with Cons.prems have mem: "l \<in> set xs" by simp
    from Cons.prems have "ident x \<notin> ident ` set xs" by simp
    with mem have ne: "ident l \<noteq> ident x" by (metis imageI)
    from Cons.prems have d: "distinct (map ident xs)" by simp
    have p: "proto (fst (mergeStep acc x)) = None"
      using Cons.prems(3) px by (rule mergeStep_proto)
    from Cons.IH [OF d mem p pxs] ne
    show ?thesis by (simp add: mergeStep_other)
  qed
qed

text \<open>
  The counts, when moreover no id is the name of a method of \<^verbatim>\<open>Object.prototype\<close>.
\<close>

lemma mergeStep_counts:
  "proto (fst acc) = None \<Longrightarrow> ident l \<notin> set inheritedNames \<Longrightarrow>
   fst (snd (mergeStep acc l)) =
     fst (snd acc) + (if map_of (own (fst acc)) (ident l) = None then 1 else 0) \<and>
   snd (snd (mergeStep acc l)) =
     snd (snd acc) + (case map_of (own (fst acc)) (ident l) of
                        None \<Rightarrow> 0 | Some e \<Rightarrow> if hasChanged e l then 1 else 0)"
  by (cases acc)
     (simp add: Let_def getProperty_plain inheritedNames_def split: option.splits)

lemma foldl_mergeStep_added:
  "distinct (map ident xs) \<Longrightarrow>
   proto (fst acc) = None \<Longrightarrow> \<forall>l\<in>set xs. ident l \<notin> set inheritedNames \<Longrightarrow>
   fst (snd (foldl mergeStep acc xs)) =
     fst (snd acc) + length (filter (\<lambda>l. map_of (own (fst acc)) (ident l) = None) xs)"
proof (induction xs arbitrary: acc)
  case Nil
  then show ?case by simp
next
  case (Cons x xs)
  from Cons.prems have nin: "ident x \<notin> ident ` set xs" and d: "distinct (map ident xs)"
    and ix: "ident x \<notin> set inheritedNames"
    and ixs: "\<forall>l\<in>set xs. ident l \<notin> set inheritedNames"
    by simp_all
  from ix have px: "ident x \<noteq> ''__proto__''" by (auto simp: inheritedNames_def)
  have p: "proto (fst (mergeStep acc x)) = None"
    using Cons.prems(2) px by (rule mergeStep_proto)
  have same: "filter (\<lambda>l. map_of (own (fst (mergeStep acc x))) (ident l) = None) xs =
              filter (\<lambda>l. map_of (own (fst acc)) (ident l) = None) xs"
  proof (rule filter_cong [OF refl])
    fix l assume "l \<in> set xs"
    with nin have "ident l \<noteq> ident x" by (metis imageI)
    then show "(map_of (own (fst (mergeStep acc x))) (ident l) = None) =
               (map_of (own (fst acc)) (ident l) = None)"
      by (simp add: mergeStep_other)
  qed
  have step: "fst (snd (mergeStep acc x)) =
              fst (snd acc) + (if map_of (own (fst acc)) (ident x) = None then 1 else 0)"
    using mergeStep_counts [OF Cons.prems(2) ix] by (rule conjunct1)
  from Cons.IH [OF d p ixs] same step show ?case by simp
qed

lemma foldl_mergeStep_updated:
  "distinct (map ident xs) \<Longrightarrow>
   proto (fst acc) = None \<Longrightarrow> \<forall>l\<in>set xs. ident l \<notin> set inheritedNames \<Longrightarrow>
   snd (snd (foldl mergeStep acc xs)) =
     snd (snd acc) +
     length (filter (\<lambda>l. case map_of (own (fst acc)) (ident l) of
                            None \<Rightarrow> False | Some e \<Rightarrow> hasChanged e l) xs)"
proof (induction xs arbitrary: acc)
  case Nil
  then show ?case by simp
next
  case (Cons x xs)
  from Cons.prems have nin: "ident x \<notin> ident ` set xs" and d: "distinct (map ident xs)"
    and ix: "ident x \<notin> set inheritedNames"
    and ixs: "\<forall>l\<in>set xs. ident l \<notin> set inheritedNames"
    by simp_all
  from ix have px: "ident x \<noteq> ''__proto__''" by (auto simp: inheritedNames_def)
  have p: "proto (fst (mergeStep acc x)) = None"
    using Cons.prems(2) px by (rule mergeStep_proto)
  have same: "filter (\<lambda>l. case map_of (own (fst (mergeStep acc x))) (ident l) of
                            None \<Rightarrow> False | Some e \<Rightarrow> hasChanged e l) xs =
              filter (\<lambda>l. case map_of (own (fst acc)) (ident l) of
                            None \<Rightarrow> False | Some e \<Rightarrow> hasChanged e l) xs"
  proof (rule filter_cong [OF refl])
    fix l assume "l \<in> set xs"
    with nin have "ident l \<noteq> ident x" by (metis imageI)
    then show "(case map_of (own (fst (mergeStep acc x))) (ident l) of
                  None \<Rightarrow> False | Some e \<Rightarrow> hasChanged e l) =
               (case map_of (own (fst acc)) (ident l) of
                  None \<Rightarrow> False | Some e \<Rightarrow> hasChanged e l)"
      by (simp add: mergeStep_other)
  qed
  have step: "snd (snd (mergeStep acc x)) =
              snd (snd acc) + (case map_of (own (fst acc)) (ident x) of
                                 None \<Rightarrow> 0 | Some e \<Rightarrow> if hasChanged e x then 1 else 0)"
    using mergeStep_counts [OF Cons.prems(2) ix] by (rule conjunct2)
  from Cons.IH [OF d p ixs] same step show ?case
    by (simp split: option.splits)
qed

lemma hasChanged_iff:
  "price l \<noteq> NaN \<Longrightarrow>
   hasChanged e l \<longleftrightarrow>
     title e \<noteq> title l \<or> price e \<noteq> price l \<or> state e \<noteq> state l \<or>
     datePosted e \<noteq> datePosted l \<or> url e \<noteq> url l \<or>
     read_optional (thumbnail e) \<noteq> read_optional (thumbnail l)"
proof -
  have "strict_neq a b \<longleftrightarrow> \<not> (a = b \<and> b \<noteq> NaN)" for a b
    by (cases a; cases b) simp_all
  then show "price l \<noteq> NaN \<Longrightarrow> ?thesis" by (auto simp: hasChanged_def)
qed

lemma spreadListing_fields:
  "spreadListing e l =
     \<lparr>ident = ident l, title = title l, price = price l, url = url l,
      datePosted = datePosted l, date = date l, state = state l,
      thumbnail = (if thumbnail l = Missing then thumbnail e else thumbnail l),
      index_keys = index_keys e\<rparr>"
  by (simp add: spreadListing_def stored_def split: optional.splits)

lemmas sample_defs =
  wagonA_def wagonA_repriced_def wagonA_no_thumbnail_def locoB_def railC_def goneD_def
  sellerP_def storeS_def no_fault_def

lemmas merge_defs =
  mergeListingsWithStats_def getProperty_def setProperty_def fromObjectPrototype_def
  objectPrototypeMethods_def listingKey_def hasChanged_def spreadListing_def stored_def

text \<open>
  \<^bold>\<open>C1\<close> (amended). Whatever the incoming sequence, a key that no incoming listing
  carries keeps its stored listing, and no key is ever removed. When the ids of the
  incoming listings are pairwise distinct, none of them is a name that every object
  inherits (\<^verbatim>\<open>__proto__\<close>, \<^verbatim>\<open>constructor\<close>, ...) and no incoming price is \<open>NaN\<close>:
  an incoming listing whose id is absent from the existing mapping is inserted as it is,
  and \<open>added\<close> counts exactly these; an incoming listing whose id is present is compared
  with the stored one on title, price, state, datePosted, url and thumbnail; when one of
  them differs the stored listing is replaced by the incoming fields, a thumbnail key that
  the incoming listing does not have being kept, and \<open>updated\<close> counts exactly these;
  when none differs the stored listing stays.
\<close>

theorem C1_merge_distinct_ids:
  assumes "mergeListingsWithStats existing incoming = (merged, added, updated)"
  shows "(\<forall>k. k \<notin> ident ` set incoming \<longrightarrow> map_of (own merged) k = map_of existing k) \<and>
         (\<forall>k. map_of existing k \<noteq> None \<longrightarrow> map_of (own merged) k \<noteq> None) \<and>
         (distinct (map ident incoming) \<and>
          (\<forall>l\<in>set incoming. ident l \<notin> set inheritedNames \<and> price l \<noteq> NaN) \<longrightarrow>
            (\<forall>l\<in>set incoming. map_of existing (ident l) = None \<longrightarrow>
                 map_of (own merged) (ident l) = Some (stored l)) \<and>
            added = length (filter (\<lambda>l. map_of existing (ident l) = None) incoming) \<and>
            (\<forall>l\<in>set incoming. \<forall>e. map_of existing (ident l) = Some e \<longrightarrow>
                 map_of (own merged) (ident l) =
                   Some (if hasChanged e l then spreadListing e l else e) \<and>
                 (hasChanged e l \<longleftrightarrow>
                    title e \<noteq> title l \<or> price e \<noteq> price l \<or> state e \<noteq> state l \<or>
                    datePosted e \<noteq> datePosted l \<or> url e \<noteq> url l \<or>
                    read_optional (thumbnail e) \<noteq> read_optional (thumbnail l))) \<and>
            updated = length (filter (\<lambda>l. \<exists>e. map_of existing (ident l) = Some e \<and>
                                               hasChanged e l) incoming)) \<and>
         (\<forall>e l. spreadListing e l =
            \<lparr>ident = ident l, title = title l, price = price l, url = url l,
             datePosted = datePosted l, date = date l, state = state l,
             thumbnail = (if thumbnail l = Missing then thumbnail e else thumbnail l),
             index_keys = index_keys e\<rparr>)"
proof -
  let ?acc = "(\<lparr>own = existing, proto = None\<rparr>, 0::nat, 0::nat)"
  from assms have m: "merged = fst (foldl mergeStep ?acc incoming)"
    and a: "added = fst (snd (foldl mergeStep ?acc incoming))"
    and u: "updated = snd (snd (foldl mergeStep ?acc incoming))"
    by (simp_all add: mergeListingsWithStats_def)
  have p0: "proto (fst ?acc) = None" by simp
  have frame: "\<forall>k. k \<notin> ident ` set incoming \<longrightarrow> map_of (own merged) k = map_of existing k"
    using foldl_mergeStep_frame [of _ incoming ?acc] by (simp add: m)
  have keep: "\<forall>k. map_of existing k \<noteq> None \<longrightarrow> map_of (own merged) k \<noteq> None"
    using foldl_mergeStep_dom [of ?acc _ incoming] by (simp add: m)
  have dist: "distinct (map ident incoming) \<and>
          (\<forall>l\<in>set incoming. ident l \<notin> set inheritedNames \<and> price l \<noteq> NaN) \<longrightarrow>
            (\<forall>l\<in>set incoming. map_of existing (ident l) = None \<longrightarrow>
                 map_of (own merged) (ident l) = Some (stored l)) \<and>
            added = length (filter (\<lambda>l. map_of existing (ident l) = None) incoming) \<and>
            (\<forall>l\<in>set incoming. \<forall>e. map_of existing (ident l) = Some e \<longrightarrow>
                 map_of (own merged) (ident l) =
                   Some (if hasChanged e l then spreadListing e l else e) \<and>
                 (hasChanged e l \<longleftrightarrow>
                    title e \<noteq> title l \<or> price e \<noteq> price l \<or> state e \<noteq> state l \<or>
                    datePosted e \<noteq> datePosted l \<or> url e \<noteq> url l \<or>
                    read_optional (thumbnail e) \<noteq> read_optional (thumbnail l))) \<and>
            updated = length (filter (\<lambda>l. \<exists>e. map_of existing (ident l) = Some e \<and>
                                               hasChanged e l) incoming)"
  proof
    assume hyp: "distinct (map ident incoming) \<and>
          (\<forall>l\<in>set incoming. ident l \<notin> set inheritedNames \<and> price l \<noteq> NaN)"
    then have d: "distinct (map ident incoming)"
      and inh: "\<forall>l\<in>set incoming. ident l \<notin> set inheritedNames"
      and nan: "\<forall>l\<in>set incoming. price l \<noteq> NaN"
      by blast+
    from inh have np: "\<forall>l\<in>set incoming. ident l \<noteq> ''__proto__''"
      by (auto simp: inheritedNames_def)
    have look: "map_of (own merged) (ident l) =
                  Some (case map_of existing (ident l) of
                          None \<Rightarrow> stored l
                        | Some e \<Rightarrow> if hasChanged e l then spreadListing e l else e)"
      if "l \<in> set incoming" for l
      using foldl_mergeStep_lookup [OF d that p0 np] by (simp add: m)
    have ins: "\<forall>l\<in>set incoming. map_of existing (ident l) = None \<longrightarrow>
                 map_of (own merged) (ident l) = Some (stored l)"
      using look by simp
    have upd: "\<forall>l\<in>set incoming. \<forall>e. map_of existing (ident l) = Some e \<longrightarrow>
                 map_of (own merged) (ident l) =
                   Some (if hasChanged e l then spreadListing e l else e) \<and>
                 (hasChanged e l \<longleftrightarrow>
                    title e \<noteq> title l \<or> price e \<noteq> price l \<or> state e \<noteq> state l \<or>
                    datePosted e \<noteq> datePosted l \<or> url e \<noteq> url l \<or>
                    read_optional (thumbnail e) \<noteq> read_optional (thumbnail l))"
    proof (intro ballI allI impI conjI)
      fix l e
      assume l: "l \<in> set incoming" and e: "map_of existing (ident l) = Some e"
      from look [OF l] e show "map_of (own merged) (ident l) =
                   Some (if hasChanged e l then spreadListing e l else e)"
        by simp
      from nan l have "price l \<noteq> NaN" by blast
      then show "hasChanged e l \<longleftrightarrow>
                    title e \<noteq> title l \<or> price e \<noteq> price l \<or> state e \<noteq> state l \<or>
                    datePosted e \<noteq> datePosted l \<or> url e \<noteq> url l \<or>
                    read_optional (thumbnail e) \<noteq> read_optional (thumbnail l)"
        by (rule hasChanged_iff)
    qed
    have cnt_a: "added = length (filter (\<lambda>l. map_of existing (ident l) = None) incoming)"
      using foldl_mergeStep_added [OF d p0 inh] by (simp add: a)
    have "(\<lambda>l. case map_of existing (ident l) of None \<Rightarrow> False | Some e \<Rightarrow> hasChanged e l) =
          (\<lambda>l. \<exists>e. map_of existing (ident l) = Some e \<and> hasChanged e l)"
      by (auto split: option.splits)
    then have cnt_u: "updated = length (filter (\<lambda>l. \<exists>e. map_of existing (ident l) = Some e \<and>
                                               hasChanged e l) incoming)"
      using foldl_mergeStep_updated [OF d p0 inh] by (simp add: u)
    from ins upd cnt_a cnt_u show
      "(\<forall>l\<in>set incoming. map_of existing (ident l) = None \<longrightarrow>
                 map_of (own merged) (ident l) = Some (stored l)) \<and>
            added = length (filter (\<lambda>l. map_of existing (ident l) = None) incoming) \<and>
            (\<forall>l\<in>set incoming. \<forall>e. map_of existing (ident l) = Some e \<longrightarrow>
                 map_of (own merged) (ident l) =
                   Some (if hasChanged e l then spreadListing e l else e) \<and>
                 (hasChanged e l \<longleftrightarrow>
                    title e \<noteq> title l \<or> price e \<noteq> price l \<or> state e \<noteq> state l \<or>
                    datePosted e \<noteq> datePosted l \<or> url e \<noteq> url l \<or>
                    read_optional (thumbnail e) \<noteq> read_optional (thumbnail l))) \<and>
            updated = length (filter (\<lambda>l. \<exists>e. map_of existing (ident l) = Some e \<and>
                                               hasChanged e l) incoming)"
      by (intro conjI)
  qed
  from frame keep dist spreadListing_fields show ?thesis by (intro conjI) blast+
qed

text \<open>
  Witness of C1: the stored listings 1, 2 and 4 meet a batch that reprices 1, repeats 2
  and brings the new listing 3, priced. Listing 1 is overwritten, 2 and 4 stay, 3 is
  appended.
\<close>

theorem C1_merge_distinct_ids_witness:
  "distinct (map ident [wagonA_repriced, locoB, railC\<lparr>price := Num 5\<rparr>]) \<and>
   map ident [wagonA_repriced, locoB, railC\<lparr>price := Num 5\<rparr>] = [''1'', ''2'', ''3''] \<and>
   map price [wagonA_repriced, locoB, railC\<lparr>price := Num 5\<rparr>] = [Num 20, Num 55, Num 5] \<and>
   mergeListingsWithStats (listings sellerP) [wagonA_repriced, locoB, railC\<lparr>price := Num 5\<rparr>] =
     (\<lparr>own = [(''1'', stored wagonA_repriced), (''2'', stored locoB), (''4'', stored goneD),
              (''3'', stored (railC\<lparr>price := Num 5\<rparr>))],
       proto = None\<rparr>, 1, 1) \<and>
   map_of [(''1'', stored wagonA_repriced), (''2'', stored locoB), (''4'', stored goneD),
           (''3'', stored (railC\<lparr>price := Num 5\<rparr>))] ''4'' =
     map_of (listings sellerP) ''4'' \<and>
   map_of [(''1'', stored wagonA_repriced), (''2'', stored locoB), (''4'', stored goneD),
           (''3'', stored (railC\<lparr>price := Num 5\<rparr>))] ''3'' =
     Some (stored (railC\<lparr>price := Num 5\<rparr>)) \<and>
   map_of [(''1'', stored wagonA_repriced), (''2'', stored locoB), (''4'', stored goneD),
           (''3'', stored (railC\<lparr>price := Num 5\<rparr>))] ''1'' =
     Some (spreadListing (stored wagonA) wagonA_repriced) \<and>
   (1::nat) = length (filter (\<lambda>l. map_of (listings sellerP) (ident l) = None)
                        [wagonA_repriced, locoB, railC\<lparr>price := Num 5\<rparr>]) \<and>
   map_of (listings sellerP) ''2'' \<noteq> None \<and>
   map_of [(''1'', stored wagonA_repriced), (''2'', stored locoB), (''4'', stored goneD),
           (''3'', stored (railC\<lparr>price := Num 5\<rparr>))] ''2'' \<noteq> None"
proof -
  let ?railE = "railC\<lparr>price := Num 5\<rparr>"
  let ?inc = "[wagonA_repriced, locoB, ?railE]"
  let ?own = "[(''1'', stored wagonA_repriced), (''2'', stored locoB), (''4'', stored goneD),
               (''3'', stored ?railE)]"
  have run: "mergeListingsWithStats (listings sellerP) ?inc =
               (\<lparr>own = ?own, proto = None\<rparr>, 1, 1)"
    by (simp add: merge_defs sample_defs)
  have d: "distinct (map ident ?inc)"
    by (simp add: sample_defs)
  have h: "\<forall>l\<in>set ?inc. ident l \<notin> set inheritedNames \<and> price l \<noteq> NaN"
    by (simp add: sample_defs inheritedNames_def objectPrototypeMethods_def)
  have nin: "''4'' \<notin> ident ` set ?inc"
    by (simp add: sample_defs)
  have new: "?railE \<in> set ?inc" "map_of (listings sellerP) (ident ?railE) = None"
    "ident ?railE = ''3''"
    by (simp_all add: sample_defs)
  have old: "wagonA_repriced \<in> set ?inc"
    "map_of (listings sellerP) (ident wagonA_repriced) = Some (stored wagonA)"
    "ident wagonA_repriced = ''1''"
    "hasChanged (stored wagonA) wagonA_repriced"
    by (simp_all add: sample_defs hasChanged_def stored_def)
  have hyp: "distinct (map ident ?inc) \<and>
             (\<forall>l\<in>set ?inc. ident l \<notin> set inheritedNames \<and> price l \<noteq> NaN)"
    using d h by (rule conjI)
  note c1 = C1_merge_distinct_ids [OF run]
  note frame = c1 [THEN conjunct1, rule_format, OF nin]
  note block = c1 [THEN conjunct2, THEN conjunct2, THEN conjunct1, THEN mp, OF hyp]
  note ins = block [THEN conjunct1, rule_format, OF new(1) new(2)]
  note cnt = block [THEN conjunct2, THEN conjunct1]
  note upd = block [THEN conjunct2, THEN conjunct2, THEN conjunct1, rule_format,
                    OF old(1) old(2), THEN conjunct1]
  from frame have kept: "map_of ?own ''4'' = map_of (listings sellerP) ''4''"
    by (simp only: MergedObject.select_convs)
  from ins have three: "map_of ?own ''3'' = Some (stored ?railE)"
    by (simp only: MergedObject.select_convs new(3))
  from upd have one: "map_of ?own ''1'' = Some (spreadListing (stored wagonA) wagonA_repriced)"
    by (simp only: MergedObject.select_convs old(3) old(4) if_True)
  have had: "map_of (listings sellerP) ''2'' \<noteq> None"
    by (simp add: sellerP_def)
  note keep = c1 [THEN conjunct2, THEN conjunct1, THEN spec, THEN mp, OF had]
  from keep have still: "map_of ?own ''2'' \<noteq> None"
    unfolding MergedObject.select_convs .
  have ids: "map ident ?inc = [''1'', ''2'', ''3'']"
    and prices: "map price ?inc = [Num 20, Num 55, Num 5]"
    by (simp_all add: sample_defs)
  from d ids prices run kept three one cnt had still show ?thesis by (intro conjI)
qed

text \<open>
  Counterexamples to C1 as stated. First the batch carries the id 1 twice, with two
  prices, and the existing mapping is empty: both incoming listings have an id absent from
  the existing mapping, yet \<open>added\<close> is 1 and the second listing is counted in
  \<open>updated\<close>. Then the stored listing 3 comes in again as it is, with its price \<open>NaN\<close>:
  the six fields are the same, yet the listing is counted in \<open>updated\<close>. Last a listing
  whose id is \<^verbatim>\<open>constructor\<close> meets the empty mapping: its id is absent, yet it is
  counted in \<open>updated\<close> and not in \<open>added\<close>; and one whose id is
  \<^verbatim>\<open>__proto__\<close> is counted in \<open>updated\<close> too, and is not inserted.
\<close>

theorem C1_counterexample:
  "map_of ([] :: (string \<times> StoredListing) list) (ident wagonA) = None \<and>
   map_of ([] :: (string \<times> StoredListing) list) (ident wagonA_repriced) = None \<and>
   mergeListingsWithStats [] [wagonA, wagonA_repriced] =
     (\<lparr>own = [(''1'', stored wagonA_repriced)], proto = None\<rparr>, 1, 1) \<and>
   mergeListingsWithStats [(''3'', stored railC)] [railC] =
     (\<lparr>own = [(''3'', stored railC)], proto = None\<rparr>, 0, 1) \<and>
   map_of ([] :: (string \<times> StoredListing) list) (ident constructorK) = None \<and>
   mergeListingsWithStats [] [constructorK] =
     (\<lparr>own = [(''constructor'', stored constructorK)], proto = None\<rparr>, 0, 1) \<and>
   map_of ([] :: (string \<times> StoredListing) list) (ident protoK) = None \<and>
   map_of (own (fst (mergeListingsWithStats [] [protoK]))) (ident protoK) = None \<and>
   snd (mergeListingsWithStats [] [protoK]) = (0, 1)"
  by (simp add: merge_defs sample_defs constructorK_def protoK_def)







lemma markLoop_lookup:
  "distinct (map fst es) \<Longrightarrow>
   map_of (fst (markLoop cur es (obj, n))) k =
     (case map_of es k of
        None \<Rightarrow> map_of obj k
      | Some l \<Rightarrow> if k \<notin> set cur \<and> state l \<noteq> REMOVED
                  then Some (l\<lparr>state := REMOVED\<rparr>) else map_of obj k)"
proof (induction es arbitrary: obj n)
  case Nil
  then show ?case by simp
next
  case (Cons a es)
  obtain k' l' where a: "a = (k', l')" by (cases a)
  from Cons.prems a have d: "distinct (map fst es)" and nin: "map_of es k' = None"
    by (simp_all add: map_of_eq_None_iff)
  show ?case
  proof (cases "k = k'")
    case True
    with a nin Cons.IH [OF d] show ?thesis by (simp add: update_conv' split: option.splits)
  next
    case False
    with a Cons.IH [OF d] show ?thesis by (simp add: update_conv' split: option.splits)
  qed
qed

lemma markLoop_keys:
  "fst ` set es \<subseteq> fst ` set obj \<Longrightarrow> map fst (fst (markLoop cur es (obj, n))) = map fst obj"
proof (induction es arbitrary: obj n)
  case Nil
  then show ?case by simp
next
  case (Cons a es)
  obtain k' l' where a: "a = (k', l')" by (cases a)
  from Cons.prems a have k': "k' \<in> fst ` set obj" and sub: "fst ` set es \<subseteq> fst ` set obj"
    by simp_all
  have keys: "map fst (AList.update k' v obj) = map fst obj" for v
    using k' by (simp add: update_keys)
  then have "fst ` set es \<subseteq> fst ` set (AList.update k' v obj)" for v
    using sub by (metis list.set_map)
  with a keys sub Cons.IH show ?case by simp
qed

lemma markLoop_count:
  "snd (markLoop cur es (obj, n)) =
     n + length (filter (\<lambda>(k, l). k \<notin> set cur \<and> state l \<noteq> REMOVED) es)"
  by (induction es arbitrary: obj n) auto

lemma markLoop_none:
  assumes "snd (markLoop cur es (obj, 0)) = 0" and "map_of es k = Some l"
  shows "\<not> (k \<notin> set cur \<and> state l \<noteq> REMOVED)"
proof -
  from assms(1) have "filter (\<lambda>(k, l). k \<notin> set cur \<and> state l \<noteq> REMOVED) es = []"
    by (simp add: markLoop_count)
  moreover from assms(2) have "(k, l) \<in> set es" by (rule map_of_SomeD)
  ultimately show ?thesis by (auto simp: filter_empty_conv)
qed

lemma markMissingAsRemoved_stored:
  assumes fault: "\<forall>n. fault n = None"
    and stored: "local_profiles st = Some profiles" "map_of profiles user = Some profile"
  shows "storedListings (markMissingAsRemoved fault user currentIds st) user =
           (if snd (markLoop currentIds (listings profile) (listings profile, 0)) > 0
            then fst (markLoop currentIds (listings profile) (listings profile, 0))
            else listings profile)"
  using assms
  by (simp add: markMissingAsRemoved_def getItem_def setItem_def or_empty_def storedListings_def
        update_conv' split: prod.splits)

text \<open>
  \<^bold>\<open>C3\<close>. The storage holds a profile for the seller, the listings object has each key
  once, and the storage operations do not reject. After \<open>markMissingAsRemoved\<close> the
  stored listings have the same keys in the same order, and a listing stored under key
  \<open>k\<close> is the old one with \<open>state := REMOVED\<close> when \<open>k\<close> is not among \<open>currentIds\<close> and
  its state was not \<open>REMOVED\<close>; otherwise (already \<open>REMOVED\<close>, or \<open>k\<close> among
  \<open>currentIds\<close>) it is the old listing itself.
\<close>

theorem C3_markMissingAsRemoved:
  assumes "\<forall>n. fault n = None"
    and "local_profiles st = Some profiles"
    and "map_of profiles user = Some profile"
    and "distinct (map fst (listings profile))"
  shows "map fst (storedListings (markMissingAsRemoved fault user currentIds st) user) =
           map fst (listings profile) \<and>
         (\<forall>k l. map_of (listings profile) k = Some l \<longrightarrow>
            map_of (storedListings (markMissingAsRemoved fault user currentIds st) user) k =
              Some (if k \<notin> set currentIds \<and> state l \<noteq> REMOVED
                    then l\<lparr>state := REMOVED\<rparr> else l))"
proof -
  let ?ls = "listings profile"
  let ?r = "markLoop currentIds ?ls (?ls, 0)"
  let ?after = "storedListings (markMissingAsRemoved fault user currentIds st) user"
  have after: "?after = (if snd ?r > 0 then fst ?r else ?ls)"
    using assms(1-3) by (rule markMissingAsRemoved_stored)
  have keys: "map fst ?after = map fst ?ls"
    by (simp add: after markLoop_keys)
  have vals: "map_of ?after k =
                Some (if k \<notin> set currentIds \<and> state l \<noteq> REMOVED
                      then l\<lparr>state := REMOVED\<rparr> else l)"
    if kl: "map_of ?ls k = Some l" for k l
  proof (cases "snd ?r > 0")
    case True
    with after have "map_of ?after k = map_of (fst ?r) k" by simp
    also have "\<dots> = (if k \<notin> set currentIds \<and> state l \<noteq> REMOVED
                      then Some (l\<lparr>state := REMOVED\<rparr>) else map_of ?ls k)"
      using markLoop_lookup [OF assms(4), of currentIds ?ls 0 k] kl by simp
    finally show ?thesis using kl by simp
  next
    case False
    then have "snd ?r = 0" by simp
    from markLoop_none [OF this kl] after False kl show ?thesis by simp
  qed
  from keys vals show ?thesis by blast
qed

text \<open>
  Witness of C3: of the stored listings 1 (active), 2 (sold) and 4 (removed), only 2 is
  among the current ids. Listing 1 becomes \<open>REMOVED\<close>, 2 and 4 are as before.
\<close>

theorem C3_markMissingAsRemoved_witness:
  "map fst (storedListings (markMissingAsRemoved no_fault ''alice'' [''2''] storeS) ''alice'') =
     [''1'', ''2'', ''4''] \<and>
   map_of (storedListings (markMissingAsRemoved no_fault ''alice'' [''2''] storeS) ''alice'') ''1'' =
     Some ((stored wagonA)\<lparr>state := REMOVED\<rparr>) \<and>
   map_of (storedListings (markMissingAsRemoved no_fault ''alice'' [''2''] storeS) ''alice'') ''2'' =
     Some (stored locoB) \<and>
   map_of (storedListings (markMissingAsRemoved no_fault ''alice'' [''2''] storeS) ''alice'') ''4'' =
     Some (stored goneD)"
proof -
  have f: "\<forall>n. no_fault n = None" by (simp add: no_fault_def)
  have s: "local_profiles storeS = Some [(''alice'', sellerP)]" by (simp add: storeS_def)
  have p: "map_of [(''alice'', sellerP)] ''alice'' = Some sellerP" by simp
  have d: "distinct (map fst (listings sellerP))" by (simp add: sellerP_def)
  have ls: "listings sellerP = [(''1'', stored wagonA), (''2'', stored locoB), (''4'', stored goneD)]"
    by (simp add: sellerP_def)
  have st: "state (stored wagonA) = ACTIVE" "state (stored locoB) = SOLD"
    "state (stored goneD) = REMOVED"
    by (simp_all add: wagonA_def locoB_def goneD_def stored_def)
  note c3 = C3_markMissingAsRemoved [OF f s p d, of "[''2'']"]
  from c3 have keys:
    "map fst (storedListings (markMissingAsRemoved no_fault ''alice'' [''2''] storeS) ''alice'') =
       [''1'', ''2'', ''4'']"
    by (simp add: ls)
  from c3 [THEN conjunct2, rule_format, of "''1''" "stored wagonA"] have one:
    "map_of (storedListings (markMissingAsRemoved no_fault ''alice'' [''2''] storeS) ''alice'') ''1'' =
       Some ((stored wagonA)\<lparr>state := REMOVED\<rparr>)"
    by (simp add: ls st)
  from c3 [THEN conjunct2, rule_format, of "''2''" "stored locoB"] have two:
    "map_of (storedListings (markMissingAsRemoved no_fault ''alice'' [''2''] storeS) ''alice'') ''2'' =
       Some (stored locoB)"
    by (simp add: ls st)
  from c3 [THEN conjunct2, rule_format, of "''4''" "stored goneD"] have four:
    "map_of (storedListings (markMissingAsRemoved no_fault ''alice'' [''2''] storeS) ''alice'') ''4'' =
       Some (stored goneD)"
    by (simp add: ls st)
  from keys one two four show ?thesis by blast
qed

text \<open>
  \<^bold>\<open>C10\<close>. The storage holds a profile for the seller with a non-empty \<open>odooExports\<close>
  mapping, and the storage operations do not reject. After \<open>handleSaveProducts\<close> the
  profile stored for the seller is the object built from \<open>username\<close>, \<open>profileName\<close>,
  the merged \<open>listings\<close>, the old \<open>details\<close> and \<open>lastScraped\<close>: it has no
  \<open>odooExports\<close>, so the export statuses stored before are gone. The answer is the pair
  of counts of the merge.
\<close>

theorem C10_save_drops_odooExports:
  assumes "\<forall>n. fault n = None"
    and "local_profiles st = Some profiles"
    and "map_of profiles user = Some profile"
    and "odooExports profile = Some exports"
    and "exports \<noteq> []"
  shows "map_of (or_empty (local_profiles
                   (snd (handleSaveProducts fault now user newProducts pname st)))) user =
           Some \<lparr>username = user,
                 profileName = newProfileName pname (Some profile),
                 listings = own (fst (mergeListingsWithStats (listings profile) newProducts)),
                 details = details profile,
                 odooExports = None,
                 lastScraped = now\<rparr> \<and>
         fst (handleSaveProducts fault now user newProducts pname st) =
           snd (mergeListingsWithStats (listings profile) newProducts)"
  using assms(1-3)
  by (simp add: handleSaveProducts_def getItem_def setItem_def or_empty_def update_conv'
        split: prod.splits)

text \<open>
  Witness of C10: the seller has one export status stored, for listing 1; a save of an
  empty batch leaves the listings as they are and the profile without \<open>odooExports\<close>.
\<close>

theorem C10_save_drops_odooExports_witness:
  "odooExports sellerP \<noteq> None \<and> odooExports sellerP \<noteq> Some [] \<and>
   map_of (or_empty (local_profiles
             (snd (handleSaveProducts no_fault ''2024-03-01'' ''alice'' [] None storeS))))
       ''alice'' =
     Some (sellerP\<lparr>odooExports := None, lastScraped := ''2024-03-01''\<rparr>)"
proof -
  have f: "\<forall>n. no_fault n = None" by (simp add: no_fault_def)
  have s: "local_profiles storeS = Some [(''alice'', sellerP)]" by (simp add: storeS_def)
  have p: "map_of [(''alice'', sellerP)] ''alice'' = Some sellerP" by simp
  have e: "odooExports sellerP =
             Some [(''1'', \<lparr>exported = True, odooProductId = Some 7,
                           lastExportedAt = Some ''2024-02-02'', exportError = None\<rparr>)]"
    by (simp add: sellerP_def)
  have n: "[(''1'', \<lparr>exported = True, odooProductId = Some 7,
                    lastExportedAt = Some ''2024-02-02'', exportError = None\<rparr>)] \<noteq> []"
    by simp
  have same: "\<lparr>username = ''alice'',
               profileName = newProfileName None (Some sellerP),
               listings = own (fst (mergeListingsWithStats (listings sellerP) [])),
               details = details sellerP,
               odooExports = None,
               lastScraped = ''2024-03-01''\<rparr> =
              sellerP\<lparr>odooExports := None, lastScraped := ''2024-03-01''\<rparr>"
    by (simp add: sellerP_def newProfileName_def mergeListingsWithStats_def)
  from C10_save_drops_odooExports [OF f s p e n, of "''2024-03-01''" "[]" None]
  have "map_of (or_empty (local_profiles
             (snd (handleSaveProducts no_fault ''2024-03-01'' ''alice'' [] None storeS))))
          ''alice'' =
        Some (sellerP\<lparr>odooExports := None, lastScraped := ''2024-03-01''\<rparr>)"
    by (simp only: same)
  moreover from e have "odooExports sellerP \<noteq> None" "odooExports sellerP \<noteq> Some []"
    by simp_all
  ultimately show ?thesis by blast
qed

section \<open>Properties of the resolver\<close>

lemmas string_defs =
  toLowerCase_def toLowerChar_def upperChars_def lowerChars_def isSpace_def
  split_whitespace_def trim_def phrase_def cleanTitle_def

lemma getTags_H_zero: "getTags ''Wagon Jouef H0 SNCF'' = [''Jouef'', ''SNCF'']"
  by (simp add: getTags_def string_defs TAGS_MAP_def keywordsMatch_def)

lemma getTags_H_letter: "getTags ''Wagon Jouef HO SNCF'' = [''Jouef'', ''H0'', ''SNCF'']"
  by (simp add: getTags_def string_defs TAGS_MAP_def keywordsMatch_def)

lemma getCategory_wagon: "getCategory ''Wagon Jouef H0'' = Some ''Wagons''"
  by (simp add: getCategory_def string_defs CATEGORY_MAP_def keywordsMatch_def)

text \<open>
  \<^bold>\<open>C5\<close> (amended). The keyword of the tag H0 is \<open>ho\<close>, with the letter o. The title
  \<open>Wagon Jouef H0 SNCF\<close>, written with the digit zero, has no word that contains it, and
  \<open>getTags\<close> gives the set of Jouef and SNCF; written with the letter O the title gets
  the three tags. \<open>getCategory\<close> of \<open>Wagon Jouef H0\<close> is Wagons.
\<close>

theorem C5_classification_examples:
  "set (getTags ''Wagon Jouef H0 SNCF'') = {''Jouef'', ''SNCF''} \<and>
   set (getTags ''Wagon Jouef HO SNCF'') = {''Jouef'', ''H0'', ''SNCF''} \<and>
   getCategory ''Wagon Jouef H0'' = Some ''Wagons''"
  by (simp add: getTags_H_zero getTags_H_letter getCategory_wagon)

text \<open>
  Counterexample to C5 as stated: the tags of \<open>Wagon Jouef H0 SNCF\<close> are not the set of
  Jouef, H0 and SNCF, for H0 is not among them.
\<close>

theorem C5_counterexample:
  "set (getTags ''Wagon Jouef H0 SNCF'') \<noteq> {''Jouef'', ''H0'', ''SNCF''} \<and>
   ''H0'' \<notin> set (getTags ''Wagon Jouef H0 SNCF'')"
proof -
  have out: "''H0'' \<notin> set (getTags ''Wagon Jouef H0 SNCF'')"
    by (simp add: getTags_H_zero)
  have "''H0'' \<in> {''Jouef'', ''H0'', ''SNCF''}" by simp
  with out show ?thesis by metis
qed

lemma fetch_sent [simp]: "sent (snd (fetch rem req s)) = sent s @ [req]"
  by (simp add: fetch_def)

lemma searchFirstId_idAnswer:
  assumes "rem (sent s) req = Inr resp" and "idAnswer i resp"
  shows "searchFirstId rem req s = (Inr (Some i), s\<lparr>sent := sent s @ [req]\<rparr>)"
  using assms
  by (auto simp: searchFirstId_def fetch_def idAnswer_def raiseForStatus_def
        parseJsonResponse_def split: option.splits)

lemma searchFirstId_emptyAnswer:
  assumes "rem (sent s) req = Inr resp" and "emptyAnswer resp"
  shows "searchFirstId rem req s = (Inr None, s\<lparr>sent := sent s @ [req]\<rparr>)"
  using assms
  by (auto simp: searchFirstId_def fetch_def emptyAnswer_def raiseForStatus_def
        parseJsonResponse_def split: option.splits)

lemma getTagId_hit:
  "map_of (TAGS_ID_CACHE s) n = Some i \<Longrightarrow> getTagId rem n s = (Inr i, s)"
  by (simp add: getTagId_def)

lemma getCategoryId_hit:
  "map_of (CATEGORY_ID_CACHE s) n = Some i \<Longrightarrow> getCategoryId rem n s = (Inr i, s)"
  by (simp add: getCategoryId_def)

lemma getPublicCategoryId_hit:
  "map_of (PUBLIC_CATEGORY_ID_CACHE s) n = Some i \<Longrightarrow>
   getPublicCategoryId rem n s = (Inr (Some i), s)"
  by (simp add: getPublicCategoryId_def)

lemma getTaxId_hit:
  "map_of (TAX_ID_CACHE s) taxName = Some i \<Longrightarrow> getTaxId rem s = (Inr i, s)"
  by (simp add: getTaxId_def)

lemma getTagId_miss_found:
  assumes "map_of (TAGS_ID_CACHE s) n = None"
    and "rem (sent s) (TagSearchRead n) = Inr resp" and "idAnswer i resp"
  shows "getTagId rem n s =
           (Inr i, s\<lparr>sent := sent s @ [TagSearchRead n],
                     TAGS_ID_CACHE := AList.update n i (TAGS_ID_CACHE s)\<rparr>)"
  using assms(1) searchFirstId_idAnswer [where rem=rem and s=s, OF assms(2,3)] by (simp add: getTagId_def)

lemma getCategoryId_miss_found:
  assumes "map_of (CATEGORY_ID_CACHE s) n = None"
    and "rem (sent s) (CategorySearchRead n) = Inr resp" and "idAnswer i resp"
  shows "getCategoryId rem n s =
           (Inr i, s\<lparr>sent := sent s @ [CategorySearchRead n],
                     CATEGORY_ID_CACHE := AList.update n i (CATEGORY_ID_CACHE s)\<rparr>)"
  using assms(1) searchFirstId_idAnswer [where rem=rem and s=s, OF assms(2,3)] by (simp add: getCategoryId_def)

lemma getPublicCategoryId_miss_found:
  assumes "map_of (PUBLIC_CATEGORY_ID_CACHE s) n = None"
    and "rem (sent s) (PublicCategorySearch n) = Inr resp" and "idAnswer i resp"
  shows "getPublicCategoryId rem n s =
           (Inr (Some i), s\<lparr>sent := sent s @ [PublicCategorySearch n],
                     PUBLIC_CATEGORY_ID_CACHE := AList.update n i (PUBLIC_CATEGORY_ID_CACHE s)\<rparr>)"
  using assms(1) searchFirstId_idAnswer [where rem=rem and s=s, OF assms(2,3)] by (simp add: getPublicCategoryId_def)

lemma getTaxId_miss_found:
  assumes "map_of (TAX_ID_CACHE s) taxName = None"
    and "rem (sent s) (TaxSearchRead taxName) = Inr resp" and "idAnswer i resp"
  shows "getTaxId rem s =
           (Inr i, s\<lparr>sent := sent s @ [TaxSearchRead taxName],
                     TAX_ID_CACHE := AList.update taxName i (TAX_ID_CACHE s)\<rparr>)"
  using assms(1) searchFirstId_idAnswer [where rem=rem and s=s, OF assms(2,3)] by (simp add: getTaxId_def)

text \<open>
  \<^bold>\<open>C9\<close> (amended). For each of the four lookups: when the cache has no entry for the
  name and the catalog answers the exact-name lookup with records of which the first has the id \<open>i\<close>,
  the first call sends that one request, stores \<open>i\<close> under the name and returns it, and a
  second call in the state so reached returns \<open>i\<close> and leaves the state, and with it
  the list of requests sent, as it is. Two calls send exactly one request.
\<close>

theorem C9_resolve_twice_one_lookup:
  assumes "rem (sent s) req = Inr resp" and "idAnswer i resp"
  shows "(req = TagSearchRead n \<and> map_of (TAGS_ID_CACHE s) n = None \<longrightarrow>
            (\<exists>s1. getTagId rem n s = (Inr i, s1) \<and> getTagId rem' n s1 = (Inr i, s1) \<and>
                  sent s1 = sent s @ [TagSearchRead n] \<and>
                  map_of (TAGS_ID_CACHE s1) n = Some i)) \<and>
         (req = CategorySearchRead n \<and> map_of (CATEGORY_ID_CACHE s) n = None \<longrightarrow>
            (\<exists>s1. getCategoryId rem n s = (Inr i, s1) \<and> getCategoryId rem' n s1 = (Inr i, s1) \<and>
                  sent s1 = sent s @ [CategorySearchRead n] \<and>
                  map_of (CATEGORY_ID_CACHE s1) n = Some i)) \<and>
         (req = PublicCategorySearch n \<and> map_of (PUBLIC_CATEGORY_ID_CACHE s) n = None \<longrightarrow>
            (\<exists>s1. getPublicCategoryId rem n s = (Inr (Some i), s1) \<and>
                  getPublicCategoryId rem' n s1 = (Inr (Some i), s1) \<and>
                  sent s1 = sent s @ [PublicCategorySearch n] \<and>
                  map_of (PUBLIC_CATEGORY_ID_CACHE s1) n = Some i)) \<and>
         (req = TaxSearchRead taxName \<and> map_of (TAX_ID_CACHE s) taxName = None \<longrightarrow>
            (\<exists>s1. getTaxId rem s = (Inr i, s1) \<and> getTaxId rem' s1 = (Inr i, s1) \<and>
                  sent s1 = sent s @ [TaxSearchRead taxName] \<and>
                  map_of (TAX_ID_CACHE s1) taxName = Some i))"
proof (intro conjI impI)
  assume a: "req = TagSearchRead n \<and> map_of (TAGS_ID_CACHE s) n = None"
  let ?s1 = "s\<lparr>sent := sent s @ [TagSearchRead n],
               TAGS_ID_CACHE := AList.update n i (TAGS_ID_CACHE s)\<rparr>"
  from a assms have "getTagId rem n s = (Inr i, ?s1)"
    by (simp add: getTagId_miss_found)
  moreover have c: "map_of (TAGS_ID_CACHE ?s1) n = Some i" by (simp add: update_conv')
  moreover from c have "getTagId rem' n ?s1 = (Inr i, ?s1)" by (rule getTagId_hit)
  moreover have "sent ?s1 = sent s @ [TagSearchRead n]" by simp
  ultimately show "\<exists>s1. getTagId rem n s = (Inr i, s1) \<and> getTagId rem' n s1 = (Inr i, s1) \<and>
                  sent s1 = sent s @ [TagSearchRead n] \<and>
                  map_of (TAGS_ID_CACHE s1) n = Some i"
    by blast
next
  assume a: "req = CategorySearchRead n \<and> map_of (CATEGORY_ID_CACHE s) n = None"
  let ?s1 = "s\<lparr>sent := sent s @ [CategorySearchRead n],
               CATEGORY_ID_CACHE := AList.update n i (CATEGORY_ID_CACHE s)\<rparr>"
  from a assms have "getCategoryId rem n s = (Inr i, ?s1)"
    by (simp add: getCategoryId_miss_found)
  moreover have c: "map_of (CATEGORY_ID_CACHE ?s1) n = Some i" by (simp add: update_conv')
  moreover from c have "getCategoryId rem' n ?s1 = (Inr i, ?s1)" by (rule getCategoryId_hit)
  moreover have "sent ?s1 = sent s @ [CategorySearchRead n]" by simp
  ultimately show "\<exists>s1. getCategoryId rem n s = (Inr i, s1) \<and>
                  getCategoryId rem' n s1 = (Inr i, s1) \<and>
                  sent s1 = sent s @ [CategorySearchRead n] \<and>
                  map_of (CATEGORY_ID_CACHE s1) n = Some i"
    by blast
next
  assume a: "req = PublicCategorySearch n \<and> map_of (PUBLIC_CATEGORY_ID_CACHE s) n = None"
  let ?s1 = "s\<lparr>sent := sent s @ [PublicCategorySearch n],
               PUBLIC_CATEGORY_ID_CACHE := AList.update n i (PUBLIC_CATEGORY_ID_CACHE s)\<rparr>"
  from a assms have "getPublicCategoryId rem n s = (Inr (Some i), ?s1)"
    by (simp add: getPublicCategoryId_miss_found)
  moreover have c: "map_of (PUBLIC_CATEGORY_ID_CACHE ?s1) n = Some i" by (simp add: update_conv')
  moreover from c have "getPublicCategoryId rem' n ?s1 = (Inr (Some i), ?s1)"
    by (rule getPublicCategoryId_hit)
  moreover have "sent ?s1 = sent s @ [PublicCategorySearch n]" by simp
  ultimately show "\<exists>s1. getPublicCategoryId rem n s = (Inr (Some i), s1) \<and>
                  getPublicCategoryId rem' n s1 = (Inr (Some i), s1) \<and>
                  sent s1 = sent s @ [PublicCategorySearch n] \<and>
                  map_of (PUBLIC_CATEGORY_ID_CACHE s1) n = Some i"
    by blast
next
  assume a: "req = TaxSearchRead taxName \<and> map_of (TAX_ID_CACHE s) taxName = None"
  let ?s1 = "s\<lparr>sent := sent s @ [TaxSearchRead taxName],
               TAX_ID_CACHE := AList.update taxName i (TAX_ID_CACHE s)\<rparr>"
  from a assms have "getTaxId rem s = (Inr i, ?s1)"
    by (simp add: getTaxId_miss_found)
  moreover have c: "map_of (TAX_ID_CACHE ?s1) taxName = Some i" by (simp add: update_conv')
  moreover from c have "getTaxId rem' ?s1 = (Inr i, ?s1)" by (rule getTaxId_hit)
  moreover have "sent ?s1 = sent s @ [TaxSearchRead taxName]" by simp
  ultimately show "\<exists>s1. getTaxId rem s = (Inr i, s1) \<and> getTaxId rem' s1 = (Inr i, s1) \<and>
                  sent s1 = sent s @ [TaxSearchRead taxName] \<and>
                  map_of (TAX_ID_CACHE s1) taxName = Some i"
    by blast
qed

lemmas remote_defs =
  jsonResponse_def freshService_def plainDate_def productOf_def

lemmas service_defs =
  basePayload_def exportProduct_def searchProduct_def createProduct_def updateProduct_def archiveProduct_def
  productToOdooDict_def setCategory_def loadImages_def downloadImageAsBase64_def
  getTagId_def getTaxId_def getCategoryId_def getPublicCategoryId_def searchFirstId_def
  fetch_def raiseForStatus_def parseJsonResponse_def isJsonContent_def taxName_def
  succeeded_def failed_def String_of_exn_def quoted_def trailer_def stringToHtml_def

text \<open>
  Witness of C9: the sample catalog knows the tag Jouef under the id 1. The first call
  sends one request and fills the cache; the second sends none.
\<close>

theorem C9_resolve_twice_one_lookup_witness:
  "getTagId shopRemote ''Jouef'' freshService =
     (Inr 1, freshService\<lparr>sent := [TagSearchRead ''Jouef''], TAGS_ID_CACHE := [(''Jouef'', 1)]\<rparr>) \<and>
   getTagId shopRemote ''Jouef''
       (freshService\<lparr>sent := [TagSearchRead ''Jouef''], TAGS_ID_CACHE := [(''Jouef'', 1)]\<rparr>) =
     (Inr 1, freshService\<lparr>sent := [TagSearchRead ''Jouef''], TAGS_ID_CACHE := [(''Jouef'', 1)]\<rparr>)"
proof -
  let ?resp = "jsonResponse (JArray [1])"
  let ?s1 = "freshService\<lparr>sent := [TagSearchRead ''Jouef''], TAGS_ID_CACHE := [(''Jouef'', 1)]\<rparr>"
  have r: "shopRemote (sent freshService) (TagSearchRead ''Jouef'') = Inr ?resp"
    by simp
  have a: "idAnswer 1 ?resp"
    by (simp add: idAnswer_def jsonResponse_def isJsonContent_def)
  have m: "map_of (TAGS_ID_CACHE freshService) ''Jouef'' = None"
    by (simp add: freshService_def)
  have first: "getTagId shopRemote ''Jouef'' freshService = (Inr 1, ?s1)"
    by (simp add: getTagId_def searchFirstId_def fetch_def raiseForStatus_def
          parseJsonResponse_def isJsonContent_def jsonResponse_def freshService_def)
  from C9_resolve_twice_one_lookup [where rem=shopRemote and s=freshService and n="''Jouef''"
         and rem'=shopRemote, OF r a] m
  obtain s1 where "getTagId shopRemote ''Jouef'' freshService = (Inr 1, s1)"
    and "getTagId shopRemote ''Jouef'' s1 = (Inr 1, s1)"
    by blast
  with first show ?thesis by simp
qed

text \<open>
  Counterexamples to C9 as stated, on the sample catalog, which knows neither the tag Lima
  nor any public category. Two calls of \<open>getTagId\<close> for Lima both ask the catalog and
  both throw; two calls of \<open>getPublicCategoryId\<close> for Wagons both ask the catalog and
  both return none. Nothing is cached, and each pair of calls sends two requests.
\<close>

theorem C9_counterexample:
  "getTagId shopRemote ''Lima'' freshService =
     (Inl (Error (''Tag '' @ quoted ''Lima'' @ '' not found in Odoo.'')),
      freshService\<lparr>sent := [TagSearchRead ''Lima'']\<rparr>) \<and>
   getTagId shopRemote ''Lima'' (freshService\<lparr>sent := [TagSearchRead ''Lima'']\<rparr>) =
     (Inl (Error (''Tag '' @ quoted ''Lima'' @ '' not found in Odoo.'')),
      freshService\<lparr>sent := [TagSearchRead ''Lima'', TagSearchRead ''Lima'']\<rparr>) \<and>
   getPublicCategoryId shopRemote ''Wagons'' freshService =
     (Inr None, freshService\<lparr>sent := [PublicCategorySearch ''Wagons'']\<rparr>) \<and>
   getPublicCategoryId shopRemote ''Wagons''
       (freshService\<lparr>sent := [PublicCategorySearch ''Wagons'']\<rparr>) =
     (Inr None,
      freshService\<lparr>sent := [PublicCategorySearch ''Wagons'', PublicCategorySearch ''Wagons'']\<rparr>)"
  by (simp add: getTagId_def getPublicCategoryId_def searchFirstId_def fetch_def
        raiseForStatus_def parseJsonResponse_def isJsonContent_def jsonResponse_def
        freshService_def)

section \<open>The requests that the service sends\<close>

lemma extends_refl: "extends P s s"
  by (simp add: extends_def)

lemma extends_sent_eq: "sent s' = sent s \<Longrightarrow> extends P s s'"
  by (simp add: extends_def)

lemma extends_trans: "extends P s s1 \<Longrightarrow> extends P s1 s2 \<Longrightarrow> extends P s s2"
  by (auto simp: extends_def)

lemma extends_one: "sent s' = sent s @ [req] \<Longrightarrow> P req \<Longrightarrow> extends P s s'"
  by (simp add: extends_def)

lemma searchFirstId_sent:
  "searchFirstId rem req s = (r, s') \<Longrightarrow> sent s' = sent s @ [req]"
  by (auto simp: searchFirstId_def fetch_def split: sum.splits)

lemma searchFirstId_caches:
  "searchFirstId rem req s = (r, s') \<Longrightarrow> s' = s\<lparr>sent := sent s @ [req]\<rparr>"
  by (auto simp: searchFirstId_def fetch_def split: sum.splits)

lemma searchProduct_sent:
  "searchProduct rem p s = (r, s') \<Longrightarrow> sent s' = sent s @ [ProductSearchRead (title p)]"
  by (auto simp: searchProduct_def dest: searchFirstId_sent)

lemma archiveProduct_sent:
  "archiveProduct rem ids s = (r, s') \<Longrightarrow> sent s' = sent s @ [ProductArchive ids]"
  by (auto simp: archiveProduct_def fetch_def split: sum.splits)

lemma getTagId_extends:
  "getTagId rem t s = (r, s') \<Longrightarrow> P (TagSearchRead t) \<Longrightarrow> extends P s s'"
  by (auto simp: getTagId_def extends_refl split: option.splits sum.splits prod.splits
        dest!: searchFirstId_sent intro!: extends_one)

lemma getCategoryId_extends:
  "getCategoryId rem c s = (r, s') \<Longrightarrow> P (CategorySearchRead c) \<Longrightarrow> extends P s s'"
  by (auto simp: getCategoryId_def extends_refl split: option.splits sum.splits prod.splits
        dest!: searchFirstId_sent intro!: extends_one)

lemma getPublicCategoryId_extends:
  "getPublicCategoryId rem c s = (r, s') \<Longrightarrow> P (PublicCategorySearch c) \<Longrightarrow> extends P s s'"
  by (auto simp: getPublicCategoryId_def extends_refl split: option.splits sum.splits prod.splits
        dest!: searchFirstId_sent intro!: extends_one)

lemma getTaxId_extends:
  "getTaxId rem s = (r, s') \<Longrightarrow> P (TaxSearchRead taxName) \<Longrightarrow> extends P s s'"
  by (auto simp: getTaxId_def extends_refl split: option.splits sum.splits prod.splits
        dest!: searchFirstId_sent intro!: extends_one)

lemma getTagIds_extends:
  "getTagIds rem ts s = (r, s') \<Longrightarrow> list_all (\<lambda>x. P (TagSearchRead x)) ts \<Longrightarrow> extends P s s'"
proof (induction ts arbitrary: s r s')
  case Nil
  then show ?case by (simp add: extends_refl)
next
  case (Cons t ts)
  obtain r1 s1 where one: "getTagId rem t s = (r1, s1)" by (cases "getTagId rem t s")
  obtain rs s2 where rest: "getTagIds rem ts s1 = (rs, s2)" by (cases "getTagIds rem ts s1")
  from Cons.prems(1) one rest have "s' = s2" by (auto split: sum.splits)
  moreover from one Cons.prems(2) have "extends P s s1" by (auto intro: getTagId_extends)
  moreover from rest Cons.prems(2) have "extends P s1 s2" by (auto intro: Cons.IH)
  ultimately show ?case by (auto intro: extends_trans)
qed

lemma setCategory_extends:
  "setCategory rem c pd s = (pd', s') \<Longrightarrow> P (CategorySearchRead c) \<Longrightarrow>
   P (PublicCategorySearch c) \<Longrightarrow> extends P s s'"
proof -
  assume run: "setCategory rem c pd s = (pd', s')"
    and pc: "P (CategorySearchRead c)" and pp: "P (PublicCategorySearch c)"
  obtain r1 s1 where one: "getCategoryId rem c s = (r1, s1)" by (cases "getCategoryId rem c s")
  obtain r2 s2 where two: "getPublicCategoryId rem c s1 = (r2, s2)"
    by (cases "getPublicCategoryId rem c s1")
  from one pc have e1: "extends P s s1" by (rule getCategoryId_extends)
  from two pp have e2: "extends P s1 s2" by (rule getPublicCategoryId_extends)
  from run one two have "s' = s1 \<or> s' = s2"
    by (auto simp: setCategory_def split: sum.splits option.splits if_splits)
  with e1 e2 show ?thesis by (auto intro: extends_trans)
qed

lemma setCategory_name: "setCategory rem c pd s = (pd', s') \<Longrightarrow> name pd' = name pd"
  by (auto simp: setCategory_def split: prod.splits sum.splits option.splits if_splits)

lemma loadImages_extends:
  "loadImages rem p s = (r, s') \<Longrightarrow> (\<And>u. P (ImageGet u)) \<Longrightarrow> extends P s s'"
  by (auto simp: loadImages_def downloadImageAsBase64_def fetch_def extends_refl
        split: option.splits list.splits sum.splits if_splits intro!: extends_one)

text \<open>
  The steps of \<open>productToOdooDict\<close>, one after the other: the state after each, and the
  payload when all succeed.
\<close>

lemma productToOdooDict_tags_fail:
  "getTagIds rem (getTags (title p)) s = (Inl e, s1) \<Longrightarrow>
   productToOdooDict rem fd p s = (Inl e, s1)"
  by (simp add: productToOdooDict_def)

lemma productToOdooDict_tax_fail:
  "getTagIds rem (getTags (title p)) s = (Inr tids, s1) \<Longrightarrow> getTaxId rem s1 = (Inl e, s2) \<Longrightarrow>
   productToOdooDict rem fd p s = (Inl e, s2)"
  by (simp add: productToOdooDict_def)

lemma productToOdooDict_date_fail:
  "getTagIds rem (getTags (title p)) s = (Inr tids, s1) \<Longrightarrow> getTaxId rem s1 = (Inr tax, s2) \<Longrightarrow>
   loadImages rem p s2 = (img, s3) \<Longrightarrow> fd (date p) = None \<Longrightarrow>
   productToOdooDict rem fd p s = (Inl (RangeError ''Invalid time value''), s3)"
  by (cases img) (simp add: productToOdooDict_def)

lemma productToOdooDict_no_category:
  "getTagIds rem (getTags (title p)) s = (Inr tids, s1) \<Longrightarrow> getTaxId rem s1 = (Inr tax, s2) \<Longrightarrow>
   loadImages rem p s2 = (img, s3) \<Longrightarrow> fd (date p) = Some d \<Longrightarrow>
   getCategory (title p) = None \<Longrightarrow>
   productToOdooDict rem fd p s = (Inr (basePayload p tids tax (fst img) (snd img) d), s3)"
  by (cases img) (simp add: productToOdooDict_def)

lemma productToOdooDict_category:
  "getTagIds rem (getTags (title p)) s = (Inr tids, s1) \<Longrightarrow> getTaxId rem s1 = (Inr tax, s2) \<Longrightarrow>
   loadImages rem p s2 = (img, s3) \<Longrightarrow> fd (date p) = Some d \<Longrightarrow>
   getCategory (title p) = Some c \<Longrightarrow> c \<noteq> [] \<Longrightarrow>
   setCategory rem c (basePayload p tids tax (fst img) (snd img) d) s3 = (pd, s4) \<Longrightarrow>
   productToOdooDict rem fd p s = (Inr pd, s4)"
  by (cases img) (simp add: productToOdooDict_def)

lemma productToOdooDict_empty_category:
  "getTagIds rem (getTags (title p)) s = (Inr tids, s1) \<Longrightarrow> getTaxId rem s1 = (Inr tax, s2) \<Longrightarrow>
   loadImages rem p s2 = (img, s3) \<Longrightarrow> fd (date p) = Some d \<Longrightarrow>
   getCategory (title p) = Some [] \<Longrightarrow>
   productToOdooDict rem fd p s = (Inr (basePayload p tids tax (fst img) (snd img) d), s3)"
  by (cases img) (simp add: productToOdooDict_def)

lemma getCategory_nonempty: "getCategory t = Some c \<Longrightarrow> c \<noteq> []"
proof -
  assume "getCategory t = Some c"
  then have "c \<in> fst ` set CATEGORY_MAP"
    by (auto simp: getCategory_def Let_def find_Some_iff image_iff) (metis fst_conv nth_mem)
  then show ?thesis by (auto simp: CATEGORY_MAP_def)
qed

text \<open>
  Every run of \<open>productToOdooDict\<close> is one of five: the tags fail, the tax fails, the
  date fails, or a payload is made without or with the category step.
\<close>

lemma productToOdooDict_cases:
  assumes "productToOdooDict rem fd p s = (r, s')"
  obtains
    (tags) e where "getTagIds rem (getTags (title p)) s = (Inl e, s')" "r = Inl e"
  | (tax) tids s1 e where "getTagIds rem (getTags (title p)) s = (Inr tids, s1)"
      "getTaxId rem s1 = (Inl e, s')" "r = Inl e"
  | (date) tids s1 tax s2 img where "getTagIds rem (getTags (title p)) s = (Inr tids, s1)"
      "getTaxId rem s1 = (Inr tax, s2)" "loadImages rem p s2 = (img, s')"
      "fd (date p) = None" "r = Inl (RangeError ''Invalid time value'')"
  | (plain) tids s1 tax s2 img d where "getTagIds rem (getTags (title p)) s = (Inr tids, s1)"
      "getTaxId rem s1 = (Inr tax, s2)" "loadImages rem p s2 = (img, s')"
      "fd (date p) = Some d" "getCategory (title p) = None"
      "r = Inr (basePayload p tids tax (fst img) (snd img) d)"
  | (categ) tids s1 tax s2 img s3 d c pd where "getTagIds rem (getTags (title p)) s = (Inr tids, s1)"
      "getTaxId rem s1 = (Inr tax, s2)" "loadImages rem p s2 = (img, s3)"
      "fd (date p) = Some d" "getCategory (title p) = Some c"
      "setCategory rem c (basePayload p tids tax (fst img) (snd img) d) s3 = (pd, s')" "r = Inr pd"
proof -
  obtain rt s1 where t: "getTagIds rem (getTags (title p)) s = (rt, s1)"
    by (cases "getTagIds rem (getTags (title p)) s")
  show ?thesis
  proof (cases rt)
    case (Inl e)
    with t assms productToOdooDict_tags_fail [where fd=fd and rem=rem and p=p and s=s] show ?thesis
      by (auto intro: tags)
  next
    case tids: (Inr tids)
    obtain rx s2 where x: "getTaxId rem s1 = (rx, s2)" by (cases "getTaxId rem s1")
    show ?thesis
    proof (cases rx)
      case (Inl e)
      with t tids x assms productToOdooDict_tax_fail [where fd=fd and rem=rem and p=p and s=s] show ?thesis
        by (auto intro: tax)
    next
      case tx: (Inr taxid)
      obtain img s3 where i: "loadImages rem p s2 = (img, s3)" by (cases "loadImages rem p s2")
      note pre = t [unfolded tids] x [unfolded tx] i
      show ?thesis
      proof (cases "fd (date p)")
        case None
        with assms productToOdooDict_date_fail [where fd=fd, OF pre None] pre show ?thesis
          by (auto intro: date)
      next
        case d: (Some d)
        show ?thesis
        proof (cases "getCategory (title p)")
          case None
          with assms productToOdooDict_no_category [where fd=fd, OF pre d None] pre d show ?thesis
            by (auto intro: plain)
        next
          case c: (Some c)
          then have ne: "c \<noteq> []" by (rule getCategory_nonempty)
          obtain pd s4 where sc: "setCategory rem c (basePayload p tids taxid (fst img) (snd img) d) s3 = (pd, s4)"
            by (cases "setCategory rem c (basePayload p tids taxid (fst img) (snd img) d) s3")
          with assms productToOdooDict_category [where fd=fd, OF pre d c ne sc] pre d c show ?thesis
            by (auto intro: categ)
        qed
      qed
    qed
  qed
qed

lemma productToOdooDict_extends:
  assumes "productToOdooDict rem fd p s = (r, s')" and "lookupsAllowed P (title p)"
  shows "extends P s s'"
proof -
  from assms(2) have tg: "list_all (\<lambda>x. P (TagSearchRead x)) (getTags (title p))"
    and tx: "P (TaxSearchRead taxName)" and im: "\<And>u. P (ImageGet u)"
    and ct: "\<And>c. getCategory (title p) = Some c \<Longrightarrow>
                P (CategorySearchRead c) \<and> P (PublicCategorySearch c)"
    by (simp_all add: lookupsAllowed_def)
  from assms(1) show ?thesis
  proof (cases rule: productToOdooDict_cases)
    case (tags e)
    with tg show ?thesis by (auto intro: getTagIds_extends)
  next
    case (tax tids s1 e)
    with tg tx show ?thesis
      by (blast intro: extends_trans getTagIds_extends getTaxId_extends)
  next
    case (date tids s1 tax s2 img)
    with tg tx im show ?thesis
      by (blast intro: extends_trans getTagIds_extends getTaxId_extends loadImages_extends)
  next
    case (plain tids s1 tax s2 img d)
    with tg tx im show ?thesis
      by (blast intro: extends_trans getTagIds_extends getTaxId_extends loadImages_extends)
  next
    case (categ tids s1 tax s2 img s3 d c pd)
    from categ(1) tg have "extends P s s1" by (rule getTagIds_extends)
    moreover from categ(2) tx have "extends P s1 s2" by (rule getTaxId_extends)
    moreover from categ(3) im have "extends P s2 s3" by (rule loadImages_extends)
    moreover from ct [OF categ(5)] categ(6) have "extends P s3 s'"
      by (auto intro: setCategory_extends)
    ultimately show ?thesis by (blast intro: extends_trans)
  qed
qed

lemma productToOdooDict_name:
  assumes "productToOdooDict rem fd p s = (Inr pd, s')"
  shows "name pd = title p"
  using assms
proof (cases rule: productToOdooDict_cases)
  case (plain tids s1 tax s2 img d)
  then show ?thesis by (simp add: basePayload_def)
next
  case (categ tids s1 tax s2 img s3 d c pd')
  then show ?thesis by (auto simp: basePayload_def dest: setCategory_name)
qed simp_all

lemma lookupsAllowed_lookup: "lookupsAllowed lookup t"
  by (simp add: lookupsAllowed_def lookup_def list_all_iff)

lemma extends_lookup_filters:
  assumes "extends lookup s s'"
  obtains lk where "sent s' = sent s @ lk" "filter terminal lk = []" "filter isProductSearch lk = []"
proof -
  from assms obtain lk where lk: "sent s' = sent s @ lk" "list_all lookup lk"
    by (auto simp: extends_def)
  from lk(2) have "filter terminal lk = []" "filter isProductSearch lk = []"
    by (auto simp: list_all_iff lookup_def filter_empty_conv)
  with lk(1) show ?thesis by (rule that)
qed

lemma createProduct_cases:
  assumes "createProduct rem fd p s = (r, s')"
  obtains
    (mapping) e where "productToOdooDict rem fd p s = (Inl e, s')" "r = Inl e"
  | (request) pd s1 where "productToOdooDict rem fd p s = (Inr pd, s1)"
      "sent s' = sent s1 @ [ProductCreate pd]"
proof -
  obtain rm s1 where m: "productToOdooDict rem fd p s = (rm, s1)"
    by (cases "productToOdooDict rem fd p s")
  show ?thesis
  proof (cases rm)
    case (Inl e)
    with m assms show ?thesis by (auto simp: createProduct_def intro: mapping)
  next
    case (Inr pd)
    with m assms have "sent s' = sent s1 @ [ProductCreate pd]"
      by (auto simp: createProduct_def fetch_def split: sum.splits)
    with m Inr show ?thesis by (auto intro: request)
  qed
qed

lemma updateProduct_cases:
  assumes "updateProduct rem fd i p s = (r, s')"
  obtains
    (mapping) e where "productToOdooDict rem fd p s = (Inl e, s')" "r = Inl e"
  | (request) pd s1 where "productToOdooDict rem fd p s = (Inr pd, s1)"
      "sent s' = sent s1 @ [ProductWrite i pd]"
proof -
  obtain rm s1 where m: "productToOdooDict rem fd p s = (rm, s1)"
    by (cases "productToOdooDict rem fd p s")
  show ?thesis
  proof (cases rm)
    case (Inl e)
    with m assms show ?thesis by (auto simp: updateProduct_def intro: mapping)
  next
    case (Inr pd)
    with m assms have "sent s' = sent s1 @ [ProductWrite i pd]"
      by (auto simp: updateProduct_def fetch_def split: sum.splits)
    with m Inr show ?thesis by (auto intro: request)
  qed
qed

text \<open>
  What a call of \<open>createProduct\<close> or \<open>updateProduct\<close> sends: lookups, and behind them
  the one request that changes the catalog, unless the mapping has failed.
\<close>

lemma createProduct_log:
  assumes "createProduct rem fd p s = (r, s')"
  obtains
    (failed) lk e where "r = Inl e" "sent s' = sent s @ lk" "list_all lookup lk"
  | (sent) lk pd where "sent s' = sent s @ lk @ [ProductCreate pd]" "list_all lookup lk"
      "name pd = title p"
  using assms
proof (cases rule: createProduct_cases)
  case (mapping e)
  from productToOdooDict_extends [OF mapping(1) lookupsAllowed_lookup] mapping(2)
  show ?thesis by (auto simp: extends_def intro: failed)
next
  case (request pd s1)
  from productToOdooDict_extends [OF request(1) lookupsAllowed_lookup]
    productToOdooDict_name [OF request(1)] request(2)
  show ?thesis by (auto simp: extends_def intro: sent)
qed

lemma updateProduct_log:
  assumes "updateProduct rem fd i p s = (r, s')"
  obtains
    (failed) lk e where "r = Inl e" "sent s' = sent s @ lk" "list_all lookup lk"
  | (sent) lk pd where "sent s' = sent s @ lk @ [ProductWrite i pd]" "list_all lookup lk"
      "name pd = title p"
  using assms
proof (cases rule: updateProduct_cases)
  case (mapping e)
  from productToOdooDict_extends [OF mapping(1) lookupsAllowed_lookup] mapping(2)
  show ?thesis by (auto simp: extends_def intro: failed)
next
  case (request pd s1)
  from productToOdooDict_extends [OF request(1) lookupsAllowed_lookup]
    productToOdooDict_name [OF request(1)] request(2)
  show ?thesis by (auto simp: extends_def intro: sent)
qed

lemma lookups_filters:
  "list_all lookup lk \<Longrightarrow> filter terminal lk = [] \<and> filter isProductSearch lk = []"
  by (auto simp: list_all_iff lookup_def filter_empty_conv)

lemma searchProduct_state:
  "searchProduct rem p s = (r, s1) \<Longrightarrow> s1 = afterSearch s p"
  by (auto simp: searchProduct_def afterSearch_def dest: searchFirstId_caches)

text \<open>
  What one call of \<open>exportProduct\<close> sends, whatever its outcome: the product search, then
  requests of which none is a product search and at most one changes the catalog.
\<close>

lemma exportProduct_log:
  assumes "exportProduct rem fd p ow s = (res, s')"
  shows "\<exists>new. sent s' = sent s @ ProductSearchRead (title p) # new \<and>
               filter isProductSearch new = [] \<and> length (filter terminal new) \<le> 1"
proof -
  obtain r s1 where sp: "searchProduct rem p s = (r, s1)" by (cases "searchProduct rem p s")
  from searchProduct_sent [OF sp] have s1: "sent s1 = sent s @ [ProductSearchRead (title p)]" .
  show ?thesis
  proof (cases r)
    case (Inl e)
    with sp assms have "s' = s1" by (simp add: exportProduct_def)
    with s1 show ?thesis by simp
  next
    case (Inr found)
    show ?thesis
    proof (cases found)
      case None
      obtain rc s2 where cp: "createProduct rem fd p s1 = (rc, s2)"
        by (cases "createProduct rem fd p s1")
      with sp Inr None assms have "s' = s2"
        by (auto simp: exportProduct_def split: sum.splits)
      with cp s1 show ?thesis
        by (cases rule: createProduct_log) (auto dest: lookups_filters)
    next
      case (Some eid)
      show ?thesis
      proof (cases "state p = SOLD \<or> state p = REMOVED")
        case True
        obtain ra s2 where ap: "archiveProduct rem [eid] s1 = (ra, s2)"
          by (cases "archiveProduct rem [eid] s1")
        with sp Inr Some True assms have "s' = s2"
          by (auto simp: exportProduct_def split: sum.splits)
        with archiveProduct_sent [OF ap] s1 show ?thesis by simp
      next
        case False
        show ?thesis
        proof (cases ow)
          case True
          obtain ru s2 where up: "updateProduct rem fd eid p s1 = (ru, s2)"
            by (cases "updateProduct rem fd eid p s1")
          with sp Inr Some False True assms have "s' = s2"
            by (auto simp: exportProduct_def split: sum.splits)
          with up s1 show ?thesis
            by (cases rule: updateProduct_log) (auto dest: lookups_filters)
        next
          case ow: False
          with sp Inr Some False assms have "s' = s1" by (simp add: exportProduct_def)
          with s1 show ?thesis by simp
        qed
      qed
    qed
  qed
qed

lemma sentSince_append: "sent s' = sent s @ new \<Longrightarrow> sentSince s s' = new"
  by (simp add: sentSince_def)

lemma searchProduct_empty:
  "rem (sent s) (ProductSearchRead (title p)) = Inr resp \<Longrightarrow> emptyAnswer resp \<Longrightarrow>
   searchProduct rem p s = (Inr None, afterSearch s p)"
  by (simp add: searchProduct_def afterSearch_def searchFirstId_emptyAnswer [where rem=rem])

lemma searchProduct_found:
  "rem (sent s) (ProductSearchRead (title p)) = Inr resp \<Longrightarrow> idAnswer eid resp \<Longrightarrow>
   searchProduct rem p s = (Inr (Some eid), afterSearch s p)"
  by (simp add: searchProduct_def afterSearch_def searchFirstId_idAnswer [where rem=rem])

section \<open>Properties of the orchestrator\<close>

lemma exportProduct_created:
  assumes "rem (sent s) (ProductSearchRead (title p)) = Inr resp" and "emptyAnswer resp"
    and "createProduct rem fd p (afterSearch s p) = (Inr pid, s2)"
  shows "exportProduct rem fd p ow s =
           (\<lparr>res_success = True, res_productId = pid, res_created = True,
             res_updated = False, res_archived = False, res_error = None\<rparr>, s2)"
    and "\<exists>pd. filter terminal (sentSince s s2) = [ProductCreate pd] \<and> name pd = title p"
proof -
  from assms(1,2) have sp: "searchProduct rem p s = (Inr None, afterSearch s p)"
    by (rule searchProduct_empty)
  with assms(3) show "exportProduct rem fd p ow s =
           (\<lparr>res_success = True, res_productId = pid, res_created = True,
             res_updated = False, res_archived = False, res_error = None\<rparr>, s2)"
    by (simp add: exportProduct_def succeeded_def)
  from assms(3) obtain lk pd where
    "sent s2 = sent (afterSearch s p) @ lk @ [ProductCreate pd]" "list_all lookup lk"
    "name pd = title p"
    by (cases rule: createProduct_log) auto
  then have "sent s2 = sent s @ (ProductSearchRead (title p) # lk @ [ProductCreate pd])"
    and "filter terminal lk = []" and "name pd = title p"
    by (simp_all add: afterSearch_def lookups_filters)
  then show "\<exists>pd. filter terminal (sentSince s s2) = [ProductCreate pd] \<and> name pd = title p"
    by (auto dest!: sentSince_append)
qed

lemma exportProduct_archived:
  assumes "rem (sent s) (ProductSearchRead (title p)) = Inr resp" and "idAnswer eid resp"
    and "state p = SOLD \<or> state p = REMOVED"
    and "archiveProduct rem [eid] (afterSearch s p) = (Inr (), s2)"
  shows "exportProduct rem fd p ow s =
           (\<lparr>res_success = True, res_productId = Some eid, res_created = False,
             res_updated = False, res_archived = True, res_error = None\<rparr>, s2)"
    and "filter terminal (sentSince s s2) = [ProductArchive [eid]]"
proof -
  from assms(1,2) have sp: "searchProduct rem p s = (Inr (Some eid), afterSearch s p)"
    by (rule searchProduct_found)
  with assms(3,4) show "exportProduct rem fd p ow s =
           (\<lparr>res_success = True, res_productId = Some eid, res_created = False,
             res_updated = False, res_archived = True, res_error = None\<rparr>, s2)"
    by (auto simp: exportProduct_def succeeded_def)
  from archiveProduct_sent [OF assms(4)]
  have "sent s2 = sent s @ [ProductSearchRead (title p), ProductArchive [eid]]"
    by (simp add: afterSearch_def)
  then show "filter terminal (sentSince s s2) = [ProductArchive [eid]]"
    by (auto dest!: sentSince_append)
qed

lemma exportProduct_updated:
  assumes "rem (sent s) (ProductSearchRead (title p)) = Inr resp" and "idAnswer eid resp"
    and "state p = ACTIVE"
    and "updateProduct rem fd eid p (afterSearch s p) = (Inr (), s2)"
  shows "exportProduct rem fd p True s =
           (\<lparr>res_success = True, res_productId = Some eid, res_created = False,
             res_updated = True, res_archived = False, res_error = None\<rparr>, s2)"
    and "\<exists>pd. filter terminal (sentSince s s2) = [ProductWrite eid pd] \<and> name pd = title p"
proof -
  from assms(1,2) have sp: "searchProduct rem p s = (Inr (Some eid), afterSearch s p)"
    by (rule searchProduct_found)
  with assms(3,4) show "exportProduct rem fd p True s =
           (\<lparr>res_success = True, res_productId = Some eid, res_created = False,
             res_updated = True, res_archived = False, res_error = None\<rparr>, s2)"
    by (simp add: exportProduct_def succeeded_def)
  from assms(4) obtain lk pd where
    "sent s2 = sent (afterSearch s p) @ lk @ [ProductWrite eid pd]" "list_all lookup lk"
    "name pd = title p"
    by (cases rule: updateProduct_log) auto
  then have "sent s2 = sent s @ (ProductSearchRead (title p) # lk @ [ProductWrite eid pd])"
    and "filter terminal lk = []" and "name pd = title p"
    by (simp_all add: afterSearch_def lookups_filters)
  then show "\<exists>pd. filter terminal (sentSince s s2) = [ProductWrite eid pd] \<and> name pd = title p"
    by (auto dest!: sentSince_append)
qed

lemma exportProduct_skipped:
  assumes "rem (sent s) (ProductSearchRead (title p)) = Inr resp" and "idAnswer eid resp"
    and "state p = ACTIVE"
  shows "exportProduct rem fd p False s =
           (\<lparr>res_success = True, res_productId = Some eid, res_created = False,
             res_updated = False, res_archived = False, res_error = None\<rparr>, afterSearch s p)"
    and "sentSince s (afterSearch s p) = [ProductSearchRead (title p)]"
proof -
  from assms(1,2) have sp: "searchProduct rem p s = (Inr (Some eid), afterSearch s p)"
    by (rule searchProduct_found)
  with assms(3) show "exportProduct rem fd p False s =
           (\<lparr>res_success = True, res_productId = Some eid, res_created = False,
             res_updated = False, res_archived = False, res_error = None\<rparr>, afterSearch s p)"
    by (simp add: exportProduct_def succeeded_def)
  show "sentSince s (afterSearch s p) = [ProductSearchRead (title p)]"
    by (simp add: sentSince_def afterSearch_def)
qed

lemma exportProduct_one_terminal:
  "length (filter terminal (sentSince s (snd (exportProduct rem fd p ow s)))) \<le> 1"
proof -
  obtain res s' where run: "exportProduct rem fd p ow s = (res, s')"
    by (cases "exportProduct rem fd p ow s")
  from exportProduct_log [OF run] obtain new where
    "sent s' = sent s @ ProductSearchRead (title p) # new" "length (filter terminal new) \<le> 1"
    by blast
  then have "length (filter terminal (sentSince s s')) \<le> 1"
    by (auto dest!: sentSince_append)
  with run show ?thesis by simp
qed

text \<open>
  \<^bold>\<open>C2\<close> (amended). The catalog answers the product search of \<open>p\<close> with the response
  \<open>resp\<close>.
  (a) No record, and the creation goes through: the outcome is created, and of the
  requests sent exactly one changes the catalog, a creation that carries the title.
  (b) A record \<open>eid\<close>, the state is \<open>SOLD\<close> or \<open>REMOVED\<close>, and the archiving goes
  through: the outcome is archived, and the one change is the archiving of \<open>eid\<close>.
  (c) A record \<open>eid\<close>, the state is \<open>ACTIVE\<close>, overwrite is set, and the update goes
  through: the outcome is updated, and the one change is the update of \<open>eid\<close>.
  (d) A record \<open>eid\<close>, the state is \<open>ACTIVE\<close>, overwrite is not set: the outcome is a
  success with no flag set, and the product search is the only request sent.
  In every case, also when a step fails, at most one request changes the catalog.
\<close>

theorem C2_export_decision_table:
  assumes "rem (sent s) (ProductSearchRead (title p)) = Inr resp"
  shows "(emptyAnswer resp \<and> createProduct rem fd p (afterSearch s p) = (Inr pid, s2) \<longrightarrow>
            exportProduct rem fd p ow s =
              (\<lparr>res_success = True, res_productId = pid, res_created = True,
                res_updated = False, res_archived = False, res_error = None\<rparr>, s2) \<and>
            (\<exists>pd. filter terminal (sentSince s s2) = [ProductCreate pd] \<and> name pd = title p)) \<and>
         (idAnswer eid resp \<and> (state p = SOLD \<or> state p = REMOVED) \<and>
          archiveProduct rem [eid] (afterSearch s p) = (Inr (), s3) \<longrightarrow>
            exportProduct rem fd p ow s =
              (\<lparr>res_success = True, res_productId = Some eid, res_created = False,
                res_updated = False, res_archived = True, res_error = None\<rparr>, s3) \<and>
            filter terminal (sentSince s s3) = [ProductArchive [eid]]) \<and>
         (idAnswer eid resp \<and> state p = ACTIVE \<and>
          updateProduct rem fd eid p (afterSearch s p) = (Inr (), s4) \<longrightarrow>
            exportProduct rem fd p True s =
              (\<lparr>res_success = True, res_productId = Some eid, res_created = False,
                res_updated = True, res_archived = False, res_error = None\<rparr>, s4) \<and>
            (\<exists>pd. filter terminal (sentSince s s4) = [ProductWrite eid pd] \<and> name pd = title p)) \<and>
         (idAnswer eid resp \<and> state p = ACTIVE \<longrightarrow>
            exportProduct rem fd p False s =
              (\<lparr>res_success = True, res_productId = Some eid, res_created = False,
                res_updated = False, res_archived = False, res_error = None\<rparr>, afterSearch s p) \<and>
            sentSince s (afterSearch s p) = [ProductSearchRead (title p)]) \<and>
         length (filter terminal (sentSince s (snd (exportProduct rem fd p ow s)))) \<le> 1"
proof (intro conjI impI)
  assume h: "emptyAnswer resp \<and> createProduct rem fd p (afterSearch s p) = (Inr pid, s2)"
  from h have e: "emptyAnswer resp" by (rule conjunct1)
  from h have c: "createProduct rem fd p (afterSearch s p) = (Inr pid, s2)" by (rule conjunct2)
  from exportProduct_created(1) [where rem=rem, OF assms e c]
  show "exportProduct rem fd p ow s =
              (\<lparr>res_success = True, res_productId = pid, res_created = True,
                res_updated = False, res_archived = False, res_error = None\<rparr>, s2)" .
  from exportProduct_created(2) [where rem=rem, OF assms e c]
  show "\<exists>pd. filter terminal (sentSince s s2) = [ProductCreate pd] \<and> name pd = title p" .
next
  assume h: "idAnswer eid resp \<and> (state p = SOLD \<or> state p = REMOVED) \<and>
          archiveProduct rem [eid] (afterSearch s p) = (Inr (), s3)"
  from h have i: "idAnswer eid resp" by (rule conjunct1)
  from h have st: "state p = SOLD \<or> state p = REMOVED" by blast
  from h have a: "archiveProduct rem [eid] (afterSearch s p) = (Inr (), s3)" by blast
  from exportProduct_archived(1) [where rem=rem, OF assms i st a]
  show "exportProduct rem fd p ow s =
              (\<lparr>res_success = True, res_productId = Some eid, res_created = False,
                res_updated = False, res_archived = True, res_error = None\<rparr>, s3)" .
  from exportProduct_archived(2) [where rem=rem, OF assms i st a]
  show "filter terminal (sentSince s s3) = [ProductArchive [eid]]" .
next
  assume h: "idAnswer eid resp \<and> state p = ACTIVE \<and>
          updateProduct rem fd eid p (afterSearch s p) = (Inr (), s4)"
  from h have i: "idAnswer eid resp" by (rule conjunct1)
  from h have st: "state p = ACTIVE" by blast
  from h have u: "updateProduct rem fd eid p (afterSearch s p) = (Inr (), s4)" by blast
  from exportProduct_updated(1) [where rem=rem, OF assms i st u]
  show "exportProduct rem fd p True s =
              (\<lparr>res_success = True, res_productId = Some eid, res_created = False,
                res_updated = True, res_archived = False, res_error = None\<rparr>, s4)" .
  from exportProduct_updated(2) [where rem=rem, OF assms i st u]
  show "\<exists>pd. filter terminal (sentSince s s4) = [ProductWrite eid pd] \<and> name pd = title p" .
next
  assume h: "idAnswer eid resp \<and> state p = ACTIVE"
  from h have i: "idAnswer eid resp" by (rule conjunct1)
  from h have st: "state p = ACTIVE" by (rule conjunct2)
  from exportProduct_skipped(1) [where rem=rem, OF assms i st]
  show "exportProduct rem fd p False s =
              (\<lparr>res_success = True, res_productId = Some eid, res_created = False,
                res_updated = False, res_archived = False, res_error = None\<rparr>, afterSearch s p)" .
  from exportProduct_skipped(2) [where rem=rem, OF assms i st]
  show "sentSince s (afterSearch s p) = [ProductSearchRead (title p)]" .
next
  show "length (filter terminal (sentSince s (snd (exportProduct rem fd p ow s)))) \<le> 1"
    by (rule exportProduct_one_terminal)
qed

lemma getTags_jouef_sncf: "getTags ''Jouef SNCF'' = [''Jouef'', ''SNCF'']"
  by (simp add: getTags_def string_defs TAGS_MAP_def keywordsMatch_def)

lemma getCategory_jouef_sncf: "getCategory ''Jouef SNCF'' = None"
  by (simp add: getCategory_def string_defs CATEGORY_MAP_def keywordsMatch_def)

lemma getTags_loco: "getTags ''Locomotive Roco'' = [''Roco'']"
  by (simp add: getTags_def string_defs TAGS_MAP_def keywordsMatch_def)

lemma getCategory_loco: "getCategory ''Locomotive Roco'' = Some ''Locomotives''"
  by (simp add: getCategory_def string_defs CATEGORY_MAP_def keywordsMatch_def)

lemmas sample_classes =
  getTags_jouef_sncf getCategory_jouef_sncf getTags_loco getCategory_loco

lemma emptyAnswer_sample: "emptyAnswer (jsonResponse (JArray []))"
  by (simp add: emptyAnswer_def jsonResponse_def isJsonContent_def)

lemma idAnswer_sample: "idAnswer i (jsonResponse (JArray [i]))"
  by (simp add: idAnswer_def jsonResponse_def isJsonContent_def)

text \<open>
  Witness of C2, on the sample catalog: a product that the catalog does not hold is
  created; the product that it holds under the id 41 is archived when sold, updated when
  active with overwrite, and left alone when active without overwrite.
\<close>

theorem C2_export_decision_table_witness:
  "fst (exportProduct shopRemote plainDate (productOf ''11'' ''Jouef SNCF'' ACTIVE) True
          freshService) =
     \<lparr>res_success = True, res_productId = Some 104, res_created = True,
      res_updated = False, res_archived = False, res_error = None\<rparr> \<and>
   fst (exportProduct shopRemote plainDate (productOf ''14'' ''Locomotive Roco'' SOLD) True
          freshService) =
     \<lparr>res_success = True, res_productId = Some 41, res_created = False,
      res_updated = False, res_archived = True, res_error = None\<rparr> \<and>
   fst (exportProduct shopRemote plainDate (productOf ''14'' ''Locomotive Roco'' ACTIVE) True
          freshService) =
     \<lparr>res_success = True, res_productId = Some 41, res_created = False,
      res_updated = True, res_archived = False, res_error = None\<rparr> \<and>
   exportProduct shopRemote plainDate (productOf ''14'' ''Locomotive Roco'' ACTIVE) False
          freshService =
     (\<lparr>res_success = True, res_productId = Some 41, res_created = False,
       res_updated = False, res_archived = False, res_error = None\<rparr>,
      freshService\<lparr>sent := [ProductSearchRead ''Locomotive Roco'']\<rparr>)"
proof -
  let ?a = "productOf ''11'' ''Jouef SNCF'' ACTIVE"
  let ?sold = "productOf ''14'' ''Locomotive Roco'' SOLD"
  let ?act = "productOf ''14'' ''Locomotive Roco'' ACTIVE"
  have ra: "shopRemote (sent freshService) (ProductSearchRead (title ?a)) =
              Inr (jsonResponse (JArray []))"
    by (simp add: productOf_def)
  have rs: "shopRemote (sent freshService) (ProductSearchRead (title ?sold)) =
              Inr (jsonResponse (JArray [41]))"
    by (simp add: productOf_def)
  have rc: "shopRemote (sent freshService) (ProductSearchRead (title ?act)) =
              Inr (jsonResponse (JArray [41]))"
    by (simp add: productOf_def)
  have "fst (createProduct shopRemote plainDate ?a (afterSearch freshService ?a)) = Inr (Some 104)"
    by (simp add: service_defs remote_defs afterSearch_def sample_classes)
  then obtain s2 where
    cr: "createProduct shopRemote plainDate ?a (afterSearch freshService ?a) = (Inr (Some 104), s2)"
    by (cases "createProduct shopRemote plainDate ?a (afterSearch freshService ?a)") simp
  have "fst (archiveProduct shopRemote [41] (afterSearch freshService ?sold)) = Inr ()"
    by (simp add: service_defs remote_defs afterSearch_def)
  then obtain s3 where
    ar: "archiveProduct shopRemote [41] (afterSearch freshService ?sold) = (Inr (), s3)"
    by (cases "archiveProduct shopRemote [41] (afterSearch freshService ?sold)") simp
  have "fst (updateProduct shopRemote plainDate 41 ?act (afterSearch freshService ?act)) = Inr ()"
    by (simp add: service_defs remote_defs afterSearch_def sample_classes)
  then obtain s4 where
    up: "updateProduct shopRemote plainDate 41 ?act (afterSearch freshService ?act) = (Inr (), s4)"
    by (cases "updateProduct shopRemote plainDate 41 ?act (afterSearch freshService ?act)") simp
  have sold: "state ?sold = SOLD \<or> state ?sold = REMOVED" and act: "state ?act = ACTIVE"
    by (simp_all add: productOf_def)
  from C2_export_decision_table [where rem=shopRemote and fd=plainDate and ow=True
        and pid="Some 104" and ?s2.0=s2, OF ra] emptyAnswer_sample cr
  have one: "exportProduct shopRemote plainDate ?a True freshService =
     (\<lparr>res_success = True, res_productId = Some 104, res_created = True,
       res_updated = False, res_archived = False, res_error = None\<rparr>, s2)"
    by blast
  from C2_export_decision_table [where rem=shopRemote and fd=plainDate and ow=True
        and eid=41 and ?s3.0=s3, OF rs] idAnswer_sample sold ar
  have two: "exportProduct shopRemote plainDate ?sold True freshService =
     (\<lparr>res_success = True, res_productId = Some 41, res_created = False,
       res_updated = False, res_archived = True, res_error = None\<rparr>, s3)"
    by blast
  from C2_export_decision_table [where rem=shopRemote and fd=plainDate and ow=True
        and eid=41 and ?s4.0=s4, OF rc] idAnswer_sample act up
  have three: "exportProduct shopRemote plainDate ?act True freshService =
     (\<lparr>res_success = True, res_productId = Some 41, res_created = False,
       res_updated = True, res_archived = False, res_error = None\<rparr>, s4)"
    by blast
  from C2_export_decision_table [where rem=shopRemote and fd=plainDate and ow=False
        and eid=41, OF rc] idAnswer_sample act
  have four: "exportProduct shopRemote plainDate ?act False freshService =
     (\<lparr>res_success = True, res_productId = Some 41, res_created = False,
       res_updated = False, res_archived = False, res_error = None\<rparr>,
      afterSearch freshService ?act)"
    by blast
  have "afterSearch freshService ?act = freshService\<lparr>sent := [ProductSearchRead ''Locomotive Roco'']\<rparr>"
    by (simp add: afterSearch_def freshService_def productOf_def)
  with one two three four show ?thesis by simp
qed

lemma getTags_lima: "getTags ''Wagon Lima'' = [''Lima'']"
  by (simp add: getTags_def string_defs TAGS_MAP_def keywordsMatch_def)

lemma getCategory_lima: "getCategory ''Wagon Lima'' = Some ''Wagons''"
  by (simp add: getCategory_def string_defs CATEGORY_MAP_def keywordsMatch_def)

text \<open>
  Counterexample to C2 as stated: the sample catalog holds no product named
  \<open>Wagon Lima\<close> and does not know the tag Lima. The search returns none, the creation
  is chosen, the tag lookup of the mapping throws; the outcome is a failure, not created,
  and the catalog has received the product search and the tag lookup only.
\<close>

theorem C2_counterexample:
  "shopRemote (sent freshService) (ProductSearchRead (title (productOf ''12'' ''Wagon Lima'' ACTIVE))) =
     Inr (jsonResponse (JArray [])) \<and>
   emptyAnswer (jsonResponse (JArray [])) \<and>
   exportProduct shopRemote plainDate (productOf ''12'' ''Wagon Lima'' ACTIVE) True freshService =
     (\<lparr>res_success = False, res_productId = None, res_created = False, res_updated = False,
       res_archived = False,
       res_error = Some (''Error: Tag '' @ quoted ''Lima'' @ '' not found in Odoo.'')\<rparr>,
      freshService\<lparr>sent := [ProductSearchRead ''Wagon Lima'', TagSearchRead ''Lima'']\<rparr>)"
  by (simp add: service_defs remote_defs getTags_lima getCategory_lima emptyAnswer_def)

lemma String_of_exn_nonempty: "String_of_exn e \<noteq> []"
  by (cases e) (simp_all add: String_of_exn_def)

lemma exportProduct_result:
  assumes "exportProduct rem fd p ow s = (res, s')"
  shows "(res_success res \<and> res_error res = None) \<or>
         (\<exists>e. res = failed e \<and> \<not> res_created res \<and> \<not> res_updated res \<and> \<not> res_archived res)"
  using assms
  by (auto simp: exportProduct_def succeeded_def failed_def
        split: prod.splits sum.splits option.splits if_splits)

lemma exportProduct_search_fails:
  "searchProduct rem p s = (Inl e, s1) \<Longrightarrow> exportProduct rem fd p ow s = (failed e, s1)"
  by (simp add: exportProduct_def)

lemma exportProduct_create_fails:
  "searchProduct rem p s = (Inr None, s1) \<Longrightarrow> createProduct rem fd p s1 = (Inl e, s2) \<Longrightarrow>
   exportProduct rem fd p ow s = (failed e, s2)"
  by (simp add: exportProduct_def)

lemma exportProduct_archive_fails:
  "searchProduct rem p s = (Inr (Some i), s1) \<Longrightarrow> state p = SOLD \<or> state p = REMOVED \<Longrightarrow>
   archiveProduct rem [i] s1 = (Inl e, s2) \<Longrightarrow>
   exportProduct rem fd p ow s = (failed e, s2)"
  by (auto simp: exportProduct_def)

lemma exportProduct_update_fails:
  "searchProduct rem p s = (Inr (Some i), s1) \<Longrightarrow> state p = ACTIVE \<Longrightarrow>
   updateProduct rem fd i p s1 = (Inl e, s2) \<Longrightarrow>
   exportProduct rem fd p True s = (failed e, s2)"
  by (simp add: exportProduct_def)

text \<open>
  The loop of \<open>exportProducts\<close> against the outcomes in order: the counters grow by the
  numbers of outcomes with the flag, the errors by the failed outcomes with their message.
\<close>

lemma exportLoop_outcomes:
  "fst (exportLoop rem fd ow ps (c, u, a, errs) s) =
     (c + length (filter (\<lambda>(p, r). res_created r) (outcomesInOrder rem fd ow ps s)),
      u + length (filter (\<lambda>(p, r). res_updated r) (outcomesInOrder rem fd ow ps s)),
      a + length (filter (\<lambda>(p, r). res_archived r) (outcomesInOrder rem fd ow ps s)),
      errs @ map (\<lambda>(p, r). (ident p, the (res_error r)))
               (filter (\<lambda>(p, r). \<not> res_success r) (outcomesInOrder rem fd ow ps s)))"
proof (induction ps arbitrary: c u a errs s)
  case Nil
  then show ?case by simp
next
  case (Cons p ps)
  obtain res s1 where run: "exportProduct rem fd p ow s = (res, s1)"
    by (cases "exportProduct rem fd p ow s")
  from exportProduct_result [OF run] show ?case
  proof
    assume ok: "res_success res \<and> res_error res = None"
    with run Cons.IH show ?thesis by simp
  next
    assume "\<exists>e. res = failed e \<and> \<not> res_created res \<and> \<not> res_updated res \<and> \<not> res_archived res"
    then obtain e where e: "res = failed e" and flags: "\<not> res_created res" "\<not> res_updated res"
      "\<not> res_archived res"
      by blast
    from e have "\<not> res_success res" "res_error res = Some (String_of_exn e)"
      by (simp_all add: failed_def)
    with run flags Cons.IH String_of_exn_nonempty [of e] show ?thesis by simp
  qed
qed

lemma outcomesInOrder_products: "map fst (outcomesInOrder rem fd ow ps s) = ps"
  by (induction ps arbitrary: s) (auto split: prod.splits)

lemma outcomesInOrder_failed:
  "(p, r) \<in> set (outcomesInOrder rem fd ow ps s) \<Longrightarrow> \<not> res_success r \<Longrightarrow> \<exists>e. r = failed e"
proof (induction ps arbitrary: s)
  case Nil
  then show ?case by simp
next
  case (Cons q ps)
  obtain res s1 where run: "exportProduct rem fd q ow s = (res, s1)"
    by (cases "exportProduct rem fd q ow s")
  with Cons.prems(1) have "(p, r) = (q, res) \<or> (p, r) \<in> set (outcomesInOrder rem fd ow ps s1)"
    by simp
  then show ?case
  proof
    assume "(p, r) = (q, res)"
    with exportProduct_result [OF run] Cons.prems(2) show ?thesis by auto
  next
    assume "(p, r) \<in> set (outcomesInOrder rem fd ow ps s1)"
    from Cons.IH [OF this Cons.prems(2)] show ?thesis .
  qed
qed

lemma exportLoop_searches:
  "\<exists>new. sent (snd (exportLoop rem fd ow ps acc s)) = sent s @ new \<and>
         filter isProductSearch new = map (\<lambda>p. ProductSearchRead (title p)) ps"
proof (induction ps arbitrary: acc s)
  case Nil
  then show ?case by simp
next
  case (Cons p ps)
  obtain c u a errs where acc: "acc = (c, u, a, errs)" by (cases acc)
  obtain res s1 where run: "exportProduct rem fd p ow s = (res, s1)"
    by (cases "exportProduct rem fd p ow s")
  from exportProduct_log [OF run] obtain new1 where
    n1: "sent s1 = sent s @ ProductSearchRead (title p) # new1"
        "filter isProductSearch new1 = []"
    by blast
  have "\<exists>acc'. exportLoop rem fd ow (p # ps) acc s = exportLoop rem fd ow ps acc' s1"
  proof (cases "res_success res")
    case True
    with acc run show ?thesis by auto
  next
    case False
    with acc run show ?thesis by (cases "res_error res") auto
  qed
  then obtain acc' where
    step: "exportLoop rem fd ow (p # ps) acc s = exportLoop rem fd ow ps acc' s1"
    by blast
  from Cons.IH [of acc' s1] obtain new2 where
    n2: "sent (snd (exportLoop rem fd ow ps acc' s1)) = sent s1 @ new2"
        "filter isProductSearch new2 = map (\<lambda>p. ProductSearchRead (title p)) ps"
    by blast
  from step n1 n2 have
    "sent (snd (exportLoop rem fd ow (p # ps) acc s)) =
       sent s @ (ProductSearchRead (title p) # new1 @ new2)"
    "filter isProductSearch (ProductSearchRead (title p) # new1 @ new2) =
       map (\<lambda>p. ProductSearchRead (title p)) (p # ps)"
    by simp_all
  then show ?case by blast
qed

lemma exportProducts_searches:
  "filter isProductSearch (sentSince s (snd (exportProducts rem fd ps ow s))) =
     map (\<lambda>p. ProductSearchRead (title p)) ps"
proof -
  from exportLoop_searches [of rem fd ow ps "(0, 0, 0, [])" s] obtain new where
    n: "sent (snd (exportLoop rem fd ow ps (0, 0, 0, []) s)) = sent s @ new"
       "filter isProductSearch new = map (\<lambda>p. ProductSearchRead (title p)) ps"
    by blast
  have "snd (exportProducts rem fd ps ow s) = snd (exportLoop rem fd ow ps (0, 0, 0, []) s)"
    by (simp add: exportProducts_def split: prod.splits)
  with n show ?thesis by (simp add: sentSince_def)
qed

lemma exportProducts_outcomes:
  "fst (exportProducts rem fd ps ow s) =
     \<lparr>bulk_success = (\<forall>(p, r) \<in> set (outcomesInOrder rem fd ow ps s). res_success r),
      bulk_created = length (filter (\<lambda>(p, r). res_created r) (outcomesInOrder rem fd ow ps s)),
      bulk_updated = length (filter (\<lambda>(p, r). res_updated r) (outcomesInOrder rem fd ow ps s)),
      bulk_archived = length (filter (\<lambda>(p, r). res_archived r) (outcomesInOrder rem fd ow ps s)),
      bulk_errors = map (\<lambda>(p, r). (ident p, the (res_error r)))
                      (filter (\<lambda>(p, r). \<not> res_success r) (outcomesInOrder rem fd ow ps s))\<rparr>"
proof -
  obtain c u a errs s' where loop: "exportLoop rem fd ow ps (0, 0, 0, []) s = ((c, u, a, errs), s')"
    by (cases "exportLoop rem fd ow ps (0, 0, 0, []) s") auto
  from exportLoop_outcomes [of rem fd ow ps 0 0 0 "[]" s] loop
  have vals: "c = length (filter (\<lambda>(p, r). res_created r) (outcomesInOrder rem fd ow ps s))"
    "u = length (filter (\<lambda>(p, r). res_updated r) (outcomesInOrder rem fd ow ps s))"
    "a = length (filter (\<lambda>(p, r). res_archived r) (outcomesInOrder rem fd ow ps s))"
    "errs = map (\<lambda>(p, r). (ident p, the (res_error r)))
               (filter (\<lambda>(p, r). \<not> res_success r) (outcomesInOrder rem fd ow ps s))"
    by simp_all
  from vals(4) have "(errs = []) = (\<forall>(p, r) \<in> set (outcomesInOrder rem fd ow ps s). res_success r)"
    by (auto simp: filter_empty_conv)
  with loop vals show ?thesis by (simp add: exportProducts_def)
qed

lemma exportProducts_three:
  assumes "exportProduct rem fd p1 ow s = (r1, sA)" and "res_success r1"
    and "searchProduct rem p2 sA = (Inr None, sB)" and "createProduct rem fd p2 sB = (Inl e, sC)"
    and "exportProduct rem fd p3 ow sC = (r3, sD)" and "res_success r3"
  shows "bulk_errors (fst (exportProducts rem fd [p1, p2, p3] ow s)) = [(ident p2, String_of_exn e)]"
    and "snd (exportProducts rem fd [p1, p2, p3] ow s) = sD"
proof -
  from assms(3,4) have two: "exportProduct rem fd p2 ow sA = (failed e, sC)"
    by (rule exportProduct_create_fails)
  have f: "\<not> res_success (failed e)" "res_error (failed e) = Some (String_of_exn e)"
    by (simp_all add: failed_def)
  from assms(1,2,5,6) two f String_of_exn_nonempty [of e]
  show "bulk_errors (fst (exportProducts rem fd [p1, p2, p3] ow s)) = [(ident p2, String_of_exn e)]"
    and "snd (exportProducts rem fd [p1, p2, p3] ow s) = sD"
    by (simp_all add: exportProducts_def split: prod.splits)
qed

text \<open>
  \<^bold>\<open>C4\<close>. An exception of the search, the creation, the archiving or the update of a
  product ends in the failure outcome that carries its text, which is never empty. A
  batch exports every product, in the order of the input: the product searches that the
  catalog receives are those of the products, in that order, whatever fails in between.
  The result counts the outcomes created, updated and archived, lists the failed
  products with their messages, and reports success exactly when that list is empty.
  When, of three products, the first and the third succeed and the creation of the
  second throws, the list has the one entry of the second, and the batch ends in the
  state that the export of the third leaves.
\<close>

theorem C4_batch_export:
  "(searchProduct rem p s = (Inl e, s1) \<longrightarrow> exportProduct rem fd p ow s = (failed e, s1)) \<and>
   (searchProduct rem p s = (Inr None, s1) \<and> createProduct rem fd p s1 = (Inl e, s2) \<longrightarrow>
      exportProduct rem fd p ow s = (failed e, s2)) \<and>
   (searchProduct rem p s = (Inr (Some i), s1) \<and> (state p = SOLD \<or> state p = REMOVED) \<and>
    archiveProduct rem [i] s1 = (Inl e, s2) \<longrightarrow>
      exportProduct rem fd p ow s = (failed e, s2)) \<and>
   (searchProduct rem p s = (Inr (Some i), s1) \<and> state p = ACTIVE \<and>
    updateProduct rem fd i p s1 = (Inl e, s2) \<longrightarrow>
      exportProduct rem fd p True s = (failed e, s2)) \<and>
   failed e = \<lparr>res_success = False, res_productId = None, res_created = False,
                res_updated = False, res_archived = False,
                res_error = Some (String_of_exn e)\<rparr> \<and>
   String_of_exn e \<noteq> [] \<and>
   map fst (outcomesInOrder rem fd ow ps s) = ps \<and>
   filter isProductSearch (sentSince s (snd (exportProducts rem fd ps ow s))) =
     map (\<lambda>p. ProductSearchRead (title p)) ps \<and>
   fst (exportProducts rem fd ps ow s) =
     \<lparr>bulk_success = (\<forall>(p, r) \<in> set (outcomesInOrder rem fd ow ps s). res_success r),
      bulk_created = length (filter (\<lambda>(p, r). res_created r) (outcomesInOrder rem fd ow ps s)),
      bulk_updated = length (filter (\<lambda>(p, r). res_updated r) (outcomesInOrder rem fd ow ps s)),
      bulk_archived = length (filter (\<lambda>(p, r). res_archived r) (outcomesInOrder rem fd ow ps s)),
      bulk_errors = map (\<lambda>(p, r). (ident p, the (res_error r)))
                      (filter (\<lambda>(p, r). \<not> res_success r) (outcomesInOrder rem fd ow ps s))\<rparr> \<and>
   (\<forall>q r. (q, r) \<in> set (outcomesInOrder rem fd ow ps s) \<and> \<not> res_success r \<longrightarrow>
          (\<exists>e'. r = failed e')) \<and>
   (bulk_success (fst (exportProducts rem fd ps ow s)) \<longleftrightarrow>
      bulk_errors (fst (exportProducts rem fd ps ow s)) = []) \<and>
   (exportProduct rem fd p1 ow s = (r1, sA) \<and> res_success r1 \<and>
    searchProduct rem p2 sA = (Inr None, sB) \<and> createProduct rem fd p2 sB = (Inl e, sC) \<and>
    exportProduct rem fd p3 ow sC = (r3, sD) \<and> res_success r3 \<longrightarrow>
      bulk_errors (fst (exportProducts rem fd [p1, p2, p3] ow s)) =
        [(ident p2, String_of_exn e)] \<and>
      snd (exportProducts rem fd [p1, p2, p3] ow s) = sD)"
proof (intro conjI)
  show "searchProduct rem p s = (Inl e, s1) \<longrightarrow> exportProduct rem fd p ow s = (failed e, s1)"
    by (simp add: exportProduct_search_fails)
  show "searchProduct rem p s = (Inr None, s1) \<and> createProduct rem fd p s1 = (Inl e, s2) \<longrightarrow>
      exportProduct rem fd p ow s = (failed e, s2)"
    by (simp add: exportProduct_create_fails)
  show "searchProduct rem p s = (Inr (Some i), s1) \<and> (state p = SOLD \<or> state p = REMOVED) \<and>
    archiveProduct rem [i] s1 = (Inl e, s2) \<longrightarrow>
      exportProduct rem fd p ow s = (failed e, s2)"
    by (blast intro: exportProduct_archive_fails)
  show "searchProduct rem p s = (Inr (Some i), s1) \<and> state p = ACTIVE \<and>
    updateProduct rem fd i p s1 = (Inl e, s2) \<longrightarrow>
      exportProduct rem fd p True s = (failed e, s2)"
    by (simp add: exportProduct_update_fails)
  show "failed e = \<lparr>res_success = False, res_productId = None, res_created = False,
                res_updated = False, res_archived = False,
                res_error = Some (String_of_exn e)\<rparr>"
    by (simp add: failed_def)
  show "String_of_exn e \<noteq> []" by (rule String_of_exn_nonempty)
  show "map fst (outcomesInOrder rem fd ow ps s) = ps" by (rule outcomesInOrder_products)
  show "filter isProductSearch (sentSince s (snd (exportProducts rem fd ps ow s))) =
     map (\<lambda>p. ProductSearchRead (title p)) ps"
    by (rule exportProducts_searches)
  show "fst (exportProducts rem fd ps ow s) =
     \<lparr>bulk_success = (\<forall>(p, r) \<in> set (outcomesInOrder rem fd ow ps s). res_success r),
      bulk_created = length (filter (\<lambda>(p, r). res_created r) (outcomesInOrder rem fd ow ps s)),
      bulk_updated = length (filter (\<lambda>(p, r). res_updated r) (outcomesInOrder rem fd ow ps s)),
      bulk_archived = length (filter (\<lambda>(p, r). res_archived r) (outcomesInOrder rem fd ow ps s)),
      bulk_errors = map (\<lambda>(p, r). (ident p, the (res_error r)))
                      (filter (\<lambda>(p, r). \<not> res_success r) (outcomesInOrder rem fd ow ps s))\<rparr>"
    by (rule exportProducts_outcomes)
  show "\<forall>q r. (q, r) \<in> set (outcomesInOrder rem fd ow ps s) \<and> \<not> res_success r \<longrightarrow>
          (\<exists>e'. r = failed e')"
    by (blast dest: outcomesInOrder_failed)
  show "bulk_success (fst (exportProducts rem fd ps ow s)) \<longleftrightarrow>
      bulk_errors (fst (exportProducts rem fd ps ow s)) = []"
    by (simp add: exportProducts_def split: prod.splits)
  show "exportProduct rem fd p1 ow s = (r1, sA) \<and> res_success r1 \<and>
    searchProduct rem p2 sA = (Inr None, sB) \<and> createProduct rem fd p2 sB = (Inl e, sC) \<and>
    exportProduct rem fd p3 ow sC = (r3, sD) \<and> res_success r3 \<longrightarrow>
      bulk_errors (fst (exportProducts rem fd [p1, p2, p3] ow s)) =
        [(ident p2, String_of_exn e)] \<and>
      snd (exportProducts rem fd [p1, p2, p3] ow s) = sD"
    using exportProducts_three [where rem=rem and fd=fd and ow=ow and s=s] by blast
qed

lemma getTags_rails: "getTags ''Rails Jouef'' = [''Jouef'']"
  by (simp add: getTags_def string_defs TAGS_MAP_def keywordsMatch_def)

lemma getCategory_rails: "getCategory ''Rails Jouef'' = Some ''Rails''"
  by (simp add: getCategory_def string_defs CATEGORY_MAP_def keywordsMatch_def)

lemmas batch_classes =
  sample_classes getTags_lima getCategory_lima getTags_rails getCategory_rails

text \<open>
  Witness of C4. On the sample catalog a batch of three new products, of which the
  second carries the tag Lima that the catalog does not know: two are created, the second
  is listed with its message, and the three product searches are sent in order. A catalog
  that cannot be reached fails the search; one that refuses changes fails the archiving
  and the update.
\<close>

theorem C4_batch_export_witness:
  "fst (exportProducts shopRemote plainDate
          [productOf ''11'' ''Jouef SNCF'' ACTIVE, productOf ''12'' ''Wagon Lima'' ACTIVE,
           productOf ''13'' ''Rails Jouef'' ACTIVE] True freshService) =
     \<lparr>bulk_success = False, bulk_created = 2, bulk_updated = 0, bulk_archived = 0,
      bulk_errors = [(''12'', ''Error: Tag '' @ quoted ''Lima'' @ '' not found in Odoo.'')]\<rparr> \<and>
   filter isProductSearch
     (sent (snd (exportProducts shopRemote plainDate
          [productOf ''11'' ''Jouef SNCF'' ACTIVE, productOf ''12'' ''Wagon Lima'' ACTIVE,
           productOf ''13'' ''Rails Jouef'' ACTIVE] True freshService))) =
     [ProductSearchRead ''Jouef SNCF'', ProductSearchRead ''Wagon Lima'',
      ProductSearchRead ''Rails Jouef''] \<and>
   fst (exportProduct deadRemote plainDate (productOf ''11'' ''Jouef SNCF'' ACTIVE) True
          freshService) = failed (TypeError ''Failed to fetch'') \<and>
   fst (exportProduct readOnlyRemote plainDate (productOf ''14'' ''Locomotive Roco'' SOLD) True
          freshService) =
     failed (Error ''HTTP error 500 for URL https://shop/json/2: Internal Server Error'') \<and>
   fst (exportProduct readOnlyRemote plainDate (productOf ''14'' ''Locomotive Roco'' ACTIVE) True
          freshService) =
     failed (Error ''HTTP error 500 for URL https://shop/json/2: Internal Server Error'')"
proof -
  let ?pJ = "productOf ''11'' ''Jouef SNCF'' ACTIVE"
  let ?pL = "productOf ''12'' ''Wagon Lima'' ACTIVE"
  let ?pR = "productOf ''13'' ''Rails Jouef'' ACTIVE"
  let ?sold = "productOf ''14'' ''Locomotive Roco'' SOLD"
  let ?act = "productOf ''14'' ''Locomotive Roco'' ACTIVE"
  let ?e = "Error (''Tag '' @ quoted ''Lima'' @ '' not found in Odoo.'')"
  let ?h = "Error ''HTTP error 500 for URL https://shop/json/2: Internal Server Error''"
  let ?batch = "exportProducts shopRemote plainDate [?pJ, ?pL, ?pR] True freshService"
  obtain r1 sA where one: "exportProduct shopRemote plainDate ?pJ True freshService = (r1, sA)"
    by (cases "exportProduct shopRemote plainDate ?pJ True freshService")
  have "res_success (fst (exportProduct shopRemote plainDate ?pJ True freshService))"
    and "TAGS_ID_CACHE (snd (exportProduct shopRemote plainDate ?pJ True freshService)) =
           [(''Jouef'', 1), (''SNCF'', 2)]"
    and "TAX_ID_CACHE (snd (exportProduct shopRemote plainDate ?pJ True freshService)) =
           [(taxName, 9)]"
    and "CATEGORY_ID_CACHE (snd (exportProduct shopRemote plainDate ?pJ True freshService)) = []"
    and "PUBLIC_CATEGORY_ID_CACHE (snd (exportProduct shopRemote plainDate ?pJ True freshService)) = []"
    by (simp_all add: service_defs remote_defs batch_classes)
  with one have ok1: "res_success r1" and tagsA: "TAGS_ID_CACHE sA = [(''Jouef'', 1), (''SNCF'', 2)]"
    and taxA: "TAX_ID_CACHE sA = [(taxName, 9)]"
    and catA: "CATEGORY_ID_CACHE sA = []" "PUBLIC_CATEGORY_ID_CACHE sA = []"
    by simp_all
  have "shopRemote (sent sA) (ProductSearchRead (title ?pL)) = Inr (jsonResponse (JArray []))"
    by (simp add: productOf_def)
  from searchProduct_empty [where rem=shopRemote, OF this emptyAnswer_sample]
  have two: "searchProduct shopRemote ?pL sA = (Inr None, afterSearch sA ?pL)" .
  obtain rc sC where cr: "createProduct shopRemote plainDate ?pL (afterSearch sA ?pL) = (rc, sC)"
    by (cases "createProduct shopRemote plainDate ?pL (afterSearch sA ?pL)")
  have "fst (createProduct shopRemote plainDate ?pL (afterSearch sA ?pL)) = Inl ?e"
    and "TAGS_ID_CACHE (snd (createProduct shopRemote plainDate ?pL (afterSearch sA ?pL))) =
           [(''Jouef'', 1), (''SNCF'', 2)]"
    and "TAX_ID_CACHE (snd (createProduct shopRemote plainDate ?pL (afterSearch sA ?pL))) =
           [(taxName, 9)]"
    and "CATEGORY_ID_CACHE (snd (createProduct shopRemote plainDate ?pL (afterSearch sA ?pL))) = []"
    and "PUBLIC_CATEGORY_ID_CACHE (snd (createProduct shopRemote plainDate ?pL (afterSearch sA ?pL))) = []"
    using tagsA taxA catA
    by (simp_all add: service_defs remote_defs batch_classes afterSearch_def)
  with cr have cr': "createProduct shopRemote plainDate ?pL (afterSearch sA ?pL) = (Inl ?e, sC)"
    and tagsC: "TAGS_ID_CACHE sC = [(''Jouef'', 1), (''SNCF'', 2)]"
    and taxC: "TAX_ID_CACHE sC = [(taxName, 9)]"
    and catC: "CATEGORY_ID_CACHE sC = []" "PUBLIC_CATEGORY_ID_CACHE sC = []"
    by simp_all
  obtain r3 sD where three: "exportProduct shopRemote plainDate ?pR True sC = (r3, sD)"
    by (cases "exportProduct shopRemote plainDate ?pR True sC")
  have "res_success (fst (exportProduct shopRemote plainDate ?pR True sC))"
    using tagsC taxC catC
    by (simp add: service_defs remote_defs batch_classes)
  with three have ok3: "res_success r3" by simp
  note c4 = C4_batch_export [where rem=shopRemote and fd=plainDate and ow=True
      and s=freshService and ps="[?pJ, ?pL, ?pR]" and ?p1.0="?pJ" and ?p2.0="?pL" and ?p3.0="?pR"
      and ?r1.0=r1 and sA=sA and sB="afterSearch sA ?pL" and sC=sC and ?r3.0=r3 and sD=sD
      and e="?e"]
  from c4 one ok1 two cr' three ok3
  have errs: "bulk_errors (fst ?batch) = [(ident ?pL, String_of_exn ?e)]"
    by blast
  from c4 have "filter isProductSearch (sentSince freshService (snd ?batch)) =
                  map (\<lambda>p. ProductSearchRead (title p)) [?pJ, ?pL, ?pR]"
    by blast
  then have searches: "filter isProductSearch (sent (snd ?batch)) =
     [ProductSearchRead ''Jouef SNCF'', ProductSearchRead ''Wagon Lima'',
      ProductSearchRead ''Rails Jouef'']"
    by (simp add: sentSince_def freshService_def productOf_def)
  have result: "fst ?batch =
     \<lparr>bulk_success = False, bulk_created = 2, bulk_updated = 0, bulk_archived = 0,
      bulk_errors = [(''12'', ''Error: Tag '' @ quoted ''Lima'' @ '' not found in Odoo.'')]\<rparr>"
    by (simp add: exportProducts_def service_defs remote_defs batch_classes)
  have "searchProduct deadRemote ?pJ freshService =
          (Inl (TypeError ''Failed to fetch''), afterSearch freshService ?pJ)"
    by (simp add: searchProduct_def searchFirstId_def fetch_def deadRemote_def afterSearch_def)
  with C4_batch_export [where rem=deadRemote and fd=plainDate and ow=True and s=freshService
      and p="?pJ" and e="TypeError ''Failed to fetch''" and ?s1.0="afterSearch freshService ?pJ"]
  have dead: "fst (exportProduct deadRemote plainDate ?pJ True freshService) =
                failed (TypeError ''Failed to fetch'')"
    by simp
  have fs: "searchProduct readOnlyRemote ?sold freshService =
              (Inr (Some 41), afterSearch freshService ?sold)"
    and fa: "searchProduct readOnlyRemote ?act freshService =
              (Inr (Some 41), afterSearch freshService ?act)"
    by (simp_all add: service_defs remote_defs afterSearch_def)
  obtain sE where ar: "archiveProduct readOnlyRemote [41] (afterSearch freshService ?sold) =
                         (Inl ?h, sE)"
    by (simp add: service_defs remote_defs afterSearch_def errorResponse_def)
  have "fst (updateProduct readOnlyRemote plainDate 41 ?act (afterSearch freshService ?act)) = Inl ?h"
    by (simp add: service_defs remote_defs afterSearch_def errorResponse_def batch_classes)
  then obtain sF where up: "updateProduct readOnlyRemote plainDate 41 ?act
                              (afterSearch freshService ?act) = (Inl ?h, sF)"
    by (cases "updateProduct readOnlyRemote plainDate 41 ?act (afterSearch freshService ?act)") simp
  have st: "state ?sold = SOLD \<or> state ?sold = REMOVED" "state ?act = ACTIVE"
    by (simp_all add: productOf_def)
  from C4_batch_export [where rem=readOnlyRemote and fd=plainDate and ow=True and s=freshService
      and p="?sold" and e="?h" and i=41 and ?s1.0="afterSearch freshService ?sold" and ?s2.0=sE]
    fs ar st(1)
  have sold: "fst (exportProduct readOnlyRemote plainDate ?sold True freshService) = failed ?h"
    by simp
  from C4_batch_export [where rem=readOnlyRemote and fd=plainDate and ow=True and s=freshService
      and p="?act" and e="?h" and i=41 and ?s1.0="afterSearch freshService ?act" and ?s2.0=sF]
    fa up st(2)
  have act: "fst (exportProduct readOnlyRemote plainDate ?act True freshService) = failed ?h"
    by simp
  from result searches dead sold act show ?thesis by blast
qed

section \<open>Properties of the mapper\<close>

lemma getTagId_miss:
  assumes "map_of (TAGS_ID_CACHE s) t = None"
    and "rem (sent s) (TagSearchRead t) = Inr resp" and "emptyAnswer resp"
  shows "getTagId rem t s =
           (Inl (Error (''Tag '' @ quoted t @ '' not found in Odoo.'')),
            s\<lparr>sent := sent s @ [TagSearchRead t]\<rparr>)"
  using assms(1) searchFirstId_emptyAnswer [where rem=rem and s=s, OF assms(2,3)]
  by (simp add: getTagId_def)

lemma getTaxId_miss:
  assumes "map_of (TAX_ID_CACHE s) taxName = None"
    and "rem (sent s) (TaxSearchRead taxName) = Inr resp" and "emptyAnswer resp"
  shows "getTaxId rem s =
           (Inl (Error (''Tax '' @ quoted taxName @ '' not found in Odoo.'')),
            s\<lparr>sent := sent s @ [TaxSearchRead taxName]\<rparr>)"
  using assms(1) searchFirstId_emptyAnswer [where rem=rem and s=s, OF assms(2,3)]
  by (simp add: getTaxId_def)

lemma getPublicCategoryId_miss:
  assumes "map_of (PUBLIC_CATEGORY_ID_CACHE s) c = None"
    and "rem (sent s) (PublicCategorySearch c) = Inr resp" and "emptyAnswer resp"
  shows "getPublicCategoryId rem c s = (Inr None, s\<lparr>sent := sent s @ [PublicCategorySearch c]\<rparr>)"
  using assms(1) searchFirstId_emptyAnswer [where rem=rem and s=s, OF assms(2,3)]
  by (simp add: getPublicCategoryId_def)

lemma getTagId_cache_other:
  assumes "getTagId rem x s = (r, s1)" and "x \<noteq> t"
  shows "map_of (TAGS_ID_CACHE s1) t = map_of (TAGS_ID_CACHE s) t"
proof (cases "map_of (TAGS_ID_CACHE s) x")
  case (Some i)
  with assms(1) show ?thesis by (simp add: getTagId_def)
next
  case None
  obtain r0 s0 where sf: "searchFirstId rem (TagSearchRead x) s = (r0, s0)"
    by (cases "searchFirstId rem (TagSearchRead x) s")
  from searchFirstId_caches [OF sf] have s0: "TAGS_ID_CACHE s0 = TAGS_ID_CACHE s" by simp
  from assms(1) None sf have "TAGS_ID_CACHE s1 = TAGS_ID_CACHE s0 \<or>
      (\<exists>i. TAGS_ID_CACHE s1 = AList.update x i (TAGS_ID_CACHE s0))"
    by (auto simp: getTagId_def split: sum.splits option.splits)
  with s0 assms(2) show ?thesis by (auto simp: update_conv')
qed

text \<open>
  A tag of the list that the catalog never knows, and that the cache does not hold,
  makes the resolution of the list fail.
\<close>

lemma getTagIds_miss:
  assumes "\<forall>h. \<exists>resp. rem h (TagSearchRead t) = Inr resp \<and> emptyAnswer resp"
  shows "t \<in> set ts \<Longrightarrow> map_of (TAGS_ID_CACHE s) t = None \<Longrightarrow>
         \<exists>e. fst (getTagIds rem ts s) = Inl e"
proof (induction ts arbitrary: s)
  case Nil
  then show ?case by simp
next
  case (Cons x ts)
  obtain r s1 where one: "getTagId rem x s = (r, s1)" by (cases "getTagId rem x s")
  obtain rs s2 where rest: "getTagIds rem ts s1 = (rs, s2)" by (cases "getTagIds rem ts s1")
  show ?case
  proof (cases "x = t")
    case True
    from assms obtain resp where "rem (sent s) (TagSearchRead t) = Inr resp" "emptyAnswer resp"
      by blast
    from getTagId_miss [where rem=rem, OF Cons.prems(2) this] True one
    have "r = Inl (Error (''Tag '' @ quoted t @ '' not found in Odoo.''))" by simp
    with one rest show ?thesis by simp
  next
    case False
    with Cons.prems(1) have mem: "t \<in> set ts" by simp
    from getTagId_cache_other [OF one False] Cons.prems(2)
    have "map_of (TAGS_ID_CACHE s1) t = None" by simp
    from Cons.IH [OF mem this] rest obtain e where "rs = Inl e" by auto
    with one rest show ?thesis by (cases r) simp_all
  qed
qed

lemma setCategory_primary_fails:
  "getCategoryId rem c s = (Inl e, s1) \<Longrightarrow> setCategory rem c pd s = (pd, s1)"
  by (simp add: setCategory_def)

lemma setCategory_public_miss:
  "getCategoryId rem c s = (Inr cid, s1) \<Longrightarrow> getPublicCategoryId rem c s1 = (Inr None, s2) \<Longrightarrow>
   setCategory rem c pd s = (pd\<lparr>categ_id := Some cid\<rparr>, s2)"
  by (simp add: setCategory_def)

text \<open>
  \<^bold>\<open>C8\<close>. The tags and the tax are resolved, the image step and the date are done, and the
  title has the category \<open>c\<close>. (1) When the lookup of the primary category throws, the
  mapping still returns the payload, without \<open>categ_id\<close> and \<open>public_categ_ids\<close>.
  (2) A lookup of the public category that the catalog answers with no record returns
  none and throws nothing. (3) With the primary category resolved and the public one
  missed, the payload has \<open>categ_id\<close> and no \<open>public_categ_ids\<close>. (4) A tag lookup
  answered with no record throws the not-found error; (5) a tag of the title that the
  catalog never knows makes the mapping return an error instead of a payload. (6) A tax
  lookup answered with no record makes the mapping return the not-found error.
\<close>

theorem C8_mapping_failures:
  "(getTagIds rem (getTags (title p)) s = (Inr tids, s1) \<and> getTaxId rem s1 = (Inr tax, s2) \<and>
    loadImages rem p s2 = ((img, imgIds), s3) \<and> fd (date p) = Some d \<and>
    getCategory (title p) = Some c \<and> getCategoryId rem c s3 = (Inl e, s4) \<longrightarrow>
      productToOdooDict rem fd p s = (Inr (basePayload p tids tax img imgIds d), s4) \<and>
      categ_id (basePayload p tids tax img imgIds d) = None \<and>
      public_categ_ids (basePayload p tids tax img imgIds d) = None) \<and>
   (map_of (PUBLIC_CATEGORY_ID_CACHE s') c' = None \<and>
    rem (sent s') (PublicCategorySearch c') = Inr resp \<and> emptyAnswer resp \<longrightarrow>
      getPublicCategoryId rem c' s' =
        (Inr None, s'\<lparr>sent := sent s' @ [PublicCategorySearch c']\<rparr>)) \<and>
   (getTagIds rem (getTags (title p)) s = (Inr tids, s1) \<and> getTaxId rem s1 = (Inr tax, s2) \<and>
    loadImages rem p s2 = ((img, imgIds), s3) \<and> fd (date p) = Some d \<and>
    getCategory (title p) = Some c \<and> getCategoryId rem c s3 = (Inr cid, s4) \<and>
    getPublicCategoryId rem c s4 = (Inr None, s5) \<longrightarrow>
      productToOdooDict rem fd p s =
        (Inr ((basePayload p tids tax img imgIds d)\<lparr>categ_id := Some cid\<rparr>), s5) \<and>
      public_categ_ids ((basePayload p tids tax img imgIds d)\<lparr>categ_id := Some cid\<rparr>) = None) \<and>
   (map_of (TAGS_ID_CACHE s') t = None \<and>
    rem (sent s') (TagSearchRead t) = Inr resp \<and> emptyAnswer resp \<longrightarrow>
      getTagId rem t s' =
        (Inl (Error (''Tag '' @ quoted t @ '' not found in Odoo.'')),
         s'\<lparr>sent := sent s' @ [TagSearchRead t]\<rparr>)) \<and>
   ((\<forall>h. \<exists>r. rem h (TagSearchRead t) = Inr r \<and> emptyAnswer r) \<and>
    t \<in> set (getTags (title p)) \<and> map_of (TAGS_ID_CACHE s) t = None \<longrightarrow>
      (\<exists>e' s''. productToOdooDict rem fd p s = (Inl e', s''))) \<and>
   (getTagIds rem (getTags (title p)) s = (Inr tids, s1) \<and>
    map_of (TAX_ID_CACHE s1) taxName = None \<and>
    rem (sent s1) (TaxSearchRead taxName) = Inr resp \<and> emptyAnswer resp \<longrightarrow>
      productToOdooDict rem fd p s =
        (Inl (Error (''Tax '' @ quoted taxName @ '' not found in Odoo.'')),
         s1\<lparr>sent := sent s1 @ [TaxSearchRead taxName]\<rparr>))"
proof (intro conjI impI)
  assume h: "getTagIds rem (getTags (title p)) s = (Inr tids, s1) \<and>
    getTaxId rem s1 = (Inr tax, s2) \<and>
    loadImages rem p s2 = ((img, imgIds), s3) \<and> fd (date p) = Some d \<and>
    getCategory (title p) = Some c \<and> getCategoryId rem c s3 = (Inl e, s4)"
  then have c: "getCategory (title p) = Some c" by blast
  from h have "setCategory rem c (basePayload p tids tax img imgIds d) s3 =
                 (basePayload p tids tax img imgIds d, s4)"
    by (blast intro: setCategory_primary_fails)
  with h getCategory_nonempty [OF c]
  show "productToOdooDict rem fd p s = (Inr (basePayload p tids tax img imgIds d), s4)"
    by (simp add: productToOdooDict_def)
  show "categ_id (basePayload p tids tax img imgIds d) = None"
    and "public_categ_ids (basePayload p tids tax img imgIds d) = None"
    by (simp_all add: basePayload_def)
next
  assume "map_of (PUBLIC_CATEGORY_ID_CACHE s') c' = None \<and>
    rem (sent s') (PublicCategorySearch c') = Inr resp \<and> emptyAnswer resp"
  then show "getPublicCategoryId rem c' s' =
        (Inr None, s'\<lparr>sent := sent s' @ [PublicCategorySearch c']\<rparr>)"
    by (blast intro: getPublicCategoryId_miss)
next
  assume h: "getTagIds rem (getTags (title p)) s = (Inr tids, s1) \<and>
    getTaxId rem s1 = (Inr tax, s2) \<and>
    loadImages rem p s2 = ((img, imgIds), s3) \<and> fd (date p) = Some d \<and>
    getCategory (title p) = Some c \<and> getCategoryId rem c s3 = (Inr cid, s4) \<and>
    getPublicCategoryId rem c s4 = (Inr None, s5)"
  then have c: "getCategory (title p) = Some c" by blast
  from h have "setCategory rem c (basePayload p tids tax img imgIds d) s3 =
                 ((basePayload p tids tax img imgIds d)\<lparr>categ_id := Some cid\<rparr>, s5)"
    by (blast intro: setCategory_public_miss)
  with h getCategory_nonempty [OF c]
  show "productToOdooDict rem fd p s =
        (Inr ((basePayload p tids tax img imgIds d)\<lparr>categ_id := Some cid\<rparr>), s5)"
    by (simp add: productToOdooDict_def)
  show "public_categ_ids ((basePayload p tids tax img imgIds d)\<lparr>categ_id := Some cid\<rparr>) = None"
    by (simp add: basePayload_def)
next
  assume "map_of (TAGS_ID_CACHE s') t = None \<and>
    rem (sent s') (TagSearchRead t) = Inr resp \<and> emptyAnswer resp"
  then show "getTagId rem t s' =
        (Inl (Error (''Tag '' @ quoted t @ '' not found in Odoo.'')),
         s'\<lparr>sent := sent s' @ [TagSearchRead t]\<rparr>)"
    by (blast intro: getTagId_miss)
next
  assume h: "(\<forall>h. \<exists>r. rem h (TagSearchRead t) = Inr r \<and> emptyAnswer r) \<and>
    t \<in> set (getTags (title p)) \<and> map_of (TAGS_ID_CACHE s) t = None"
  then have never: "\<forall>h. \<exists>r. rem h (TagSearchRead t) = Inr r \<and> emptyAnswer r"
    and mem: "t \<in> set (getTags (title p))" and miss: "map_of (TAGS_ID_CACHE s) t = None"
    by blast+
  from getTagIds_miss [where rem=rem, OF never mem miss] obtain e' where
    "fst (getTagIds rem (getTags (title p)) s) = Inl e'"
    by blast
  then obtain s'' where "getTagIds rem (getTags (title p)) s = (Inl e', s'')"
    by (cases "getTagIds rem (getTags (title p)) s") simp
  then have "productToOdooDict rem fd p s = (Inl e', s'')"
    by (rule productToOdooDict_tags_fail)
  then show "\<exists>e' s''. productToOdooDict rem fd p s = (Inl e', s'')" by blast
next
  assume h: "getTagIds rem (getTags (title p)) s = (Inr tids, s1) \<and>
    map_of (TAX_ID_CACHE s1) taxName = None \<and>
    rem (sent s1) (TaxSearchRead taxName) = Inr resp \<and> emptyAnswer resp"
  then have "getTaxId rem s1 =
           (Inl (Error (''Tax '' @ quoted taxName @ '' not found in Odoo.'')),
            s1\<lparr>sent := sent s1 @ [TaxSearchRead taxName]\<rparr>)"
    by (blast intro: getTaxId_miss)
  with h show "productToOdooDict rem fd p s =
        (Inl (Error (''Tax '' @ quoted taxName @ '' not found in Odoo.'')),
         s1\<lparr>sent := sent s1 @ [TaxSearchRead taxName]\<rparr>)"
    by (blast intro: productToOdooDict_tax_fail)
qed

lemma getTags_wagon_jouef: "getTags ''Wagon Jouef'' = [''Jouef'']"
  by (simp add: getTags_def string_defs TAGS_MAP_def keywordsMatch_def)

lemma getCategory_wagon_jouef: "getCategory ''Wagon Jouef'' = Some ''Wagons''"
  by (simp add: getCategory_def string_defs CATEGORY_MAP_def keywordsMatch_def)

lemmas mapper_classes = batch_classes getTags_wagon_jouef getCategory_wagon_jouef

text \<open>
  Witness of C8, on the sample catalog, which knows the category Wagons but not Rails,
  no public category and not the tag Lima: the payload of \<open>Rails Jouef\<close> is made
  without category, that of \<open>Wagon Jouef\<close> with \<open>categ_id\<close> 5 and no public category;
  the mapping of \<open>Wagon Lima\<close> fails on the tag, and on the catalog without the tax the
  mapping of \<open>Jouef SNCF\<close> fails on the tax.
\<close>

theorem C8_mapping_failures_witness:
  "fst (productToOdooDict shopRemote plainDate (productOf ''13'' ''Rails Jouef'' ACTIVE)
          freshService) =
     Inr (basePayload (productOf ''13'' ''Rails Jouef'' ACTIVE) [1] 9 None []
            ''2024-02-01 00:00:00'') \<and>
   getPublicCategoryId shopRemote ''Wagons'' freshService =
     (Inr None, freshService\<lparr>sent := [PublicCategorySearch ''Wagons'']\<rparr>) \<and>
   fst (productToOdooDict shopRemote plainDate (productOf ''15'' ''Wagon Jouef'' ACTIVE)
          freshService) =
     Inr ((basePayload (productOf ''15'' ''Wagon Jouef'' ACTIVE) [1] 9 None []
             ''2024-02-01 00:00:00'')\<lparr>categ_id := Some 5\<rparr>) \<and>
   fst (getTagId shopRemote ''Lima'' freshService) =
     Inl (Error (''Tag '' @ quoted ''Lima'' @ '' not found in Odoo.'')) \<and>
   fst (productToOdooDict shopRemote plainDate (productOf ''12'' ''Wagon Lima'' ACTIVE)
          freshService) =
     Inl (Error (''Tag '' @ quoted ''Lima'' @ '' not found in Odoo.'')) \<and>
   fst (productToOdooDict noTaxRemote plainDate (productOf ''11'' ''Jouef SNCF'' ACTIVE)
          freshService) =
     Inl (Error (''Tax '' @ quoted taxName @ '' not found in Odoo.''))"
proof -
  let ?pJ = "productOf ''11'' ''Jouef SNCF'' ACTIVE"
  let ?pL = "productOf ''12'' ''Wagon Lima'' ACTIVE"
  let ?pR = "productOf ''13'' ''Rails Jouef'' ACTIVE"
  let ?pW = "productOf ''15'' ''Wagon Jouef'' ACTIVE"
  let ?d = "''2024-02-01 00:00:00''"
  let ?s1 = "freshService\<lparr>sent := [TagSearchRead ''Jouef''], TAGS_ID_CACHE := [(''Jouef'', 1)]\<rparr>"
  let ?s2 = "freshService\<lparr>sent := [TagSearchRead ''Jouef'', TaxSearchRead taxName],
               TAGS_ID_CACHE := [(''Jouef'', 1)], TAX_ID_CACHE := [(taxName, 9)]\<rparr>"
  have tagsR: "getTagIds shopRemote (getTags (title ?pR)) freshService = (Inr [1], ?s1)"
    and tagsW: "getTagIds shopRemote (getTags (title ?pW)) freshService = (Inr [1], ?s1)"
    by (simp_all add: service_defs remote_defs mapper_classes)
  have tax: "getTaxId shopRemote ?s1 = (Inr 9, ?s2)"
    by (simp add: service_defs remote_defs)
  have imgR: "loadImages shopRemote ?pR ?s2 = ((None, []), ?s2)"
    and imgW: "loadImages shopRemote ?pW ?s2 = ((None, []), ?s2)"
    by (simp_all add: loadImages_def productOf_def)
  have dR: "plainDate (date ?pR) = Some ?d" and dW: "plainDate (date ?pW) = Some ?d"
    by (simp_all add: plainDate_def productOf_def)
  have cR: "getCategory (title ?pR) = Some ''Rails''"
    and cW: "getCategory (title ?pW) = Some ''Wagons''"
    by (simp_all add: productOf_def mapper_classes)
  obtain s4 where catR: "getCategoryId shopRemote ''Rails'' ?s2 =
      (Inl (Error (''Category '' @ quoted ''Rails'' @ '' not found in Odoo.'')), s4)"
    by (simp add: service_defs remote_defs)
  obtain s4' where catW: "getCategoryId shopRemote ''Wagons'' ?s2 = (Inr 5, s4')"
    and pubW0: "map_of (PUBLIC_CATEGORY_ID_CACHE s4') ''Wagons'' = None"
    by (simp add: service_defs remote_defs)
  have pr: "shopRemote h (PublicCategorySearch ''Wagons'') = Inr (jsonResponse (JArray []))" for h
    by simp
  note c8 = C8_mapping_failures [where rem=shopRemote and fd=plainDate and s=freshService
      and tids="[1]" and ?s1.0="?s1" and tax=9 and ?s2.0="?s2" and img=None and imgIds="[]"
      and ?s3.0="?s2" and d="?d" and resp="jsonResponse (JArray [])"]
  from c8 [where p="?pR" and c="''Rails''" and ?s4.0=s4] tagsR tax imgR dR cR catR
  have one: "productToOdooDict shopRemote plainDate ?pR freshService =
               (Inr (basePayload ?pR [1] 9 None [] ?d), s4)"
    by blast
  have m0: "map_of (PUBLIC_CATEGORY_ID_CACHE freshService) ''Wagons'' = None"
    by (simp add: freshService_def)
  from c8 [where s'=freshService and c'="''Wagons''"] m0 pr [of "sent freshService"]
    emptyAnswer_sample
  have "getPublicCategoryId shopRemote ''Wagons'' freshService =
          (Inr None, freshService\<lparr>sent := sent freshService @ [PublicCategorySearch ''Wagons'']\<rparr>)"
    by blast
  then have two: "getPublicCategoryId shopRemote ''Wagons'' freshService =
                    (Inr None, freshService\<lparr>sent := [PublicCategorySearch ''Wagons'']\<rparr>)"
    by (simp add: freshService_def)
  from c8 [where s'=s4' and c'="''Wagons''"] pubW0 pr [of "sent s4'"] emptyAnswer_sample
  have pubW: "getPublicCategoryId shopRemote ''Wagons'' s4' =
                (Inr None, s4'\<lparr>sent := sent s4' @ [PublicCategorySearch ''Wagons'']\<rparr>)"
    by blast
  from c8 [where p="?pW" and c="''Wagons''" and cid=5 and ?s4.0=s4'
      and ?s5.0="s4'\<lparr>sent := sent s4' @ [PublicCategorySearch ''Wagons'']\<rparr>"]
    tagsW tax imgW dW cW catW pubW
  have three: "productToOdooDict shopRemote plainDate ?pW freshService =
      (Inr ((basePayload ?pW [1] 9 None [] ?d)\<lparr>categ_id := Some 5\<rparr>),
       s4'\<lparr>sent := sent s4' @ [PublicCategorySearch ''Wagons'']\<rparr>)"
    by blast
  have l0: "map_of (TAGS_ID_CACHE freshService) ''Lima'' = None"
    by (simp add: freshService_def)
  have lr: "shopRemote h (TagSearchRead ''Lima'') = Inr (jsonResponse (JArray []))" for h
    by simp
  from c8 [where s'=freshService and t="''Lima''"] l0 lr [of "sent freshService"]
    emptyAnswer_sample
  have four: "getTagId shopRemote ''Lima'' freshService =
        (Inl (Error (''Tag '' @ quoted ''Lima'' @ '' not found in Odoo.'')),
         freshService\<lparr>sent := sent freshService @ [TagSearchRead ''Lima'']\<rparr>)"
    by blast
  have never: "\<forall>h. \<exists>r. shopRemote h (TagSearchRead ''Lima'') = Inr r \<and> emptyAnswer r"
    using lr emptyAnswer_sample by blast
  have memL: "''Lima'' \<in> set (getTags (title ?pL))"
    by (simp add: productOf_def mapper_classes)
  from c8 [where p="?pL" and t="''Lima''"] never memL l0
  obtain e' s'' where "productToOdooDict shopRemote plainDate ?pL freshService = (Inl e', s'')"
    by blast
  moreover have "fst (productToOdooDict shopRemote plainDate ?pL freshService) =
                   Inl (Error (''Tag '' @ quoted ''Lima'' @ '' not found in Odoo.''))"
    by (simp add: service_defs remote_defs mapper_classes)
  ultimately have five: "productToOdooDict shopRemote plainDate ?pL freshService =
      (Inl (Error (''Tag '' @ quoted ''Lima'' @ '' not found in Odoo.'')), s'')"
    by simp
  let ?t1 = "freshService\<lparr>sent := [TagSearchRead ''Jouef'', TagSearchRead ''SNCF''],
               TAGS_ID_CACHE := [(''Jouef'', 1), (''SNCF'', 2)]\<rparr>"
  have tagsJ: "getTagIds noTaxRemote (getTags (title ?pJ)) freshService = (Inr [1, 2], ?t1)"
    by (simp add: service_defs remote_defs mapper_classes)
  have x0: "map_of (TAX_ID_CACHE ?t1) taxName = None"
    by (simp add: freshService_def)
  have xr: "noTaxRemote (sent ?t1) (TaxSearchRead taxName) = Inr (jsonResponse (JArray []))"
    by simp
  from C8_mapping_failures [where rem=noTaxRemote and fd=plainDate and s=freshService
      and p="?pJ" and tids="[1, 2]" and ?s1.0="?t1" and resp="jsonResponse (JArray [])"]
    tagsJ x0 xr emptyAnswer_sample
  have six: "productToOdooDict noTaxRemote plainDate ?pJ freshService =
        (Inl (Error (''Tax '' @ quoted taxName @ '' not found in Odoo.'')),
         ?t1\<lparr>sent := sent ?t1 @ [TaxSearchRead taxName]\<rparr>)"
    by blast
  from one two three four five six show ?thesis by simp
qed

section \<open>Properties of the export handlers\<close>










lemma removePhrase_example: "removePhrase ''Train Wagon SNCF bleu'' = '' SNCF bleu''"
  by (simp add: string_defs)












end
